theory Spec2Isabelle
  imports Main "HOL-Library.Word"
begin

section \<open>Common conventions\<close>

text \<open>
  A Go function that can dereference a nil pointer either panics or returns; the panic is a
  value of the model. A Go \<open>error\<close> result is an \<open>option\<close>: \<open>None\<close> is \<open>nil\<close>.
\<close>

datatype 'a outcome = Panic | Return 'a

text \<open>
  The typed errors of the backend and of the provider package. \<open>Wrapf m e\<close> is
  \<open>fmt.Errorf(m + ": %w", e)\<close>, which wraps \<open>e\<close>; \<open>Errorf_v m e\<close> is
  \<open>fmt.Errorf(m + ": %v", e)\<close>, which only prints it; \<open>ErrorString\<close> is any other plain
  error.
  \<open>provider.FatalErrorf\<close> and \<open>provider.RetryableErrorf\<close> are declared outside src: a
  fatal error never resolves by retrying, a retryable one carries the estimated wait (here in
  seconds) after which to call again.
\<close>

datatype error =
    ErrorString string
  | Wrapf string error
  | Errorf_v string error
  | BadRequestError string
  | ConflictError string
  | PreconditionFailedError string
  | FatalError error
  | RetryableError nat error

text \<open>\<open>errors.As(err, &conflictErr)\<close>: a \<open>ConflictError\<close> somewhere in the \<open>%w\<close> chain.\<close>

fun errors_As_ConflictError :: "error \<Rightarrow> bool" where
  "errors_As_ConflictError (ConflictError r) = True"
| "errors_As_ConflictError (Wrapf m e) = errors_As_ConflictError e"
| "errors_As_ConflictError e = False"

text \<open>
  \<open>strings.Split(s, sep)\<close> for a one-byte separator: one part more than separators. It
  also serves to cut a text at its single quotes.
\<close>

fun strings_Split :: "string \<Rightarrow> char \<Rightarrow> string list" where
  "strings_Split [] sep = [[]]"
| "strings_Split (c # cs) sep =
     (if c = sep then [] # strings_Split cs sep
      else (case strings_Split cs sep of
              [] \<Rightarrow> [[c]]
            | part # parts \<Rightarrow> (c # part) # parts))"

definition quote :: char where
  "quote = CHR 0x27"

section \<open>backend/pkg/database/gorm: revisions (common.go)\<close>

text \<open>Go's \<open>int\<close> on the 64-bit targets the backend is built for; \<open>+\<close> wraps.\<close>

type_synonym go_int = "64 word"

text \<open>The \<open>%d\<close> verb: a signed decimal numeral.\<close>

fun fmt_nat :: "nat \<Rightarrow> string" where
  "fmt_nat n =
     (if n < 10 then [char_of (48 + n)]
      else fmt_nat (n div 10) @ [char_of (48 + n mod 10)])"

definition fmt_d :: "go_int \<Rightarrow> string" where
  "fmt_d w = (if sint w < 0 then CHR ''-'' # fmt_nat (nat (- sint w)) else fmt_nat (nat (sint w)))"

text \<open>
  \<open>checkRevisionEtag\<close>. The arguments of \<open>fmt.Sprintf\<close> are evaluated when the condition
  holds: \<open>*revision\<close> and \<open>*ifMatch\<close> are dereferenced there, and a nil one panics.
\<close>

definition checkRevisionEtag :: "go_int option \<Rightarrow> go_int option \<Rightarrow> error option outcome" where
  "checkRevisionEtag ifMatch revision =
     (if (ifMatch \<noteq> None \<and> revision \<noteq> None \<and> the ifMatch \<noteq> the revision)
         \<or> (ifMatch \<noteq> None \<and> revision = None)
      then (case revision of
              None \<Rightarrow> Panic
            | Some r \<Rightarrow>
               (case ifMatch of
                  None \<Rightarrow> Panic
                | Some m \<Rightarrow>
                    Return (Some (PreconditionFailedError
                      (''Revision '' @ fmt_d r @ '' does not match '' @ fmt_d m
                        @ ''. The object may have been modified since you started the request.'')))))
      else Return None)"

definition bumpRevision :: "go_int option \<Rightarrow> go_int option" where
  "bumpRevision oldrevision =
     (case oldrevision of Some r \<Rightarrow> Some (r + 1) | None \<Rightarrow> Some 1)"

section \<open>backend/pkg/database/gorm: scan results (scan_result.go)\<close>

text \<open>
  The API model, with the fields the table handler reads or writes; \<open>tsr_Rest\<close> stands for
  all the others. \<open>Scan\<close> and \<open>Target\<close> are pointers to relationships, \<open>Id\<close> and
  \<open>Revision\<close> are pointers.
\<close>

record ScanRelationship =
  scan_Id :: string

record TargetRelationship =
  target_Id :: string

record 'a TargetScanResult =
  tsr_Id :: "string option"
  tsr_Revision :: "go_int option"
  tsr_Scan :: "ScanRelationship option"
  tsr_Target :: "TargetRelationship option"
  tsr_Rest :: "'a option"

text \<open>\<open>models.TargetScanResult{}\<close>, the zero value.\<close>

definition TargetScanResult_zero :: "'a TargetScanResult" where
  "TargetScanResult_zero =
     \<lparr>tsr_Id = None, tsr_Revision = None, tsr_Scan = None, tsr_Target = None, tsr_Rest = None\<rparr>"

text \<open>
  The table: its rows in insertion order. A row's \<open>Data\<close> column is the JSON document of an
  API model, and \<open>json.Marshal\<close> followed by \<open>json.Unmarshal\<close> gives the model back, so a
  row is represented by the model it encodes.
\<close>

type_synonym 'a table = "'a TargetScanResult list"

text \<open>
  What the handler cannot decide by itself: the identifier \<open>uuid.New().String()\<close> returns,
  whether a query, an insert or a save fails in the database, and what a query answers on a
  filter text outside the part of OData modelled below.
\<close>

record 'a DBEnv =
  uuid_New :: string
  query_error :: "error option"
  create_error :: "error option"
  save_error :: "error option"
  other_query :: "string \<Rightarrow> 'a table \<Rightarrow> error + 'a TargetScanResult list"

text \<open>
  The \<open>$filter\<close> texts. The handler formats its ids into the text between single quotes,
  as they are: \<open>fmt.Sprintf("id eq '%s'", ...)\<close> and
  \<open>fmt.Sprintf("id ne '%s' and target/id eq '%s' and scan/id eq '%s'", ...)\<close>.
\<close>

definition filter_id_eq :: "string \<Rightarrow> string" where
  "filter_id_eq objID = ''id eq '' @ quote # objID @ [quote]"

definition filter_id_ne_target_scan :: "string \<Rightarrow> string \<Rightarrow> string \<Rightarrow> string" where
  "filter_id_ne_target_scan i t s =
     ''id ne '' @ quote # i @ quote # '' and target/id eq '' @ quote # t
       @ quote # '' and scan/id eq '' @ quote # s @ [quote]"

text \<open>
  The part of OData the model reads: a conjunction (\<open>and\<close>) of comparisons (\<open>eq\<close>,
  \<open>ne\<close>) of \<open>id\<close>, \<open>target/id\<close> or \<open>scan/id\<close> with a string literal between single
  quotes that has no quote inside. The translator of the repository, \<open>buildWhereFromFilter\<close>
  (odatasql, in src/unnamed/part_000), turns \<open>eq\<close> into \<open>=\<close>, \<open>ne\<close> into \<open>!=\<close> and
  \<open>and\<close> into \<open>(l AND r)\<close>, each comparison on the JSON value at the path against the
  literal; in SQL a comparison with the value of an absent path is not true. The parser
  that gives the translator its tree is a library (godata); of it the model has that a
  string literal ends at the next single quote.
\<close>

datatype odata_field = Field_id | Field_target_id | Field_scan_id

datatype comparison = Compare odata_field bool string

definition comparison_heads :: "(string \<times> odata_field \<times> bool) list" where
  "comparison_heads =
     [(''id eq '', Field_id, False), (''id ne '', Field_id, True),
      (''target/id eq '', Field_target_id, False), (''target/id ne '', Field_target_id, True),
      (''scan/id eq '', Field_scan_id, False), (''scan/id ne '', Field_scan_id, True)]"

text \<open>
  The text cut at its quotes alternates between what stands before a literal and the
  literal; after the last literal nothing may follow. Every comparison but the first is
  joined by \<open>and\<close>.
\<close>

fun parse_parts :: "bool \<Rightarrow> string list \<Rightarrow> comparison list option" where
  "parse_parts first [] = None"
| "parse_parts first [rest] = (if rest = [] \<and> \<not> first then Some [] else None)"
| "parse_parts first (before # literal # parts) =
     (if \<not> first \<and> take 5 before \<noteq> '' and '' then None
      else
        (case map_of comparison_heads (if first then before else drop 5 before) of
           None \<Rightarrow> None
         | Some (field, negated) \<Rightarrow>
             (case parse_parts False parts of
                None \<Rightarrow> None
              | Some cs \<Rightarrow> Some (Compare field negated literal # cs))))"

definition odata_parse :: "string \<Rightarrow> comparison list option" where
  "odata_parse text = parse_parts True (strings_Split text quote)"

definition field_value :: "odata_field \<Rightarrow> 'a TargetScanResult \<Rightarrow> string option" where
  "field_value field r =
     (case field of
        Field_id \<Rightarrow> tsr_Id r
      | Field_target_id \<Rightarrow> map_option target_Id (tsr_Target r)
      | Field_scan_id \<Rightarrow> map_option scan_Id (tsr_Scan r))"

fun holds :: "comparison \<Rightarrow> 'a TargetScanResult \<Rightarrow> bool" where
  "holds (Compare field negated literal) r =
     (case field_value field r of
        None \<Rightarrow> False
      | Some v \<Rightarrow> (if negated then v \<noteq> literal else v = literal))"

text \<open>
  \<open>ODataQuery\<close> itself (gorm/odata.go) is not under src; it is called with the filter
  text, has it parsed and translated (\<open>BuildSQLQuery\<close>, in src/unnamed/part_000) and runs
  the SQL. As a collection query it returns the rows of the table that satisfy the filter,
  or the database's error. What it does on a text outside the part above is a parameter
  (\<open>other_query\<close>).
\<close>

definition ODataQuery ::
  "'a DBEnv \<Rightarrow> 'a table \<Rightarrow> string \<Rightarrow> error + 'a TargetScanResult list" where
  "ODataQuery env db filterText =
     (case query_error env of
        Some e \<Rightarrow> Inl e
      | None \<Rightarrow>
          (case odata_parse filterText of
             None \<Rightarrow> other_query env filterText db
           | Some cs \<Rightarrow> Inr (filter (\<lambda>r. list_all (\<lambda>c. holds c r) cs) db)))"

text \<open>
  \<open>getExistingObjByID\<close>: the single-object query; no row is \<open>gorm.ErrRecordNotFound\<close>,
  returned as \<open>types.ErrNotFound\<close>.
\<close>

definition ErrNotFound :: error where
  "ErrNotFound = ErrorString ''not found''"

definition getExistingObjByID :: "'a DBEnv \<Rightarrow> 'a table \<Rightarrow> string \<Rightarrow> error + 'a TargetScanResult" where
  "getExistingObjByID env db objID =
     (case ODataQuery env db (filter_id_eq objID) of
        Inl e \<Rightarrow> Inl e
      | Inr [] \<Rightarrow> Inl ErrNotFound
      | Inr (obj # _) \<Rightarrow> Inr obj)"

text \<open>\<open>DB.Save(&dbObj)\<close>: the row that was read is overwritten in place.\<close>

fun save_row :: "string \<Rightarrow> 'a TargetScanResult \<Rightarrow> 'a table \<Rightarrow> 'a table" where
  "save_row objID new [] = []"
| "save_row objID new (r # rs) =
     (if tsr_Id r = Some objID then new # rs else r # save_row objID new rs)"

text \<open>
  \<open>checkUniqueness\<close>. The filter's arguments dereference \<open>scanResult.Id\<close>,
  \<open>scanResult.Target\<close> and \<open>scanResult.Scan\<close>; the ids go into the text unescaped.
\<close>

definition checkUniqueness ::
  "'a DBEnv \<Rightarrow> 'a table \<Rightarrow> 'a TargetScanResult \<Rightarrow> ('a TargetScanResult \<times> error option) outcome" where
  "checkUniqueness env db scanResult =
     (case tsr_Id scanResult of
        None \<Rightarrow> Panic
      | Some i \<Rightarrow>
         (case tsr_Target scanResult of
            None \<Rightarrow> Panic
          | Some t \<Rightarrow>
             (case tsr_Scan scanResult of
                None \<Rightarrow> Panic
              | Some s \<Rightarrow>
                 (case ODataQuery env db
                         (filter_id_ne_target_scan i (target_Id t) (scan_Id s)) of
                    Inl err \<Rightarrow> Return (TargetScanResult_zero, Some err)
                  | Inr scanResults \<Rightarrow>
                     (case scanResults of
                        tsr # _ \<Rightarrow>
                          Return (tsr, Some (ConflictError
                            (''Scan results exists with same target id='' @ target_Id t
                              @ '' and scan id='' @ scan_Id s @ '')'')))
                      | [] \<Rightarrow> Return (TargetScanResult_zero, None))))))"

text \<open>
  \<open>CreateScanResult\<close>: the returned pair and the table afterwards. \<open>DB.Create\<close> appends
  the row, or fails and leaves the table as it was.
\<close>

definition CreateScanResult ::
  "'a DBEnv \<Rightarrow> 'a table \<Rightarrow> 'a TargetScanResult
     \<Rightarrow> ('a TargetScanResult \<times> error option) outcome \<times> 'a table" where
  "CreateScanResult env db scanResult =
     (if tsr_Scan scanResult \<noteq> None \<and> scan_Id (the (tsr_Scan scanResult)) = []
      then (Return (TargetScanResult_zero, Some (BadRequestError ''scan.id is a required field'')), db)
      else if tsr_Target scanResult \<noteq> None \<and> target_Id (the (tsr_Target scanResult)) = []
      then (Return (TargetScanResult_zero, Some (BadRequestError ''target.id is a required field'')), db)
      else if tsr_Id scanResult \<noteq> None
      then (Return (TargetScanResult_zero,
              Some (BadRequestError ''can not specify id field when creating a new ScanResult'')), db)
      else
        (let scanResult = scanResult\<lparr>tsr_Id := Some (uuid_New env), tsr_Revision := Some 1\<rparr> in
         case checkUniqueness env db scanResult of
           Panic \<Rightarrow> (Panic, db)
         | Return (existingScanResult, Some err) \<Rightarrow>
             (if errors_As_ConflictError err
              then (Return (existingScanResult, Some err), db)
              else (Return (TargetScanResult_zero, Some (Wrapf ''failed to check existing scan'' err)), db))
         | Return (existingScanResult, None) \<Rightarrow>
             (case create_error env of
                Some err \<Rightarrow>
                  (Return (TargetScanResult_zero,
                     Some (Wrapf ''failed to create scan result in db'' err)), db)
              | None \<Rightarrow> (Return (scanResult, None), db @ [scanResult]))))"

text \<open>
  \<open>SaveScanResult\<close>, with the \<open>If-Match\<close> parameter: the returned pair and the table
  afterwards.
\<close>

definition SaveScanResult ::
  "'a DBEnv \<Rightarrow> 'a table \<Rightarrow> 'a TargetScanResult \<Rightarrow> go_int option
     \<Rightarrow> ('a TargetScanResult \<times> error option) outcome \<times> 'a table" where
  "SaveScanResult env db scanResult ifMatch =
     (if tsr_Id scanResult = None \<or> the (tsr_Id scanResult) = []
      then (Return (TargetScanResult_zero, Some (BadRequestError ''id is required to save scan result'')), db)
      else if tsr_Scan scanResult \<noteq> None \<and> scan_Id (the (tsr_Scan scanResult)) = []
      then (Return (TargetScanResult_zero, Some (BadRequestError ''scan.id is a required field'')), db)
      else if tsr_Target scanResult \<noteq> None \<and> target_Id (the (tsr_Target scanResult)) = []
      then (Return (TargetScanResult_zero, Some (BadRequestError ''target.id is a required field'')), db)
      else
        (case checkUniqueness env db scanResult of
           Panic \<Rightarrow> (Panic, db)
         | Return (existingScanResult, Some err) \<Rightarrow>
             (if errors_As_ConflictError err
              then (Return (existingScanResult, Some err), db)
              else (Return (TargetScanResult_zero, Some (Wrapf ''failed to check existing scan'' err)), db))
         | Return (existingScanResult, None) \<Rightarrow>
             (case getExistingObjByID env db (the (tsr_Id scanResult)) of
                Inl err \<Rightarrow> (Return (TargetScanResult_zero, Some err), db)
              | Inr dbScanResult \<Rightarrow>
                 (case checkRevisionEtag ifMatch (tsr_Revision dbScanResult) of
                    Panic \<Rightarrow> (Panic, db)
                  | Return (Some err) \<Rightarrow> (Return (TargetScanResult_zero, Some err), db)
                  | Return None \<Rightarrow>
                     (let scanResult =
                            scanResult\<lparr>tsr_Revision := bumpRevision (tsr_Revision dbScanResult)\<rparr> in
                      case save_error env of
                        Some err \<Rightarrow>
                          (Return (TargetScanResult_zero,
                             Some (Wrapf ''failed to save scan result in db'' err)), db)
                      | None \<Rightarrow>
                          (Return (scanResult, None),
                           save_row (the (tsr_Id scanResult)) scanResult db))))))"

text \<open>
  Another record with the same target id and scan id: a row with an id other than \<open>i\<close>,
  target id \<open>t\<close> and scan id \<open>s\<close>.
\<close>

definition other_with_same_ids :: "string \<Rightarrow> string \<Rightarrow> string \<Rightarrow> 'a TargetScanResult \<Rightarrow> bool" where
  "other_with_same_ids i t s r =
     ((case tsr_Id r of None \<Rightarrow> False | Some j \<Rightarrow> j \<noteq> i)
      \<and> map_option target_Id (tsr_Target r) = Some t
      \<and> map_option scan_Id (tsr_Scan r) = Some s)"

text \<open>Concrete values the results below are evaluated at.\<close>

definition env0 :: "unit DBEnv" where
  "env0 =
     \<lparr>uuid_New = ''u1'', query_error = None, create_error = None, save_error = None,
      other_query = (\<lambda>text db. Inl (ErrorString ''failed to parse $filter''))\<rparr>"

definition input_with_id :: "unit TargetScanResult" where
  "input_with_id =
     \<lparr>tsr_Id = Some ''x'', tsr_Revision = None, tsr_Scan = Some \<lparr>scan_Id = ''s''\<rparr>,
      tsr_Target = Some \<lparr>target_Id = ''t''\<rparr>, tsr_Rest = None\<rparr>"

definition input_ok :: "unit TargetScanResult" where
  "input_ok =
     \<lparr>tsr_Id = None, tsr_Revision = None, tsr_Scan = Some \<lparr>scan_Id = ''s''\<rparr>,
      tsr_Target = Some \<lparr>target_Id = ''t''\<rparr>, tsr_Rest = Some ()\<rparr>"

definition row_old :: "unit TargetScanResult" where
  "row_old =
     \<lparr>tsr_Id = Some ''u0'', tsr_Revision = Some 3, tsr_Scan = Some \<lparr>scan_Id = ''s''\<rparr>,
      tsr_Target = Some \<lparr>target_Id = ''t''\<rparr>, tsr_Rest = None\<rparr>"

text \<open>A target id with single quotes in it, and a stored row and an input that carry it.\<close>

definition quoted_target_id :: string where
  "quoted_target_id = ''t'' @ [quote] @ '' and scan/id eq '' @ [quote] @ ''x''"

definition row_quoted :: "unit TargetScanResult" where
  "row_quoted =
     \<lparr>tsr_Id = Some ''u0'', tsr_Revision = Some 1, tsr_Scan = Some \<lparr>scan_Id = ''s''\<rparr>,
      tsr_Target = Some \<lparr>target_Id = quoted_target_id\<rparr>, tsr_Rest = None\<rparr>"

definition input_quoted :: "unit TargetScanResult" where
  "input_quoted =
     \<lparr>tsr_Id = None, tsr_Revision = None, tsr_Scan = Some \<lparr>scan_Id = ''s''\<rparr>,
      tsr_Target = Some \<lparr>target_Id = quoted_target_id\<rparr>, tsr_Rest = None\<rparr>"

section \<open>runtime_scan/pkg/provider/azure: data\<close>

text \<open>
  The part of \<open>armcompute.VirtualMachine\<close> the provider reads or writes. A pointer field is
  an \<open>option\<close>; \<open>Tags\<close> is a \<open>map[string]*string\<close>, kept as an association list that
  \<open>map_of\<close> looks up (an empty list is the empty or nil map).
\<close>

record ImageReference =
  ir_Publisher :: "string option"
  ir_Offer :: "string option"
  ir_SKU :: "string option"
  ir_Version :: "string option"

record ManagedDiskParameters =
  md_ID :: "string option"
  md_StorageAccountType :: "string option"

record OSDisk =
  osd_Name :: "string option"
  osd_CreateOption :: "string option"
  osd_DeleteOption :: "string option"
  osd_Caching :: "string option"
  osd_ManagedDisk :: "ManagedDiskParameters option"
  osd_OSType :: "string option"

record StorageProfile =
  sp_ImageReference :: "ImageReference option"
  sp_OSDisk :: "OSDisk option"

record HardwareProfile =
  hp_VMSize :: "string option"

record SSHPublicKey =
  key_Path :: "string option"
  key_KeyData :: "string option"

record LinuxConfiguration =
  lc_DisablePasswordAuthentication :: "bool option"
  lc_SSH_PublicKeys :: "SSHPublicKey list option"

record OSProfile =
  osp_ComputerName :: "string option"
  osp_AdminUsername :: "string option"
  osp_LinuxConfiguration :: "LinuxConfiguration option"

record VirtualMachineProperties =
  vmp_HardwareProfile :: "HardwareProfile option"
  vmp_StorageProfile :: "StorageProfile option"
  vmp_OSProfile :: "OSProfile option"
  vmp_NetworkInterfaces :: "string option list"
  vmp_UserData :: "string option"
  vmp_ProvisioningState :: "string option"
  vmp_TimeCreated :: "nat option"

record VirtualMachine =
  vm_ID :: "string option"
  vm_Name :: "string option"
  vm_Type :: "string option"
  vm_Location :: "string option"
  vm_Tags :: "(string \<times> string option) list"
  vm_Identity_Type :: "string option"
  vm_Properties :: "VirtualMachineProperties option"

text \<open>\<open>armcompute.VirtualMachine{}\<close>, the zero value.\<close>

definition VirtualMachine_zero :: VirtualMachine where
  "VirtualMachine_zero =
     \<lparr>vm_ID = None, vm_Name = None, vm_Type = None, vm_Location = None, vm_Tags = [],
      vm_Identity_Type = None, vm_Properties = None\<rparr>"

record Tag =
  Key :: string
  Value :: string

record VMInfo =
  info_ObjectType :: string
  info_InstanceProvider :: "string option"
  info_InstanceID :: string
  info_Image :: string
  info_InstanceType :: string
  info_LaunchTime :: nat
  info_Location :: string
  info_Platform :: string
  info_SecurityGroups :: "string list option"
  info_Tags :: "Tag list option"

record AzureScanScope =
  InstanceTagSelector :: "Tag list option"
  InstanceTagExclusion :: "Tag list option"

record Config =
  ScannerResourceGroup :: string
  ScannerLocation :: string
  ScannerVMSize :: string
  ScannerImageOffer :: string
  ScannerImagePublisher :: string
  ScannerImageSKU :: string
  ScannerImageVersion :: string
  ScannerPublicKey :: string

record ScanJobConfig =
  ScanResultID :: string
  TargetInfo_AsVMInfo :: "error + VMInfo"

record Interface =
  nic_ID :: "string option"

record Snapshot =
  snap_ID :: "string option"

record Disk =
  disk_ID :: "string option"
  disk_Name :: "string option"

section \<open>runtime_scan/pkg/provider/azure: tag filtering and instance ids (client.go)\<close>

text \<open>The \<open>%s\<close> verb on a slice of strings: \<open>[a b c]\<close>.\<close>

fun join_space :: "string list \<Rightarrow> string" where
  "join_space [] = []"
| "join_space [x] = x"
| "join_space (x # y # ys) = x @ '' '' @ join_space (y # ys)"

definition fmt_s_slice :: "string list \<Rightarrow> string" where
  "fmt_s_slice xs = ''['' @ join_space xs @ '']''"

definition instanceIDPartsLength :: nat where
  "instanceIDPartsLength = 9"

definition resourceGroupPartIdx :: nat where
  "resourceGroupPartIdx = 4"

definition vmNamePartIdx :: nat where
  "vmNamePartIdx = 8"

definition resourceGroupAndNameFromInstanceID :: "string \<Rightarrow> error + string \<times> string" where
  "resourceGroupAndNameFromInstanceID instanceID =
     (let idParts = strings_Split instanceID CHR ''/'' in
      if length idParts \<noteq> instanceIDPartsLength
      then Inl (FatalError (ErrorString
             (''asset instance id in unexpected format got: '' @ fmt_s_slice idParts)))
      else Inr (idParts ! resourceGroupPartIdx, idParts ! vmNamePartIdx))"

text \<open>
  The loop both tag predicates end with: every selector tag must be a key of the VM's tags
  with an equal value; \<open>*val\<close> on a nil value panics.
\<close>

fun all_tags_match :: "(string \<times> string option) list \<Rightarrow> Tag list \<Rightarrow> bool outcome" where
  "all_tags_match vmTags [] = Return True"
| "all_tags_match vmTags (tag # tags) =
     (case map_of vmTags (Key tag) of
        None \<Rightarrow> Return False
      | Some None \<Rightarrow> Panic
      | Some (Some val) \<Rightarrow>
          (if val \<noteq> Value tag then Return False else all_tags_match vmTags tags))"

definition hasIncludeTags :: "VirtualMachine \<Rightarrow> Tag list option \<Rightarrow> bool outcome" where
  "hasIncludeTags vm tags =
     (case tags of
        None \<Rightarrow> Return True
      | Some ts \<Rightarrow>
          (if length ts = 0 then Return True
           else if length (vm_Tags vm) = 0 then Return False
           else all_tags_match (vm_Tags vm) ts))"

definition hasExcludeTags :: "VirtualMachine \<Rightarrow> Tag list option \<Rightarrow> bool outcome" where
  "hasExcludeTags vm tags =
     (case tags of
        None \<Rightarrow> Return False
      | Some ts \<Rightarrow>
          (if length ts = 0 then Return False
           else if length (vm_Tags vm) = 0 then Return False
           else all_tags_match (vm_Tags vm) ts))"

text \<open>
  \<open>convertTags\<close>: Go ranges over the map in an unspecified order; the model takes the order
  of the association list.
\<close>

fun convertTags :: "(string \<times> string option) list \<Rightarrow> Tag list outcome" where
  "convertTags [] = Return []"
| "convertTags ((key, val) # tags) =
     (case val of
        None \<Rightarrow> Panic
      | Some v \<Rightarrow>
          (case convertTags tags of
             Panic \<Rightarrow> Panic
           | Return ret \<Rightarrow> Return (\<lparr>Key = key, Value = v\<rparr> # ret)))"

definition createImageURN :: "ImageReference option \<Rightarrow> string outcome" where
  "createImageURN reference =
     (case reference of
        None \<Rightarrow> Return []
      | Some r \<Rightarrow>
          (case (ir_Publisher r, ir_Offer r, ir_SKU r, ir_Version r) of
             (Some p, Some off, Some sku, Some v) \<Rightarrow> Return (p @ ''/'' @ off @ ''/'' @ sku @ ''/'' @ v)
           | _ \<Rightarrow> Panic))"

text \<open>
  \<open>getVMInfoFromVirtualMachine\<close>. \<open>FromVMInfo\<close> (generated code outside src) is a
  parameter: the error it returns for the info. Every dereference of the struct literal is a
  branch; the target type is represented by the info it is made from.
\<close>

definition getVMInfoFromVirtualMachine ::
  "(VMInfo \<Rightarrow> error option) \<Rightarrow> VirtualMachine \<Rightarrow> (VMInfo \<times> error option) outcome" where
  "getVMInfoFromVirtualMachine FromVMInfo vm =
     (case (vm_ID vm, vm_Properties vm, vm_Type vm, vm_Location vm) of
        (Some vid, Some props, Some ty, Some loc) \<Rightarrow>
          (case (vmp_StorageProfile props, vmp_TimeCreated props) of
             (Some sp, Some created) \<Rightarrow>
               (case createImageURN (sp_ImageReference sp) of
                  Panic \<Rightarrow> Panic
                | Return imageURN \<Rightarrow>
                    (case sp_OSDisk sp of
                       None \<Rightarrow> Panic
                     | Some osd \<Rightarrow>
                         (case osd_OSType osd of
                            None \<Rightarrow> Panic
                          | Some ostype \<Rightarrow>
                              (case convertTags (vm_Tags vm) of
                                 Panic \<Rightarrow> Panic
                               | Return tags \<Rightarrow>
                                   (let info = \<lparr>info_ObjectType = ''VMInfo'',
                                                info_InstanceProvider = Some ''Azure'',
                                                info_InstanceID = vid, info_Image = imageURN,
                                                info_InstanceType = ty, info_LaunchTime = created,
                                                info_Location = loc, info_Platform = ostype,
                                                info_SecurityGroups = Some [], info_Tags = Some tags\<rparr>
                                    in case FromVMInfo info of
                                         None \<Rightarrow> Return (info, None)
                                       | Some err \<Rightarrow>
                                           Return (info,
                                             Some (Wrapf ''failed to create TargetType from VMInfo'' err)))))))
           | _ \<Rightarrow> Panic)
      | _ \<Rightarrow> Panic)"

text \<open>
  \<open>processVirtualMachineListIntoTargetTypes\<close>: the loop over \<open>vmList.Value\<close>, with
  \<open>ret\<close> as accumulator.
\<close>

fun processVirtualMachineList_loop ::
  "(VMInfo \<Rightarrow> error option) \<Rightarrow> VirtualMachine list \<Rightarrow> AzureScanScope \<Rightarrow> VMInfo list
     \<Rightarrow> (error + VMInfo list) outcome" where
  "processVirtualMachineList_loop FromVMInfo [] azureScanScope ret = Return (Inr ret)"
| "processVirtualMachineList_loop FromVMInfo (vm # vms) azureScanScope ret =
     (case hasIncludeTags vm (InstanceTagSelector azureScanScope) of
        Panic \<Rightarrow> Panic
      | Return False \<Rightarrow> processVirtualMachineList_loop FromVMInfo vms azureScanScope ret
      | Return True \<Rightarrow>
          (case hasExcludeTags vm (InstanceTagExclusion azureScanScope) of
             Panic \<Rightarrow> Panic
           | Return True \<Rightarrow> processVirtualMachineList_loop FromVMInfo vms azureScanScope ret
           | Return False \<Rightarrow>
               (case getVMInfoFromVirtualMachine FromVMInfo vm of
                  Panic \<Rightarrow> Panic
                | Return (info, Some err) \<Rightarrow>
                    Return (Inl (Wrapf ''unable to convert instance to vminfo'' err))
                | Return (info, None) \<Rightarrow>
                    processVirtualMachineList_loop FromVMInfo vms azureScanScope (ret @ [info]))))"

definition processVirtualMachineListIntoTargetTypes ::
  "(VMInfo \<Rightarrow> error option) \<Rightarrow> VirtualMachine list \<Rightarrow> AzureScanScope
     \<Rightarrow> (error + VMInfo list) outcome" where
  "processVirtualMachineListIntoTargetTypes FromVMInfo vmList azureScanScope =
     processVirtualMachineList_loop FromVMInfo vmList azureScanScope []"

text \<open>A VM carries a tag: the key is in its tags with that value.\<close>

definition carries_tag :: "VirtualMachine \<Rightarrow> Tag \<Rightarrow> bool" where
  "carries_tag vm tag = (map_of (vm_Tags vm) (Key tag) = Some (Some (Value tag)))"

text \<open>The filter of the discovery loop: included and not excluded.\<close>

definition passes_filter :: "AzureScanScope \<Rightarrow> VirtualMachine \<Rightarrow> bool" where
  "passes_filter scope vm =
     (hasIncludeTags vm (InstanceTagSelector scope) = Return True
      \<and> hasExcludeTags vm (InstanceTagExclusion scope) = Return False)"

text \<open>Concrete assets and selectors the results below are evaluated at.\<close>

definition props0 :: VirtualMachineProperties where
  "props0 =
     \<lparr>vmp_HardwareProfile = None,
      vmp_StorageProfile = Some \<lparr>sp_ImageReference = None,
        sp_OSDisk = Some \<lparr>osd_Name = None, osd_CreateOption = None, osd_DeleteOption = None,
          osd_Caching = None, osd_ManagedDisk = None, osd_OSType = Some ''Linux''\<rparr>\<rparr>,
      vmp_OSProfile = None, vmp_NetworkInterfaces = [], vmp_UserData = None,
      vmp_ProvisioningState = Some ''Succeeded'', vmp_TimeCreated = Some 0\<rparr>"

definition vm_prod :: VirtualMachine where
  "vm_prod =
     \<lparr>vm_ID = Some ''/subscriptions/sub/resourceGroups/rg/providers/Microsoft.Compute/virtualMachines/a'',
      vm_Name = Some ''a'', vm_Type = Some ''Microsoft.Compute/virtualMachines'',
      vm_Location = Some ''eastus'',
      vm_Tags = [(''env'', Some ''prod''), (''team'', Some ''x'')],
      vm_Identity_Type = None, vm_Properties = Some props0\<rparr>"

definition vm_untagged :: VirtualMachine where
  "vm_untagged = vm_prod\<lparr>vm_Name := Some ''b'', vm_Tags := [(''team'', Some ''x'')]\<rparr>"

definition vm_noid :: VirtualMachine where
  "vm_noid = vm_untagged\<lparr>vm_ID := None\<rparr>"

definition env_prod :: "Tag list option" where
  "env_prod = Some [\<lparr>Key = ''env'', Value = ''prod''\<rparr>]"

section \<open>runtime_scan/pkg/provider/azure: the scanner's resources (client.go, scannerVm.go)\<close>

text \<open>
  The calls the provider makes on the cloud, in the order it makes them. The client's SDK
  calls and the \<open>ensure\<close> methods the two pipelines call are parameters of the model:
  each takes the cloud's state and returns its result with the state afterwards, and each
  invocation is recorded. \<open>handleAzureRequestError\<close> (outside src) classifies an SDK
  error: whether it is "not found", and the error to return, for the action that is named.
  \<open>ensureDiskAttachedToScannerVM\<close> compares the disks' id pointers, which values do not
  determine, and \<open>ensureScannerVirtualMachineDeleted\<close> rests on \<open>ensureDeleted\<close>
  (outside src): both are parameters as well, so every result holds whatever they do.
\<close>

datatype call =
    Call_vmClient_Get string string
  | Call_vmClient_BeginCreateOrUpdate string string VirtualMachine
  | Call_ensureSnapshotForVMRootVolume
  | Call_ensureManagedDiskFromSnapshot
  | Call_ensureManagedDiskFromSnapshotInDifferentRegion
  | Call_ensureNetworkInterface
  | Call_ensureDiskAttachedToScannerVM
  | Call_ensureScannerVirtualMachineDeleted
  | Call_ensureNetworkInterfaceDeleted
  | Call_ensureTargetDiskDeleted
  | Call_ensureBlobDeleted
  | Call_ensureSnapshotDeleted

record 'st Client =
  azureConfig :: Config
  vmClient_Get :: "string \<Rightarrow> string \<Rightarrow> 'st \<Rightarrow> (error + VirtualMachine) \<times> 'st"
  vmClient_BeginCreateOrUpdate :: "string \<Rightarrow> string \<Rightarrow> VirtualMachine \<Rightarrow> 'st \<Rightarrow> error option \<times> 'st"
  handleAzureRequestError :: "error \<Rightarrow> string \<Rightarrow> bool \<times> error option"
  cloudinit_New :: "ScanJobConfig \<Rightarrow> error + string"
  base64_EncodeToString :: "string \<Rightarrow> string"
  ensureSnapshotForVMRootVolume :: "ScanJobConfig \<Rightarrow> VirtualMachine \<Rightarrow> 'st \<Rightarrow> (error + Snapshot) \<times> 'st"
  ensureManagedDiskFromSnapshot :: "ScanJobConfig \<Rightarrow> Snapshot \<Rightarrow> 'st \<Rightarrow> (error + Disk) \<times> 'st"
  ensureManagedDiskFromSnapshotInDifferentRegion ::
    "ScanJobConfig \<Rightarrow> Snapshot \<Rightarrow> 'st \<Rightarrow> (error + Disk) \<times> 'st"
  ensureNetworkInterface :: "ScanJobConfig \<Rightarrow> 'st \<Rightarrow> (error + Interface) \<times> 'st"
  ensureDiskAttachedToScannerVM :: "VirtualMachine \<Rightarrow> Disk \<Rightarrow> 'st \<Rightarrow> error option \<times> 'st"
  ensureScannerVirtualMachineDeleted :: "ScanJobConfig \<Rightarrow> 'st \<Rightarrow> error option \<times> 'st"
  ensureNetworkInterfaceDeleted :: "ScanJobConfig \<Rightarrow> 'st \<Rightarrow> error option \<times> 'st"
  ensureTargetDiskDeleted :: "ScanJobConfig \<Rightarrow> 'st \<Rightarrow> error option \<times> 'st"
  ensureBlobDeleted :: "ScanJobConfig \<Rightarrow> 'st \<Rightarrow> error option \<times> 'st"
  ensureSnapshotDeleted :: "ScanJobConfig \<Rightarrow> 'st \<Rightarrow> error option \<times> 'st"

text \<open>\<open>2 * time.Minute\<close>, in seconds.\<close>

definition VMCreateEstimateProvisionTime :: nat where
  "VMCreateEstimateProvisionTime = 2 * 60"

text \<open>The constant is declared outside src; it is the provisioning state Azure reports.\<close>

definition ProvisioningStateSucceeded :: string where
  "ProvisioningStateSucceeded = ''Succeeded''"

definition scannerVMNameFromJobConfig :: "ScanJobConfig \<Rightarrow> string" where
  "scannerVMNameFromJobConfig config = ''vmclarity-scanner-'' @ ScanResultID config"

text \<open>The \<open>parameters\<close> of the create call, with the SSH key when one is configured.\<close>

definition scannerVM_parameters :: "Config \<Rightarrow> string \<Rightarrow> Interface \<Rightarrow> string \<Rightarrow> VirtualMachine" where
  "scannerVM_parameters cfg vmName networkInterface userDataBase64 =
     \<lparr>vm_ID = None, vm_Name = None, vm_Type = None,
      vm_Location = Some (ScannerLocation cfg),
      vm_Tags = [],
      vm_Identity_Type = Some ''None'',
      vm_Properties = Some
        \<lparr>vmp_HardwareProfile = Some \<lparr>hp_VMSize = Some (ScannerVMSize cfg)\<rparr>,
         vmp_StorageProfile = Some
           \<lparr>sp_ImageReference = Some
              \<lparr>ir_Publisher = Some (ScannerImagePublisher cfg),
               ir_Offer = Some (ScannerImageOffer cfg),
               ir_SKU = Some (ScannerImageSKU cfg),
               ir_Version = Some (ScannerImageVersion cfg)\<rparr>,
            sp_OSDisk = Some
              \<lparr>osd_Name = Some (vmName @ ''-rootvolume''),
               osd_CreateOption = Some ''FromImage'',
               osd_DeleteOption = Some ''Delete'',
               osd_Caching = Some ''ReadWrite'',
               osd_ManagedDisk = Some \<lparr>md_ID = None, md_StorageAccountType = Some ''Standard_LRS''\<rparr>,
               osd_OSType = None\<rparr>\<rparr>,
         vmp_OSProfile = Some
           \<lparr>osp_ComputerName = Some vmName,
            osp_AdminUsername = Some ''vmclarity'',
            osp_LinuxConfiguration = Some
              \<lparr>lc_DisablePasswordAuthentication = Some True,
               lc_SSH_PublicKeys =
                 (if ScannerPublicKey cfg \<noteq> []
                  then Some [\<lparr>key_Path = Some ''/home/vmclarity/.ssh/authorized_keys'',
                              key_KeyData = Some (ScannerPublicKey cfg)\<rparr>]
                  else None)\<rparr>\<rparr>,
         vmp_NetworkInterfaces = [nic_ID networkInterface],
         vmp_UserData = Some userDataBase64,
         vmp_ProvisioningState = None,
         vmp_TimeCreated = None\<rparr>\<rparr>"

text \<open>
  \<open>ensureScannerVirtualMachine\<close>: the returned pair (or a panic on a nil \<open>Properties\<close> or
  \<open>ProvisioningState\<close>), the cloud's state afterwards and the calls made.
\<close>

definition ensureScannerVirtualMachine ::
  "'st Client \<Rightarrow> ScanJobConfig \<Rightarrow> Interface \<Rightarrow> 'st
     \<Rightarrow> (VirtualMachine \<times> error option) outcome \<times> 'st \<times> call list" where
  "ensureScannerVirtualMachine c config networkInterface st =
     (let vmName = scannerVMNameFromJobConfig config;
          rg = ScannerResourceGroup (azureConfig c) in
      case vmClient_Get c rg vmName st of
        (Inr vm, st1) \<Rightarrow>
          (case vm_Properties vm of
             None \<Rightarrow> (Panic, st1, [Call_vmClient_Get rg vmName])
           | Some props \<Rightarrow>
               (case vmp_ProvisioningState props of
                  None \<Rightarrow> (Panic, st1, [Call_vmClient_Get rg vmName])
                | Some state \<Rightarrow>
                    (if state \<noteq> ProvisioningStateSucceeded
                     then (Return (vm, Some (RetryableError VMCreateEstimateProvisionTime
                              (ErrorString (''VM is not ready yet, provisioning state: '' @ state)))),
                           st1, [Call_vmClient_Get rg vmName])
                     else (Return (vm, None), st1, [Call_vmClient_Get rg vmName]))))
      | (Inl err, st1) \<Rightarrow>
          (case handleAzureRequestError c err (''getting scanner virtual machine: '' @ vmName) of
             (notFound, err') \<Rightarrow>
               (if \<not> notFound
                then (Return (VirtualMachine_zero, err'), st1, [Call_vmClient_Get rg vmName])
                else
                  (case cloudinit_New c config of
                     Inl err \<Rightarrow>
                       (Return (VirtualMachine_zero,
                          Some (Errorf_v ''failed to generate cloud-init'' err)),
                        st1, [Call_vmClient_Get rg vmName])
                   | Inr userData \<Rightarrow>
                       (let userDataBase64 = base64_EncodeToString c userData;
                            parameters =
                              scannerVM_parameters (azureConfig c) vmName networkInterface userDataBase64
                        in case vmClient_BeginCreateOrUpdate c rg vmName parameters st1 of
                             (Some err, st2) \<Rightarrow>
                               (Return (VirtualMachine_zero,
                                  snd (handleAzureRequestError c err ''creating virtual machine'')),
                                st2,
                                [Call_vmClient_Get rg vmName,
                                 Call_vmClient_BeginCreateOrUpdate rg vmName parameters])
                           | (None, st2) \<Rightarrow>
                               (Return (VirtualMachine_zero,
                                  Some (RetryableError VMCreateEstimateProvisionTime
                                          (ErrorString ''vm created''))),
                                st2,
                                [Call_vmClient_Get rg vmName,
                                 Call_vmClient_BeginCreateOrUpdate rg vmName parameters]))))))"

text \<open>
  \<open>RunTargetScan\<close>: the returned error (or a panic on a nil \<open>Location\<close> of the target
  VM), the cloud's state afterwards and the calls made.
\<close>

definition RunTargetScan ::
  "'st Client \<Rightarrow> ScanJobConfig \<Rightarrow> 'st \<Rightarrow> error option outcome \<times> 'st \<times> call list" where
  "RunTargetScan c config st =
     (case TargetInfo_AsVMInfo config of
        Inl err \<Rightarrow>
          (Return (Some (FatalError (Wrapf ''unable to get vminfo from target'' err))), st, [])
      | Inr vmInfo \<Rightarrow>
      (case resourceGroupAndNameFromInstanceID (info_InstanceID vmInfo) of
        Inl err \<Rightarrow> (Return (Some err), st, [])
      | Inr (resourceGroup, vmName) \<Rightarrow>
      (case vmClient_Get c resourceGroup vmName st of
        (Inl err, st1) \<Rightarrow>
          (Return (snd (handleAzureRequestError c err (''getting target virtual machine '' @ vmName))),
           st1, [Call_vmClient_Get resourceGroup vmName])
      | (Inr targetVM, st1) \<Rightarrow>
      (case ensureSnapshotForVMRootVolume c config targetVM st1 of
        (Inl err, st2) \<Rightarrow>
          (Return (Some (Wrapf ''failed to ensure snapshot for vm root volume'' err)), st2,
           [Call_vmClient_Get resourceGroup vmName, Call_ensureSnapshotForVMRootVolume])
      | (Inr snapshot, st2) \<Rightarrow>
      (let log2 = [Call_vmClient_Get resourceGroup vmName, Call_ensureSnapshotForVMRootVolume] in
       case vm_Location targetVM of
        None \<Rightarrow> (Panic, st2, log2)
      | Some location \<Rightarrow>
      (case (if location = ScannerLocation (azureConfig c)
             then (case ensureManagedDiskFromSnapshot c config snapshot st2 of
                     (Inl err, st3) \<Rightarrow>
                       (Inl (Wrapf ''failed to ensure managed disk created from snapshot'' err),
                        st3, log2 @ [Call_ensureManagedDiskFromSnapshot])
                   | (Inr disk, st3) \<Rightarrow>
                       (Inr disk, st3, log2 @ [Call_ensureManagedDiskFromSnapshot]))
             else (case ensureManagedDiskFromSnapshotInDifferentRegion c config snapshot st2 of
                     (Inl err, st3) \<Rightarrow>
                       (Inl (Wrapf ''failed to ensure managed disk from snapshot in different region'' err),
                        st3, log2 @ [Call_ensureManagedDiskFromSnapshotInDifferentRegion])
                   | (Inr disk, st3) \<Rightarrow>
                       (Inr disk, st3, log2 @ [Call_ensureManagedDiskFromSnapshotInDifferentRegion]))) of
        (Inl err, st3, log3) \<Rightarrow> (Return (Some err), st3, log3)
      | (Inr disk, st3, log3) \<Rightarrow>
      (case ensureNetworkInterface c config st3 of
        (Inl err, st4) \<Rightarrow>
          (Return (Some (Wrapf ''failed to ensure scanner network interface'' err)), st4,
           log3 @ [Call_ensureNetworkInterface])
      | (Inr networkInterface, st4) \<Rightarrow>
      (case ensureScannerVirtualMachine c config networkInterface st4 of
        (Panic, st5, calls) \<Rightarrow> (Panic, st5, log3 @ [Call_ensureNetworkInterface] @ calls)
      | (Return (scannerVM, Some err), st5, calls) \<Rightarrow>
          (Return (Some (Wrapf ''failed to ensure scanner virtual machine'' err)), st5,
           log3 @ [Call_ensureNetworkInterface] @ calls)
      | (Return (scannerVM, None), st5, calls) \<Rightarrow>
      (case ensureDiskAttachedToScannerVM c scannerVM disk st5 of
        (Some err, st6) \<Rightarrow>
          (Return (Some (Wrapf ''failed to ensure target disk is attached to virtual machine'' err)),
           st6, log3 @ [Call_ensureNetworkInterface] @ calls @ [Call_ensureDiskAttachedToScannerVM])
      | (None, st6) \<Rightarrow>
          (Return None, st6,
           log3 @ [Call_ensureNetworkInterface] @ calls @ [Call_ensureDiskAttachedToScannerVM]))))))))))"

text \<open>\<open>RemoveTargetScan\<close>: the returned error, the cloud's state afterwards and the calls made.\<close>

definition RemoveTargetScan ::
  "'st Client \<Rightarrow> ScanJobConfig \<Rightarrow> 'st \<Rightarrow> error option \<times> 'st \<times> call list" where
  "RemoveTargetScan c config st =
     (case ensureScannerVirtualMachineDeleted c config st of
        (Some err, st1) \<Rightarrow>
          (Some (Wrapf ''failed to ensure scanner virtual machine deleted'' err), st1,
           [Call_ensureScannerVirtualMachineDeleted])
      | (None, st1) \<Rightarrow>
      (case ensureNetworkInterfaceDeleted c config st1 of
        (Some err, st2) \<Rightarrow>
          (Some (Wrapf ''failed to ensure network interface deleted'' err), st2,
           [Call_ensureScannerVirtualMachineDeleted, Call_ensureNetworkInterfaceDeleted])
      | (None, st2) \<Rightarrow>
      (case ensureTargetDiskDeleted c config st2 of
        (Some err, st3) \<Rightarrow>
          (Some (Wrapf ''failed to ensure target disk deleted'' err), st3,
           [Call_ensureScannerVirtualMachineDeleted, Call_ensureNetworkInterfaceDeleted,
            Call_ensureTargetDiskDeleted])
      | (None, st3) \<Rightarrow>
      (case ensureBlobDeleted c config st3 of
        (Some err, st4) \<Rightarrow>
          (Some (Wrapf ''failed to ensure snapshot copy blob deleted'' err), st4,
           [Call_ensureScannerVirtualMachineDeleted, Call_ensureNetworkInterfaceDeleted,
            Call_ensureTargetDiskDeleted, Call_ensureBlobDeleted])
      | (None, st4) \<Rightarrow>
      (case ensureSnapshotDeleted c config st4 of
        (Some err, st5) \<Rightarrow>
          (Some (Wrapf ''failed to ensure snapshot deleted'' err), st5,
           [Call_ensureScannerVirtualMachineDeleted, Call_ensureNetworkInterfaceDeleted,
            Call_ensureTargetDiskDeleted, Call_ensureBlobDeleted, Call_ensureSnapshotDeleted])
      | (None, st5) \<Rightarrow>
          (None, st5,
           [Call_ensureScannerVirtualMachineDeleted, Call_ensureNetworkInterfaceDeleted,
            Call_ensureTargetDiskDeleted, Call_ensureBlobDeleted, Call_ensureSnapshotDeleted]))))))"

text \<open>The order of the teardown.\<close>

definition teardown_order :: "call list" where
  "teardown_order =
     [Call_ensureScannerVirtualMachineDeleted, Call_ensureNetworkInterfaceDeleted,
      Call_ensureTargetDiskDeleted, Call_ensureBlobDeleted, Call_ensureSnapshotDeleted]"

text \<open>
  A concrete client the results below are evaluated at. The cloud's state is the list of
  the resources touched so far; the scanner VM exists and is provisioned, and deleting the
  target disk fails.
\<close>

definition config0 :: Config where
  "config0 =
     \<lparr>ScannerResourceGroup = ''scanners'', ScannerLocation = ''eastus'',
      ScannerVMSize = ''Standard_D2s_v3'', ScannerImageOffer = ''offer'',
      ScannerImagePublisher = ''publisher'', ScannerImageSKU = ''sku'',
      ScannerImageVersion = ''latest'', ScannerPublicKey = []\<rparr>"

definition client0 :: "string list Client" where
  "client0 =
     \<lparr>azureConfig = config0,
      vmClient_Get = (\<lambda>rg name st. (Inr (vm_prod\<lparr>vm_Name := Some name\<rparr>), st)),
      vmClient_BeginCreateOrUpdate = (\<lambda>rg name vm st. (None, st @ [name])),
      handleAzureRequestError = (\<lambda>err action. (False, Some (FatalError (Wrapf action err)))),
      cloudinit_New = (\<lambda>config. Inr ''#cloud-config''),
      base64_EncodeToString = (\<lambda>s. s),
      ensureSnapshotForVMRootVolume = (\<lambda>config vm st. (Inr \<lparr>snap_ID = Some ''snap''\<rparr>, st @ [''snapshot''])),
      ensureManagedDiskFromSnapshot =
        (\<lambda>config snap st. (Inr \<lparr>disk_ID = Some ''disk'', disk_Name = Some ''disk''\<rparr>, st @ [''disk''])),
      ensureManagedDiskFromSnapshotInDifferentRegion =
        (\<lambda>config snap st. (Inr \<lparr>disk_ID = Some ''disk'', disk_Name = Some ''disk''\<rparr>, st @ [''blob'', ''disk''])),
      ensureNetworkInterface = (\<lambda>config st. (Inr \<lparr>nic_ID = Some ''nic''\<rparr>, st @ [''nic''])),
      ensureDiskAttachedToScannerVM = (\<lambda>vm disk st. (None, st @ [''attach''])),
      ensureScannerVirtualMachineDeleted = (\<lambda>config st. (None, st @ [''vm''])),
      ensureNetworkInterfaceDeleted = (\<lambda>config st. (None, st @ [''nic''])),
      ensureTargetDiskDeleted = (\<lambda>config st. (Some (ErrorString ''disk is busy''), st @ [''disk''])),
      ensureBlobDeleted = (\<lambda>config st. (None, st @ [''blob''])),
      ensureSnapshotDeleted = (\<lambda>config st. (None, st @ [''snapshot'']))\<rparr>"

definition jobconfig0 :: ScanJobConfig where
  "jobconfig0 =
     \<lparr>ScanResultID = ''r1'',
      TargetInfo_AsVMInfo = Inr
        \<lparr>info_ObjectType = ''VMInfo'', info_InstanceProvider = Some ''Azure'',
         info_InstanceID = ''not/an/instance/id'', info_Image = [], info_InstanceType = [],
         info_LaunchTime = 0, info_Location = ''eastus'', info_Platform = ''Linux'',
         info_SecurityGroups = None, info_Tags = None\<rparr>\<rparr>"

definition example_instance_id :: string where
  "example_instance_id =
     ''/subscriptions/ecad88af-09d5-4725-8d80-906e51fddf02/resourceGroups/vmclarity-sambetts-dev/providers/Microsoft.Compute/virtualMachines/vmclarity-server''"

definition vm_creating :: VirtualMachine where
  "vm_creating =
     vm_prod\<lparr>vm_Properties := Some (props0\<lparr>vmp_ProvisioningState := Some ''Creating''\<rparr>)\<rparr>"

section \<open>shared/pkg/families: the manager (manager.go)\<close>

datatype FamilyType =
  SBOM | Vulnerabilities | Secrets | Rootkits | Malware | Misconfiguration | Exploits

text \<open>The \<open>%v\<close> verb on a family type: the string constants are declared outside src.\<close>

fun FamilyType_string :: "FamilyType \<Rightarrow> string" where
  "FamilyType_string SBOM = ''sbom''"
| "FamilyType_string Vulnerabilities = ''vulnerabilities''"
| "FamilyType_string Secrets = ''secrets''"
| "FamilyType_string Rootkits = ''rootkits''"
| "FamilyType_string Malware = ''malware''"
| "FamilyType_string Misconfiguration = ''misconfiguration''"
| "FamilyType_string Exploits = ''exploits''"

text \<open>
  Modelled from the spec: the Results Store (\<open>results.New\<close>, \<open>SetResults\<close>) is not under
  src. It is an append-only aggregate of the results of the families that completed: a list
  of interface values (\<open>None\<close> is a nil interface), which \<open>SetResults\<close> extends at the end.
\<close>

type_synonym 'r Results = "'r option list"

definition results_New :: "'r Results" where
  "results_New = []"

definition SetResults :: "'r Results \<Rightarrow> 'r option \<Rightarrow> 'r Results" where
  "SetResults familyResults result = familyResults @ [result]"

text \<open>
  \<open>interfaces.Family\<close>: \<open>GetType\<close>, and \<open>Run\<close> as a function of the results stored so
  far, returning \<open>(ret, err)\<close>.
\<close>

record 'r Family =
  GetType :: FamilyType
  Run :: "'r Results \<Rightarrow> 'r option \<times> error option"

record 'r FamilyResult =
  fr_Result :: "'r option"
  fr_FamilyType :: FamilyType
  fr_Err :: "error option"

text \<open>
  \<open>FamilyNotifier\<close>: an implementation may keep state of its own (\<open>'n\<close>), which every call
  takes and returns.
\<close>

record ('n, 'r) FamilyNotifier =
  FamilyStarted :: "FamilyType \<Rightarrow> 'n \<Rightarrow> error option \<times> 'n"
  FamilyFinished :: "'r FamilyResult \<Rightarrow> 'n \<Rightarrow> error option \<times> 'n"

text \<open>
  Modelled from the spec: the constructors \<open>sbom.New\<close>, \<open>vulnerabilities.New\<close>, ... are not
  under src. Each makes, from its part of the config, a family of its own type; what that
  family's \<open>Run\<close> does is the part's \<open>Behaviour\<close>.
\<close>

record 'r FamilyConfig =
  Enabled :: bool
  Behaviour :: "'r Results \<Rightarrow> 'r option \<times> error option"

definition family_New :: "FamilyType \<Rightarrow> 'r FamilyConfig \<Rightarrow> 'r Family" where
  "family_New t conf = \<lparr>GetType = t, Run = Behaviour conf\<rparr>"

record 'r FamiliesConfig =
  cfg_SBOM :: "'r FamilyConfig"
  cfg_Vulnerabilities :: "'r FamilyConfig"
  cfg_Secrets :: "'r FamilyConfig"
  cfg_Rootkits :: "'r FamilyConfig"
  cfg_Malware :: "'r FamilyConfig"
  cfg_Misconfiguration :: "'r FamilyConfig"
  cfg_Exploits :: "'r FamilyConfig"

record 'r Manager =
  manager_config :: "'r FamiliesConfig"
  families :: "'r Family list"

text \<open>\<open>append(manager.families, f)\<close> when the flag is set.\<close>

definition append_if :: "bool \<Rightarrow> 'r Family \<Rightarrow> 'r Manager \<Rightarrow> 'r Manager" where
  "append_if enabled f manager =
     (if enabled then manager\<lparr>families := families manager @ [f]\<rparr> else manager)"

definition New :: "'r FamiliesConfig \<Rightarrow> 'r Manager" where
  "New conf =
     (let manager = \<lparr>manager_config = conf, families = []\<rparr>;
          manager = append_if (Enabled (cfg_SBOM conf)) (family_New SBOM (cfg_SBOM conf)) manager;
          manager = append_if (Enabled (cfg_Vulnerabilities conf))
                      (family_New Vulnerabilities (cfg_Vulnerabilities conf)) manager;
          manager = append_if (Enabled (cfg_Secrets conf))
                      (family_New Secrets (cfg_Secrets conf)) manager;
          manager = append_if (Enabled (cfg_Rootkits conf))
                      (family_New Rootkits (cfg_Rootkits conf)) manager;
          manager = append_if (Enabled (cfg_Malware conf))
                      (family_New Malware (cfg_Malware conf)) manager;
          manager = append_if (Enabled (cfg_Misconfiguration conf))
                      (family_New Misconfiguration (cfg_Misconfiguration conf)) manager;
          manager = append_if (Enabled (cfg_Exploits conf))
                      (family_New Exploits (cfg_Exploits conf)) manager
      in manager)"

text \<open>
  What \<open>Run\<close> does, in the order it does it, in the iteration for the family at a position
  of \<open>m.families\<close>: the call of \<open>FamilyStarted\<close>; the launch of the goroutine, which calls
  \<open>family.Run\<close>; the call of \<open>SetResults\<close> with its argument; the call of
  \<open>FamilyFinished\<close> with its argument.

  The goroutine's closure reads the loop variable \<open>family\<close> when it runs, and under Go 1.20
  (the version the repository builds with) that is one variable for all iterations. When
  the loop waits for the goroutine's result, the variable still holds the iteration's
  family: \<open>RunLaunched i\<close> is a goroutine that calls \<open>Run\<close> of the family at position
  \<open>i\<close>. When the loop takes the \<open>ctx.Done()\<close> case it goes on without waiting, and the
  abandoned goroutine calls \<open>Run\<close> of whatever family the variable holds by then:
  \<open>RunAbandoned i j\<close> is the goroutine of iteration \<open>i\<close> calling \<open>Run\<close> of the family at
  position \<open>j\<close>. That call happens at some time after the launch; the event stands at the
  launch.
\<close>

datatype 'r event =
    Started nat
  | RunLaunched nat
  | RunAbandoned nat nat
  | Stored nat "'r option"
  | Finished nat "'r FamilyResult"

text \<open>The variables of \<open>Run\<close>, with the notifier's state and the events so far.\<close>

record ('n, 'r) run_state =
  oneOrMoreFamilyFailed :: bool
  errors :: "error list"
  familyResults :: "'r Results"
  notifier_state :: 'n
  events :: "'r event list"

text \<open>
  One iteration of the loop, for the family at position \<open>i\<close> of \<open>fams\<close>. The \<open>select\<close>
  races the family's result against \<open>ctx.Done()\<close>; which case it takes is the context's:
  \<open>done_first i\<close> says that the \<open>ctx.Done()\<close> case is taken in iteration \<open>i\<close>. In that case
  the goroutine has been launched and its result is drained and dropped; \<open>late i\<close> is the
  number of iterations the loop has advanced when that goroutine reads the loop variable,
  which holds the last family once the loop is over.
\<close>

definition abandoned_reads :: "(nat \<Rightarrow> nat) \<Rightarrow> 'r Family list \<Rightarrow> nat \<Rightarrow> nat" where
  "abandoned_reads late fams i = min (i + late i) (length fams - 1)"

definition run_family ::
  "(nat \<Rightarrow> bool) \<Rightarrow> (nat \<Rightarrow> nat) \<Rightarrow> ('n, 'r) FamilyNotifier \<Rightarrow> 'r Family list \<Rightarrow> nat
     \<Rightarrow> 'r Family \<Rightarrow> ('n, 'r) run_state \<Rightarrow> ('n, 'r) run_state" where
  "run_family done_first late notifier fams i family s =
     (case FamilyStarted notifier (GetType family) (notifier_state s) of
        (Some err, n1) \<Rightarrow>
          s\<lparr>errors := errors s @ [Errorf_v ''family started notification failed'' err],
            notifier_state := n1,
            events := events s @ [Started i]\<rparr>
      | (None, n1) \<Rightarrow>
          (if done_first i
           then
             (let r = \<lparr>fr_Result = None, fr_FamilyType = GetType family,
                       fr_Err = Some (ErrorString
                         (''failed to run family '' @ FamilyType_string (GetType family)
                            @ '': aborted''))\<rparr>
              in case FamilyFinished notifier r n1 of
                   (Some err, n2) \<Rightarrow>
                     s\<lparr>oneOrMoreFamilyFailed := True,
                       errors := errors s @ [Errorf_v ''family finished notification failed'' err],
                       notifier_state := n2,
                       events := events s
                         @ [Started i, RunAbandoned i (abandoned_reads late fams i), Finished i r]\<rparr>
                 | (None, n2) \<Rightarrow>
                     s\<lparr>oneOrMoreFamilyFailed := True,
                       notifier_state := n2,
                       events := events s
                         @ [Started i, RunAbandoned i (abandoned_reads late fams i), Finished i r]\<rparr>)
           else
             (case Run family (familyResults s) of
                (ret, err) \<Rightarrow>
                  (let r = \<lparr>fr_Result = ret, fr_FamilyType = GetType family, fr_Err = err\<rparr>;
                       s1 = (if err \<noteq> None
                             then s\<lparr>oneOrMoreFamilyFailed := True,
                                    events := events s @ [Started i, RunLaunched i]\<rparr>
                             else s\<lparr>familyResults := SetResults (familyResults s) ret,
                                    events := events s @ [Started i, RunLaunched i, Stored i ret]\<rparr>)
                   in case FamilyFinished notifier r n1 of
                        (Some err, n2) \<Rightarrow>
                          s1\<lparr>errors := errors s1 @ [Errorf_v ''family finished notification failed'' err],
                             notifier_state := n2,
                             events := events s1 @ [Finished i r]\<rparr>
                      | (None, n2) \<Rightarrow>
                          s1\<lparr>notifier_state := n2,
                             events := events s1 @ [Finished i r]\<rparr>))))"

text \<open>
  The loop over \<open>m.families\<close>, from position \<open>i\<close>: \<open>fams\<close> is the whole list, the fourth
  argument what is left of it.
\<close>

fun run_loop ::
  "(nat \<Rightarrow> bool) \<Rightarrow> (nat \<Rightarrow> nat) \<Rightarrow> ('n, 'r) FamilyNotifier \<Rightarrow> 'r Family list \<Rightarrow> nat
     \<Rightarrow> 'r Family list \<Rightarrow> ('n, 'r) run_state \<Rightarrow> ('n, 'r) run_state" where
  "run_loop done_first late notifier fams i [] s = s"
| "run_loop done_first late notifier fams i (family # rest) s =
     run_loop done_first late notifier fams (Suc i) rest
       (run_family done_first late notifier fams i family s)"

definition initial_state :: "'n \<Rightarrow> ('n, 'r) run_state" where
  "initial_state n0 =
     \<lparr>oneOrMoreFamilyFailed = False, errors = [], familyResults = results_New,
      notifier_state = n0, events = []\<rparr>"

definition at_least_one_family_failed :: error where
  "at_least_one_family_failed = ErrorString ''at least one family failed to run''"

text \<open>
  \<open>Manager.Run\<close>: the state when it returns; \<open>errors\<close> of it is the returned list. The
  state after the first \<open>k\<close> families is \<open>Run_upto\<close>.
\<close>

definition Run_upto ::
  "'r Manager \<Rightarrow> (nat \<Rightarrow> bool) \<Rightarrow> (nat \<Rightarrow> nat) \<Rightarrow> ('n, 'r) FamilyNotifier \<Rightarrow> 'n \<Rightarrow> nat
     \<Rightarrow> ('n, 'r) run_state" where
  "Run_upto m done_first late notifier n0 k =
     run_loop done_first late notifier (families m) 0 (take k (families m)) (initial_state n0)"

definition Manager_Run ::
  "'r Manager \<Rightarrow> (nat \<Rightarrow> bool) \<Rightarrow> (nat \<Rightarrow> nat) \<Rightarrow> ('n, 'r) FamilyNotifier \<Rightarrow> 'n
     \<Rightarrow> ('n, 'r) run_state" where
  "Manager_Run m done_first late notifier n0 =
     (let s = run_loop done_first late notifier (families m) 0 (families m) (initial_state n0) in
      if oneOrMoreFamilyFailed s
      then s\<lparr>errors := errors s @ [at_least_one_family_failed]\<rparr>
      else s)"

text \<open>The fixed order, and the flag of each family type in a config.\<close>

definition family_order :: "FamilyType list" where
  "family_order = [SBOM, Vulnerabilities, Secrets, Rootkits, Malware, Misconfiguration, Exploits]"

fun family_enabled :: "'r FamiliesConfig \<Rightarrow> FamilyType \<Rightarrow> bool" where
  "family_enabled conf SBOM = Enabled (cfg_SBOM conf)"
| "family_enabled conf Vulnerabilities = Enabled (cfg_Vulnerabilities conf)"
| "family_enabled conf Secrets = Enabled (cfg_Secrets conf)"
| "family_enabled conf Rootkits = Enabled (cfg_Rootkits conf)"
| "family_enabled conf Malware = Enabled (cfg_Malware conf)"
| "family_enabled conf Misconfiguration = Enabled (cfg_Misconfiguration conf)"
| "family_enabled conf Exploits = Enabled (cfg_Exploits conf)"

text \<open>
  Readings of the events: the positions attempted, in order; the positions of the families
  whose \<open>Run\<close> a goroutine calls; and the iteration an event belongs to.
\<close>

fun started_positions :: "'r event list \<Rightarrow> nat list" where
  "started_positions [] = []"
| "started_positions (Started i # evs) = i # started_positions evs"
| "started_positions (e # evs) = started_positions evs"

fun run_invoked_positions :: "'r event list \<Rightarrow> nat list" where
  "run_invoked_positions [] = []"
| "run_invoked_positions (RunLaunched i # evs) = i # run_invoked_positions evs"
| "run_invoked_positions (RunAbandoned i j # evs) = j # run_invoked_positions evs"
| "run_invoked_positions (e # evs) = run_invoked_positions evs"

fun event_position :: "'r event \<Rightarrow> nat" where
  "event_position (Started i) = i"
| "event_position (RunLaunched i) = i"
| "event_position (RunAbandoned i j) = i"
| "event_position (Stored i r) = i"
| "event_position (Finished i r) = i"

text \<open>
  The result \<open>FamilyFinished\<close> is given for an aborted family, and the error recorded when
  \<open>FamilyFinished\<close> fails.
\<close>

definition aborted_result :: "'r Family \<Rightarrow> 'r FamilyResult" where
  "aborted_result family =
     \<lparr>fr_Result = None, fr_FamilyType = GetType family,
      fr_Err = Some (ErrorString
        (''failed to run family '' @ FamilyType_string (GetType family) @ '': aborted''))\<rparr>"

definition finished_errors :: "error option \<Rightarrow> error list" where
  "finished_errors ferr =
     (case ferr of
        Some err \<Rightarrow> [Errorf_v ''family finished notification failed'' err]
      | None \<Rightarrow> [])"

text \<open>
  Vocabulary for the families of a run, by position \<open>k\<close>: whether \<open>FamilyStarted\<close>
  succeeded for it, what its \<open>Run\<close> returns on the results stored before it, whether it
  completed with a nil error, and whether it failed (its \<open>Run\<close> returned an error, or it was
  aborted by the cancellation of the context).
\<close>

definition started_ok ::
  "'r Manager \<Rightarrow> (nat \<Rightarrow> bool) \<Rightarrow> (nat \<Rightarrow> nat) \<Rightarrow> ('n, 'r) FamilyNotifier \<Rightarrow> 'n \<Rightarrow> nat
     \<Rightarrow> bool" where
  "started_ok m done_first late notifier n0 k =
     (fst (FamilyStarted notifier (GetType (families m ! k))
             (notifier_state (Run_upto m done_first late notifier n0 k))) = None)"

definition run_result ::
  "'r Manager \<Rightarrow> (nat \<Rightarrow> bool) \<Rightarrow> (nat \<Rightarrow> nat) \<Rightarrow> ('n, 'r) FamilyNotifier \<Rightarrow> 'n \<Rightarrow> nat
     \<Rightarrow> 'r option \<times> error option" where
  "run_result m done_first late notifier n0 k =
     Run (families m ! k) (familyResults (Run_upto m done_first late notifier n0 k))"

definition completed_ok ::
  "'r Manager \<Rightarrow> (nat \<Rightarrow> bool) \<Rightarrow> (nat \<Rightarrow> nat) \<Rightarrow> ('n, 'r) FamilyNotifier \<Rightarrow> 'n \<Rightarrow> nat
     \<Rightarrow> bool" where
  "completed_ok m done_first late notifier n0 k =
     (started_ok m done_first late notifier n0 k \<and> \<not> done_first k
      \<and> snd (run_result m done_first late notifier n0 k) = None)"

definition family_failed ::
  "'r Manager \<Rightarrow> (nat \<Rightarrow> bool) \<Rightarrow> (nat \<Rightarrow> nat) \<Rightarrow> ('n, 'r) FamilyNotifier \<Rightarrow> 'n \<Rightarrow> nat
     \<Rightarrow> bool" where
  "family_failed m done_first late notifier n0 k =
     (started_ok m done_first late notifier n0 k
      \<and> (done_first k \<or> snd (run_result m done_first late notifier n0 k) \<noteq> None))"

text \<open>What the family at position \<open>k\<close> adds to the Results Store.\<close>

definition contribution ::
  "'r Manager \<Rightarrow> (nat \<Rightarrow> bool) \<Rightarrow> (nat \<Rightarrow> nat) \<Rightarrow> ('n, 'r) FamilyNotifier \<Rightarrow> 'n \<Rightarrow> nat
     \<Rightarrow> 'r option list" where
  "contribution m done_first late notifier n0 k =
     (if completed_ok m done_first late notifier n0 k
      then [fst (run_result m done_first late notifier n0 k)] else [])"

text \<open>
  A notifier that does what a given notifier does and keeps, next to that notifier's state,
  the calls it receives with their arguments, in order.
\<close>

datatype 'r notification =
    Notified_Started FamilyType
  | Notified_Finished "'r FamilyResult"

definition recording ::
  "('n, 'r) FamilyNotifier \<Rightarrow> ('n \<times> 'r notification list, 'r) FamilyNotifier" where
  "recording notifier =
     \<lparr>FamilyStarted = (\<lambda>t (n, calls).
        (fst (FamilyStarted notifier t n),
         (snd (FamilyStarted notifier t n), calls @ [Notified_Started t]))),
      FamilyFinished = (\<lambda>r (n, calls).
        (fst (FamilyFinished notifier r n),
         (snd (FamilyFinished notifier r n), calls @ [Notified_Finished r])))\<rparr>"

definition forget ::
  "('n \<times> 'r notification list, 'r) run_state \<Rightarrow> ('n, 'r) run_state" where
  "forget s =
     \<lparr>oneOrMoreFamilyFailed = oneOrMoreFamilyFailed s, errors = errors s,
      familyResults = familyResults s, notifier_state = fst (notifier_state s),
      events = events s\<rparr>"

fun started_types :: "'r notification list \<Rightarrow> FamilyType list" where
  "started_types [] = []"
| "started_types (Notified_Started t # calls) = t # started_types calls"
| "started_types (c # calls) = started_types calls"

text \<open>
  The spec's reading of a run in which nothing is cancelled and no start notification
  fails: the families run one after the other in the order of the list, each on the results
  stored before it, each announced before and reported after, and each storing its result
  when it returns no error. It gives the calls the notifier receives and the store at the
  end.
\<close>

fun run_in_order :: "'r Family list \<Rightarrow> 'r Results \<Rightarrow> 'r notification list \<times> 'r Results" where
  "run_in_order [] rs = ([], rs)"
| "run_in_order (f # fs) rs =
     (case Run f rs of
        (ret, err) \<Rightarrow>
          (case run_in_order fs (if err = None then rs @ [ret] else rs) of
             (calls, out) \<Rightarrow>
               (Notified_Started (GetType f)
                  # Notified_Finished \<lparr>fr_Result = ret, fr_FamilyType = GetType f, fr_Err = err\<rparr>
                  # calls,
                out)))"

text \<open>
  A concrete run the results below are evaluated at: SBOM, Vulnerabilities and Exploits are
  enabled; SBOM and Exploits return a result, Vulnerabilities returns an error. The notifiers
  keep no state.
\<close>

definition conf_ex :: "unit FamiliesConfig" where
  "conf_ex =
     \<lparr>cfg_SBOM = \<lparr>Enabled = True, Behaviour = (\<lambda>rs. (Some (), None))\<rparr>,
      cfg_Vulnerabilities =
        \<lparr>Enabled = True, Behaviour = (\<lambda>rs. (None, Some (ErrorString ''scan failed'')))\<rparr>,
      cfg_Secrets = \<lparr>Enabled = False, Behaviour = (\<lambda>rs. (Some (), None))\<rparr>,
      cfg_Rootkits = \<lparr>Enabled = False, Behaviour = (\<lambda>rs. (Some (), None))\<rparr>,
      cfg_Malware = \<lparr>Enabled = False, Behaviour = (\<lambda>rs. (Some (), None))\<rparr>,
      cfg_Misconfiguration = \<lparr>Enabled = False, Behaviour = (\<lambda>rs. (Some (), None))\<rparr>,
      cfg_Exploits = \<lparr>Enabled = True, Behaviour = (\<lambda>rs. (Some (), None))\<rparr>\<rparr>"

definition conf_sbom :: "unit FamiliesConfig" where
  "conf_sbom = conf_ex\<lparr>cfg_Vulnerabilities := \<lparr>Enabled = False, Behaviour = (\<lambda>rs. (None, None))\<rparr>,
                       cfg_Exploits := \<lparr>Enabled = False, Behaviour = (\<lambda>rs. (None, None))\<rparr>\<rparr>"

definition notifier_ok :: "(unit, unit) FamilyNotifier" where
  "notifier_ok = \<lparr>FamilyStarted = (\<lambda>t n. (None, n)), FamilyFinished = (\<lambda>r n. (None, n))\<rparr>"

definition notifier_down :: "(unit, unit) FamilyNotifier" where
  "notifier_down =
     \<lparr>FamilyStarted = (\<lambda>t n. (Some (ErrorString ''down''), n)),
      FamilyFinished = (\<lambda>r n. (None, n))\<rparr>"

definition notifier_picky :: "(unit, unit) FamilyNotifier" where
  "notifier_picky =
     \<lparr>FamilyStarted = (\<lambda>t n. (if t = Vulnerabilities then Some (ErrorString ''down'') else None, n)),
      FamilyFinished = (\<lambda>r n. (None, n))\<rparr>"

definition never_done :: "nat \<Rightarrow> bool" where
  "never_done i = False"

definition done_at_1 :: "nat \<Rightarrow> bool" where
  "done_at_1 i = (i = 1)"

definition always_done :: "nat \<Rightarrow> bool" where
  "always_done i = True"

definition no_delay :: "nat \<Rightarrow> nat" where
  "no_delay i = 0"

definition one_late :: "nat \<Rightarrow> nat" where
  "one_late i = 1"

section \<open>Revisions: results\<close>

lemma checkRevisionEtag_absent: "checkRevisionEtag None revision = Return None"
  by (simp add: checkRevisionEtag_def)

lemma checkRevisionEtag_present:
  "checkRevisionEtag (Some m) (Some r) = Return e
     \<Longrightarrow> (e \<noteq> None) = (m \<noteq> r)"
  by (auto simp: checkRevisionEtag_def split: if_splits)

lemma bumpRevision_nil: "bumpRevision None = Some 1"
  by (simp add: bumpRevision_def)

lemma bumpRevision_succ: "bumpRevision (Some r) = Some (r + 1)"
  by (simp add: bumpRevision_def)

lemma SaveScanResult_bumps:
  "SaveScanResult env db scanResult ifMatch = (Return (saved, None), db')
     \<Longrightarrow> \<exists>dbScanResult. getExistingObjByID env db (the (tsr_Id scanResult)) = Inr dbScanResult
           \<and> tsr_Revision saved = bumpRevision (tsr_Revision dbScanResult)
           \<and> db' = save_row (the (tsr_Id scanResult)) saved db"
  by (auto simp: SaveScanResult_def Let_def
           split: if_splits outcome.splits option.splits sum.splits prod.splits)

section \<open>Filter texts: results\<close>

lemma strings_Split_no_sep:
  "sep \<notin> set xs \<Longrightarrow> strings_Split xs sep = [xs]"
  by (induction xs) auto

lemma strings_Split_append:
  "sep \<notin> set xs \<Longrightarrow> strings_Split (xs @ sep # ys) sep = xs # strings_Split ys sep"
  by (induction xs) auto

lemma odata_parse_id_eq:
  assumes "quote \<notin> set i"
  shows "odata_parse (filter_id_eq i) = Some [Compare Field_id False i]"
proof -
  have "strings_Split (filter_id_eq i) quote = [''id eq '', i, []]"
    using assms
    by (simp add: filter_id_eq_def strings_Split_append quote_def)
  then show ?thesis
    by (simp add: odata_parse_def comparison_heads_def)
qed

lemma odata_parse_id_ne_target_scan:
  assumes "quote \<notin> set i" "quote \<notin> set t" "quote \<notin> set s"
  shows "odata_parse (filter_id_ne_target_scan i t s)
           = Some [Compare Field_id True i, Compare Field_target_id False t,
                   Compare Field_scan_id False s]"
proof -
  have "strings_Split (filter_id_ne_target_scan i t s) quote
          = [''id ne '', i, '' and target/id eq '', t, '' and scan/id eq '', s, []]"
    using assms
    by (simp add: filter_id_ne_target_scan_def strings_Split_append quote_def)
  then show ?thesis
    by (simp add: odata_parse_def comparison_heads_def)
qed

text \<open>
  With ids free of quotes, the uniqueness query answers the rows that have another id and
  the same target id and scan id.
\<close>

lemma ODataQuery_uniqueness:
  assumes "query_error env = None"
    and "quote \<notin> set i" "quote \<notin> set t" "quote \<notin> set s"
  shows "ODataQuery env db (filter_id_ne_target_scan i t s)
           = Inr (filter (other_with_same_ids i t s) db)"
proof -
  have "list_all (\<lambda>c. holds c r)
          [Compare Field_id True i, Compare Field_target_id False t, Compare Field_scan_id False s]
        = other_with_same_ids i t s r" for r :: "'a TargetScanResult"
    by (cases "tsr_Id r"; cases "tsr_Target r"; cases "tsr_Scan r")
       (simp_all add: other_with_same_ids_def field_value_def)
  then show ?thesis
    using assms by (simp add: ODataQuery_def odata_parse_id_ne_target_scan)
qed

section \<open>Scan results: results\<close>

lemma CreateScanResult_rejects:
  assumes "tsr_Id sr \<noteq> None
           \<or> (\<exists>s. tsr_Scan sr = Some s \<and> scan_Id s = [])
           \<or> (\<exists>t. tsr_Target sr = Some t \<and> target_Id t = [])"
  shows "\<exists>reason. CreateScanResult env db sr
           = (Return (TargetScanResult_zero, Some (BadRequestError reason)), db)"
  using assms by (auto simp: CreateScanResult_def)

lemma CreateScanResult_success_shape:
  assumes "CreateScanResult env db sr = (Return (r, None), db')"
  shows "r = sr\<lparr>tsr_Id := Some (uuid_New env), tsr_Revision := Some 1\<rparr> \<and> db' = db @ [r]"
  using assms
  by (auto simp: CreateScanResult_def Let_def
           split: if_splits outcome.splits option.splits prod.splits)

lemma checkUniqueness_no_match:
  assumes "tsr_Id sr = Some i" "tsr_Scan sr = Some s" "tsr_Target sr = Some t"
    and "ODataQuery env db (filter_id_ne_target_scan i (target_Id t) (scan_Id s)) = Inr []"
  shows "checkUniqueness env db sr = Return (TargetScanResult_zero, None)"
  using assms by (simp add: checkUniqueness_def)

lemma checkUniqueness_match:
  assumes "tsr_Id sr = Some i" "tsr_Scan sr = Some s" "tsr_Target sr = Some t"
    and "ODataQuery env db (filter_id_ne_target_scan i (target_Id t) (scan_Id s)) = Inr (e # es)"
  shows "\<exists>reason. checkUniqueness env db sr = Return (e, Some (ConflictError reason))"
  using assms by (simp add: checkUniqueness_def)

lemma CreateScanResult_succeeds:
  assumes "tsr_Id sr = None"
    and "tsr_Scan sr = Some s" "scan_Id s \<noteq> []"
    and "tsr_Target sr = Some t" "target_Id t \<noteq> []"
    and "query_error env = None" "create_error env = None"
    and "quote \<notin> set (uuid_New env)" "quote \<notin> set (target_Id t)" "quote \<notin> set (scan_Id s)"
    and "\<forall>r \<in> set db. \<not> other_with_same_ids (uuid_New env) (target_Id t) (scan_Id s) r"
  shows "CreateScanResult env db sr
           = (Return (sr\<lparr>tsr_Id := Some (uuid_New env), tsr_Revision := Some 1\<rparr>, None),
              db @ [sr\<lparr>tsr_Id := Some (uuid_New env), tsr_Revision := Some 1\<rparr>])"
proof -
  let ?sr = "sr\<lparr>tsr_Id := Some (uuid_New env), tsr_Revision := Some 1\<rparr>"
  have "filter (other_with_same_ids (uuid_New env) (target_Id t) (scan_Id s)) db = []"
    using assms(11) unfolding filter_empty_conv by blast
  then have "ODataQuery env db
               (filter_id_ne_target_scan (uuid_New env) (target_Id t) (scan_Id s)) = Inr []"
    using ODataQuery_uniqueness [OF assms(6) assms(8) assms(9) assms(10), of db] by simp
  then have "checkUniqueness env db ?sr = Return (TargetScanResult_zero, None)"
    using assms(2,4) by (intro checkUniqueness_no_match) simp_all
  then show ?thesis
    using assms(1-7) by (simp add: CreateScanResult_def Let_def)
qed

lemma CreateScanResult_conflict:
  assumes "tsr_Id sr = None"
    and "tsr_Scan sr = Some s" "scan_Id s \<noteq> []"
    and "tsr_Target sr = Some t" "target_Id t \<noteq> []"
    and "query_error env = None"
    and "quote \<notin> set (uuid_New env)" "quote \<notin> set (target_Id t)" "quote \<notin> set (scan_Id s)"
    and "e \<in> set db" "other_with_same_ids (uuid_New env) (target_Id t) (scan_Id s) e"
  shows "\<exists>existing reason.
           CreateScanResult env db sr = (Return (existing, Some (ConflictError reason)), db)
           \<and> existing \<in> set db
           \<and> other_with_same_ids (uuid_New env) (target_Id t) (scan_Id s) existing"
proof -
  let ?sr = "sr\<lparr>tsr_Id := Some (uuid_New env), tsr_Revision := Some 1\<rparr>"
  let ?P = "other_with_same_ids (uuid_New env) (target_Id t) (scan_Id s)"
  have "e \<in> set (filter ?P db)"
    using assms(10,11) by simp
  then obtain x xs where xs: "filter ?P db = x # xs"
    by (cases "filter ?P db") auto
  then have "x \<in> set (filter ?P db)"
    by simp
  then have x: "x \<in> set db" "?P x"
    by simp_all
  have "ODataQuery env db
          (filter_id_ne_target_scan (uuid_New env) (target_Id t) (scan_Id s)) = Inr (x # xs)"
    using ODataQuery_uniqueness [OF assms(6) assms(7) assms(8) assms(9), of db] xs by simp
  then obtain reason where "checkUniqueness env db ?sr = Return (x, Some (ConflictError reason))"
    using checkUniqueness_match [of ?sr "uuid_New env" s t env db x xs] assms(2,4) by auto
  then have "CreateScanResult env db sr = (Return (x, Some (ConflictError reason)), db)"
    using assms(1-6) by (simp add: CreateScanResult_def Let_def)
  then show ?thesis
    using x by blast
qed

text \<open>
  The ids of the concrete values: the filter text of the quoted target id reads as four
  comparisons, the last two on \<open>scan/id\<close>.
\<close>

lemma quoted_filter_parse:
  "odata_parse (filter_id_ne_target_scan ''u1'' quoted_target_id ''s'')
     = Some [Compare Field_id True ''u1'', Compare Field_target_id False ''t'',
             Compare Field_scan_id False ''x'', Compare Field_scan_id False ''s'']"
proof -
  have "filter_id_ne_target_scan ''u1'' quoted_target_id ''s''
          = ''id ne '' @ quote # ''u1'' @ quote # '' and target/id eq '' @ quote # ''t''
              @ quote # '' and scan/id eq '' @ quote # ''x''
              @ quote # '' and scan/id eq '' @ quote # ''s'' @ [quote]"
    by (simp add: filter_id_ne_target_scan_def quoted_target_id_def)
  then have "strings_Split (filter_id_ne_target_scan ''u1'' quoted_target_id ''s'') quote
          = [''id ne '', ''u1'', '' and target/id eq '', ''t'', '' and scan/id eq '', ''x'',
             '' and scan/id eq '', ''s'', []]"
    by (simp add: quote_def)
  then show ?thesis
    by (simp add: odata_parse_def comparison_heads_def)
qed

text \<open>
  What \<open>CreateScanResult\<close> does keep: (1) an input with an id, or with a scan or a target
  whose id is empty, is answered with a \<open>BadRequestError\<close> and the table is unchanged;
  (2) whenever the call succeeds, the returned record is the input with the generated UUID as
  id and revision 1, and it is the one row appended to the table; and, for ids that have no
  single quote in them, (3) it does succeed on a valid input with a scan and a target when
  the database answers and no other row has the same target id and scan id; (4) when such a
  row exists, one of them is returned with a \<open>ConflictError\<close> and the table is unchanged.
\<close>

lemma CreateScanResult_contract:
  "((tsr_Id sr \<noteq> None
       \<or> (\<exists>s. tsr_Scan sr = Some s \<and> scan_Id s = [])
       \<or> (\<exists>t. tsr_Target sr = Some t \<and> target_Id t = []))
      \<longrightarrow> (\<exists>reason. CreateScanResult env db sr
             = (Return (TargetScanResult_zero, Some (BadRequestError reason)), db)))
   \<and> (\<forall>r db'. CreateScanResult env db sr = (Return (r, None), db')
         \<longrightarrow> tsr_Id r = Some (uuid_New env) \<and> tsr_Revision r = Some 1
             \<and> r = sr\<lparr>tsr_Id := Some (uuid_New env), tsr_Revision := Some 1\<rparr>
             \<and> db' = db @ [r])
   \<and> (tsr_Id sr = None \<and> tsr_Scan sr = Some s \<and> scan_Id s \<noteq> []
        \<and> tsr_Target sr = Some t \<and> target_Id t \<noteq> []
        \<and> query_error env = None \<and> create_error env = None
        \<and> quote \<notin> set (uuid_New env) \<and> quote \<notin> set (target_Id t) \<and> quote \<notin> set (scan_Id s)
        \<and> (\<forall>r \<in> set db. \<not> other_with_same_ids (uuid_New env) (target_Id t) (scan_Id s) r)
      \<longrightarrow> CreateScanResult env db sr
            = (Return (sr\<lparr>tsr_Id := Some (uuid_New env), tsr_Revision := Some 1\<rparr>, None),
               db @ [sr\<lparr>tsr_Id := Some (uuid_New env), tsr_Revision := Some 1\<rparr>]))
   \<and> (tsr_Id sr = None \<and> tsr_Scan sr = Some s \<and> scan_Id s \<noteq> []
        \<and> tsr_Target sr = Some t \<and> target_Id t \<noteq> []
        \<and> query_error env = None
        \<and> quote \<notin> set (uuid_New env) \<and> quote \<notin> set (target_Id t) \<and> quote \<notin> set (scan_Id s)
        \<and> e \<in> set db \<and> other_with_same_ids (uuid_New env) (target_Id t) (scan_Id s) e
      \<longrightarrow> (\<exists>existing reason.
             CreateScanResult env db sr = (Return (existing, Some (ConflictError reason)), db)
             \<and> existing \<in> set db
             \<and> other_with_same_ids (uuid_New env) (target_Id t) (scan_Id s) existing))"
proof (intro conjI impI allI)
  assume "tsr_Id sr \<noteq> None
           \<or> (\<exists>s. tsr_Scan sr = Some s \<and> scan_Id s = [])
           \<or> (\<exists>t. tsr_Target sr = Some t \<and> target_Id t = [])"
  then show "\<exists>reason. CreateScanResult env db sr
           = (Return (TargetScanResult_zero, Some (BadRequestError reason)), db)"
    by (rule CreateScanResult_rejects)
next
  fix r db'
  assume a: "CreateScanResult env db sr = (Return (r, None), db')"
  from CreateScanResult_success_shape [OF a]
  show "tsr_Id r = Some (uuid_New env)" "tsr_Revision r = Some 1"
    "r = sr\<lparr>tsr_Id := Some (uuid_New env), tsr_Revision := Some 1\<rparr>" "db' = db @ [r]"
    by simp_all
next
  assume "tsr_Id sr = None \<and> tsr_Scan sr = Some s \<and> scan_Id s \<noteq> []
        \<and> tsr_Target sr = Some t \<and> target_Id t \<noteq> []
        \<and> query_error env = None \<and> create_error env = None
        \<and> quote \<notin> set (uuid_New env) \<and> quote \<notin> set (target_Id t) \<and> quote \<notin> set (scan_Id s)
        \<and> (\<forall>r \<in> set db. \<not> other_with_same_ids (uuid_New env) (target_Id t) (scan_Id s) r)"
  then show "CreateScanResult env db sr
            = (Return (sr\<lparr>tsr_Id := Some (uuid_New env), tsr_Revision := Some 1\<rparr>, None),
               db @ [sr\<lparr>tsr_Id := Some (uuid_New env), tsr_Revision := Some 1\<rparr>])"
    by (intro CreateScanResult_succeeds [of sr s t env db]) blast+
next
  assume "tsr_Id sr = None \<and> tsr_Scan sr = Some s \<and> scan_Id s \<noteq> []
        \<and> tsr_Target sr = Some t \<and> target_Id t \<noteq> []
        \<and> query_error env = None
        \<and> quote \<notin> set (uuid_New env) \<and> quote \<notin> set (target_Id t) \<and> quote \<notin> set (scan_Id s)
        \<and> e \<in> set db \<and> other_with_same_ids (uuid_New env) (target_Id t) (scan_Id s) e"
  then show "\<exists>existing reason.
             CreateScanResult env db sr = (Return (existing, Some (ConflictError reason)), db)
             \<and> existing \<in> set db
             \<and> other_with_same_ids (uuid_New env) (target_Id t) (scan_Id s) existing"
    by (intro CreateScanResult_conflict [of sr s t env e db]) blast+
qed

lemma CreateScanResult_examples:
  "(\<exists>reason. CreateScanResult env0 [] input_with_id
       = (Return (TargetScanResult_zero, Some (BadRequestError reason)), []))
   \<and> CreateScanResult env0 [] input_ok
       = (Return (input_ok\<lparr>tsr_Id := Some ''u1'', tsr_Revision := Some 1\<rparr>, None),
          [input_ok\<lparr>tsr_Id := Some ''u1'', tsr_Revision := Some 1\<rparr>])
   \<and> (\<exists>reason. CreateScanResult env0 [row_old] input_ok
       = (Return (row_old, Some (ConflictError reason)), [row_old]))"
proof (intro conjI)
  have "tsr_Id input_with_id \<noteq> None"
    by (simp add: input_with_id_def)
  with CreateScanResult_contract [where sr = input_with_id and env = env0 and db = "[]"]
  show "\<exists>reason. CreateScanResult env0 [] input_with_id
       = (Return (TargetScanResult_zero, Some (BadRequestError reason)), [])"
    by blast
next
  have u: "uuid_New env0 = ''u1''"
    by (simp add: env0_def)
  have h: "tsr_Id input_ok = None \<and> tsr_Scan input_ok = Some \<lparr>scan_Id = ''s''\<rparr>
        \<and> scan_Id \<lparr>scan_Id = ''s''\<rparr> \<noteq> []
        \<and> tsr_Target input_ok = Some \<lparr>target_Id = ''t''\<rparr>
        \<and> target_Id \<lparr>target_Id = ''t''\<rparr> \<noteq> []
        \<and> query_error env0 = None \<and> create_error env0 = None
        \<and> quote \<notin> set (uuid_New env0) \<and> quote \<notin> set (target_Id \<lparr>target_Id = ''t''\<rparr>)
        \<and> quote \<notin> set (scan_Id \<lparr>scan_Id = ''s''\<rparr>)
        \<and> (\<forall>r \<in> set ([] :: unit TargetScanResult list). \<not> other_with_same_ids
               (uuid_New env0) (target_Id \<lparr>target_Id = ''t''\<rparr>) (scan_Id \<lparr>scan_Id = ''s''\<rparr>) r)"
    by (simp add: input_ok_def env0_def quote_def)
  from CreateScanResult_contract [where sr = input_ok and env = env0 and db = "[]"
        and s = "\<lparr>scan_Id = ''s''\<rparr>" and t = "\<lparr>target_Id = ''t''\<rparr>"] h
  have "CreateScanResult env0 [] input_ok
            = (Return (input_ok\<lparr>tsr_Id := Some (uuid_New env0), tsr_Revision := Some 1\<rparr>, None),
               [] @ [input_ok\<lparr>tsr_Id := Some (uuid_New env0), tsr_Revision := Some 1\<rparr>])"
    by blast
  then show "CreateScanResult env0 [] input_ok
       = (Return (input_ok\<lparr>tsr_Id := Some ''u1'', tsr_Revision := Some 1\<rparr>, None),
          [input_ok\<lparr>tsr_Id := Some ''u1'', tsr_Revision := Some 1\<rparr>])"
    unfolding u by simp
next
  have h: "tsr_Id input_ok = None \<and> tsr_Scan input_ok = Some \<lparr>scan_Id = ''s''\<rparr>
        \<and> scan_Id \<lparr>scan_Id = ''s''\<rparr> \<noteq> []
        \<and> tsr_Target input_ok = Some \<lparr>target_Id = ''t''\<rparr>
        \<and> target_Id \<lparr>target_Id = ''t''\<rparr> \<noteq> []
        \<and> query_error env0 = None
        \<and> quote \<notin> set (uuid_New env0) \<and> quote \<notin> set (target_Id \<lparr>target_Id = ''t''\<rparr>)
        \<and> quote \<notin> set (scan_Id \<lparr>scan_Id = ''s''\<rparr>)
        \<and> row_old \<in> set [row_old]
        \<and> other_with_same_ids (uuid_New env0) (target_Id \<lparr>target_Id = ''t''\<rparr>)
             (scan_Id \<lparr>scan_Id = ''s''\<rparr>) row_old"
    by (simp add: input_ok_def env0_def row_old_def quote_def other_with_same_ids_def)
  from CreateScanResult_contract [where sr = input_ok and env = env0 and db = "[row_old]"
        and s = "\<lparr>scan_Id = ''s''\<rparr>" and t = "\<lparr>target_Id = ''t''\<rparr>" and e = row_old] h
  have "\<exists>existing reason.
             CreateScanResult env0 [row_old] input_ok
               = (Return (existing, Some (ConflictError reason)), [row_old])
             \<and> existing \<in> set [row_old]"
    by blast
  then show "\<exists>reason. CreateScanResult env0 [row_old] input_ok
       = (Return (row_old, Some (ConflictError reason)), [row_old])"
    by auto
qed

text \<open>
  C9. The part on an existing record does not hold of the code for every id. The ids go into
  the filter text between quotes as they are, so with a target id that has single quotes in
  it the text is another filter: here it asks for scan id \<open>x\<close> and scan id \<open>s\<close> at once,
  which no row satisfies. The table already holds a record with another id and the same
  target id and scan id as the input, and \<open>CreateScanResult\<close> returns no \<open>ConflictError\<close>:
  it inserts a second record for the pair and returns it.
\<close>

theorem CreateScanResult_quoted_id_inserts_duplicate:
  "other_with_same_ids (uuid_New env0) quoted_target_id ''s'' row_quoted
   \<and> map_option target_Id (tsr_Target input_quoted) = Some quoted_target_id
   \<and> map_option scan_Id (tsr_Scan input_quoted) = Some ''s''
   \<and> CreateScanResult env0 [row_quoted] input_quoted
       = (Return (input_quoted\<lparr>tsr_Id := Some ''u1'', tsr_Revision := Some 1\<rparr>, None),
          [row_quoted, input_quoted\<lparr>tsr_Id := Some ''u1'', tsr_Revision := Some 1\<rparr>])"
proof -
  let ?sr = "input_quoted\<lparr>tsr_Id := Some ''u1'', tsr_Revision := Some 1\<rparr>"
  have a: "other_with_same_ids (uuid_New env0) quoted_target_id ''s'' row_quoted"
    by (simp add: other_with_same_ids_def row_quoted_def env0_def)
  have b: "map_option target_Id (tsr_Target input_quoted) = Some quoted_target_id"
    "map_option scan_Id (tsr_Scan input_quoted) = Some ''s''"
    by (simp_all add: input_quoted_def)
  have "\<not> list_all (\<lambda>c. holds c row_quoted)
            [Compare Field_id True ''u1'', Compare Field_target_id False ''t'',
             Compare Field_scan_id False ''x'', Compare Field_scan_id False ''s'']"
    by (simp add: field_value_def row_quoted_def)
  then have q: "ODataQuery env0 [row_quoted]
                 (filter_id_ne_target_scan ''u1'' quoted_target_id ''s'') = Inr []"
    unfolding ODataQuery_def quoted_filter_parse by (simp add: env0_def)
  have "tsr_Id ?sr = Some ''u1''" "tsr_Scan ?sr = Some \<lparr>scan_Id = ''s''\<rparr>"
    "tsr_Target ?sr = Some \<lparr>target_Id = quoted_target_id\<rparr>"
    by (simp_all add: input_quoted_def)
  then have "checkUniqueness env0 [row_quoted] ?sr = Return (TargetScanResult_zero, None)"
    using q
    by (rule checkUniqueness_no_match
          [where i = "''u1''" and s = "\<lparr>scan_Id = ''s''\<rparr>"
             and t = "\<lparr>target_Id = quoted_target_id\<rparr>", simplified])
  moreover have "quoted_target_id \<noteq> []"
    by (simp add: quoted_target_id_def)
  ultimately have "CreateScanResult env0 [row_quoted] input_quoted
       = (Return (?sr, None), [row_quoted] @ [?sr])"
    unfolding CreateScanResult_def by (simp add: input_quoted_def env0_def Let_def)
  with a b show ?thesis
    by simp
qed

text \<open>
  C10. With an If-Match value and no stored revision, \<open>checkRevisionEtag\<close> does not return a
  \<open>PreconditionFailedError\<close>: building the message dereferences the nil revision and the
  call panics, and so does \<open>SaveScanResult\<close> on a stored row that has no revision.
\<close>

theorem checkRevisionEtag_nil_revision_panics:
  "checkRevisionEtag (Some 1) None = Panic
   \<and> SaveScanResult
        \<lparr>uuid_New = ''u'', query_error = None, create_error = None, save_error = None,
         other_query = (\<lambda>text db. Inl (ErrorString ''failed to parse $filter''))\<rparr>
        [\<lparr>tsr_Id = Some ''a'', tsr_Revision = None, tsr_Scan = Some \<lparr>scan_Id = ''s''\<rparr>,
          tsr_Target = Some \<lparr>target_Id = ''t''\<rparr>, tsr_Rest = None :: unit option\<rparr>]
        \<lparr>tsr_Id = Some ''a'', tsr_Revision = None, tsr_Scan = Some \<lparr>scan_Id = ''s''\<rparr>,
          tsr_Target = Some \<lparr>target_Id = ''t''\<rparr>, tsr_Rest = None\<rparr>
        (Some 1)
      = (Panic,
         [\<lparr>tsr_Id = Some ''a'', tsr_Revision = None, tsr_Scan = Some \<lparr>scan_Id = ''s''\<rparr>,
           tsr_Target = Some \<lparr>target_Id = ''t''\<rparr>, tsr_Rest = None\<rparr>])"
proof -
  have q: "quote \<notin> set ''a''" "quote \<notin> set ''t''" "quote \<notin> set ''s''"
    by (simp_all add: quote_def)
  show ?thesis
    by (simp add: checkRevisionEtag_def SaveScanResult_def checkUniqueness_def ODataQuery_def
          getExistingObjByID_def odata_parse_id_eq [OF q(1)]
          odata_parse_id_ne_target_scan [OF q(1) q(2) q(3)] field_value_def)
qed

section \<open>Tag filtering: results\<close>

lemma all_tags_match_True:
  "all_tags_match vmTags tags = Return True
     \<longleftrightarrow> (\<forall>tag \<in> set tags. map_of vmTags (Key tag) = Some (Some (Value tag)))"
  by (induction tags) (auto split: option.splits)

lemma all_tags_match_returns:
  assumes "\<forall>(k, v) \<in> set vmTags. v \<noteq> None"
  shows "all_tags_match vmTags tags
           = Return (\<forall>tag \<in> set tags. map_of vmTags (Key tag) = Some (Some (Value tag)))"
proof (induction tags)
  case Nil
  show ?case by simp
next
  case (Cons tag tags)
  have "map_of vmTags (Key tag) \<noteq> Some None"
    using assms by (auto dest: map_of_SomeD)
  with Cons show ?case
    by (auto split: option.splits)
qed

lemma hasIncludeTags_True:
  "hasIncludeTags vm sel = Return True
     \<longleftrightarrow> (sel = None \<or> sel = Some [] \<or> (\<exists>ts. sel = Some ts \<and> (\<forall>tag \<in> set ts. carries_tag vm tag)))"
proof (cases sel)
  case None
  then show ?thesis by (simp add: hasIncludeTags_def)
next
  case (Some ts)
  show ?thesis
  proof (cases "ts = []")
    case True
    with Some show ?thesis by (simp add: hasIncludeTags_def)
  next
    case False
    then obtain t where t: "t \<in> set ts"
      by (cases ts) auto
    show ?thesis
    proof (cases "vm_Tags vm = []")
      case True
      then have "\<not> carries_tag vm t"
        by (simp add: carries_tag_def)
      with t True Some False show ?thesis
        by (auto simp: hasIncludeTags_def)
    next
      case nonempty: False
      with Some False show ?thesis
        by (simp add: hasIncludeTags_def all_tags_match_True carries_tag_def)
    qed
  qed
qed

lemma hasExcludeTags_True:
  "hasExcludeTags vm sel = Return True
     \<longleftrightarrow> (\<exists>ts. sel = Some ts \<and> ts \<noteq> [] \<and> (\<forall>tag \<in> set ts. carries_tag vm tag))"
proof (cases sel)
  case None
  then show ?thesis by (simp add: hasExcludeTags_def)
next
  case (Some ts)
  show ?thesis
  proof (cases "ts = []")
    case True
    with Some show ?thesis by (simp add: hasExcludeTags_def)
  next
    case False
    then obtain t where t: "t \<in> set ts"
      by (cases ts) auto
    show ?thesis
    proof (cases "vm_Tags vm = []")
      case True
      then have "\<not> carries_tag vm t"
        by (simp add: carries_tag_def)
      with t True Some False show ?thesis
        by (auto simp: hasExcludeTags_def)
    next
      case nonempty: False
      with Some False show ?thesis
        by (simp add: hasExcludeTags_def all_tags_match_True carries_tag_def)
    qed
  qed
qed

lemma convertTags_no_nil:
  "convertTags vmTags = Return ret \<Longrightarrow> \<forall>(k, v) \<in> set vmTags. v \<noteq> None"
  by (induction vmTags arbitrary: ret) (auto split: option.splits outcome.splits)

lemma getVMInfo_no_nil_tags:
  assumes "getVMInfoFromVirtualMachine FromVMInfo vm = Return r"
  shows "\<forall>(k, v) \<in> set (vm_Tags vm). v \<noteq> None"
proof -
  from assms obtain ret where "convertTags (vm_Tags vm) = Return ret"
    by (auto simp: getVMInfoFromVirtualMachine_def Let_def
             split: option.splits outcome.splits prod.splits)
  then show ?thesis
    by (rule convertTags_no_nil)
qed

lemma hasIncludeTags_returns:
  assumes "\<forall>(k, v) \<in> set (vm_Tags vm). v \<noteq> None"
  shows "\<exists>b. hasIncludeTags vm sel = Return b"
  using all_tags_match_returns [OF assms]
  by (auto simp: hasIncludeTags_def split: option.splits)

lemma hasExcludeTags_returns:
  assumes "\<forall>(k, v) \<in> set (vm_Tags vm). v \<noteq> None"
  shows "\<exists>b. hasExcludeTags vm sel = Return b"
  using all_tags_match_returns [OF assms]
  by (auto simp: hasExcludeTags_def split: option.splits)

text \<open>Whenever the loop returns a list, it has added the targets of exactly the passing VMs.\<close>

lemma processVirtualMachineList_loop_returns:
  assumes "processVirtualMachineList_loop FromVMInfo vms scope ret = Return (Inr res)"
  shows "\<exists>out. res = ret @ out
           \<and> map (\<lambda>info. Return (info, None)) out
               = map (getVMInfoFromVirtualMachine FromVMInfo) (filter (passes_filter scope) vms)"
  using assms
proof (induction vms arbitrary: ret)
  case Nil
  then show ?case by simp
next
  case (Cons vm vms)
  show ?case
  proof (cases "passes_filter scope vm")
    case True
    then have inc: "hasIncludeTags vm (InstanceTagSelector scope) = Return True"
      and exc: "hasExcludeTags vm (InstanceTagExclusion scope) = Return False"
      by (simp_all add: passes_filter_def)
    from Cons.prems inc exc obtain info where
      info: "getVMInfoFromVirtualMachine FromVMInfo vm = Return (info, None)"
      and rest: "processVirtualMachineList_loop FromVMInfo vms scope (ret @ [info]) = Return (Inr res)"
      by (auto split: outcome.splits option.splits prod.splits)
    from Cons.IH [OF rest] obtain out where
      out: "res = (ret @ [info]) @ out"
        "map (\<lambda>info. Return (info, None)) out
           = map (getVMInfoFromVirtualMachine FromVMInfo) (filter (passes_filter scope) vms)"
      by blast
    have "res = ret @ (info # out)"
      using out(1) by simp
    moreover have "map (\<lambda>info. Return (info, None)) (info # out)
           = map (getVMInfoFromVirtualMachine FromVMInfo) (filter (passes_filter scope) (vm # vms))"
      using True info out(2) by simp
    ultimately show ?thesis by blast
  next
    case False
    have rest: "processVirtualMachineList_loop FromVMInfo vms scope ret = Return (Inr res)"
    proof (cases "hasIncludeTags vm (InstanceTagSelector scope)")
      case Panic
      with Cons.prems show ?thesis by simp
    next
      case (Return inc)
      show ?thesis
      proof (cases inc)
        case no: False
        with Return Cons.prems show ?thesis by simp
      next
        case yes: True
        with Return False obtain exc where
          exc: "hasExcludeTags vm (InstanceTagExclusion scope) = Return exc" "exc"
          using Cons.prems
          by (cases "hasExcludeTags vm (InstanceTagExclusion scope)")
             (auto simp: passes_filter_def)
        with Return yes Cons.prems show ?thesis by simp
      qed
    qed
    from Cons.IH [OF rest] False show ?thesis by simp
  qed
qed

text \<open>
  It does return a list when no tag of a VM has a nil value and every passing VM converts.
\<close>

lemma processVirtualMachineList_loop_total:
  assumes "\<forall>vm \<in> set vms. \<forall>(k, v) \<in> set (vm_Tags vm). v \<noteq> None"
    and "\<forall>vm \<in> set vms. passes_filter scope vm
           \<longrightarrow> (\<exists>info. getVMInfoFromVirtualMachine FromVMInfo vm = Return (info, None))"
  shows "\<exists>res. processVirtualMachineList_loop FromVMInfo vms scope ret = Return (Inr res)"
  using assms
proof (induction vms arbitrary: ret)
  case Nil
  then show ?case by simp
next
  case (Cons vm vms)
  have nonil: "\<forall>(k, v) \<in> set (vm_Tags vm). v \<noteq> None"
    using Cons.prems(1) by simp
  obtain inc where inc: "hasIncludeTags vm (InstanceTagSelector scope) = Return inc"
    using hasIncludeTags_returns [OF nonil] by blast
  obtain exc where exc: "hasExcludeTags vm (InstanceTagExclusion scope) = Return exc"
    using hasExcludeTags_returns [OF nonil] by blast
  have rest: "\<exists>res. processVirtualMachineList_loop FromVMInfo vms scope ret' = Return (Inr res)"
    for ret'
    using Cons.IH [of ret'] Cons.prems by simp
  show ?case
  proof (cases "inc \<and> \<not> exc")
    case True
    then have "passes_filter scope vm"
      using inc exc by (simp add: passes_filter_def)
    with Cons.prems(2) obtain info where
      "getVMInfoFromVirtualMachine FromVMInfo vm = Return (info, None)"
      by auto
    with True inc exc rest [of "ret @ [info]"] show ?thesis by simp
  next
    case False
    with inc exc rest [of ret] show ?thesis
      by (cases inc; cases exc) simp_all
  qed
qed

text \<open>
  C5. \<open>hasIncludeTags\<close> returns true exactly when the inclusion selector is nil or empty or
  the VM carries every tag of it; \<open>hasExcludeTags\<close> returns true exactly when the exclusion
  selector is non-nil, non-empty and the VM carries every tag of it; and whenever
  \<open>processVirtualMachineListIntoTargetTypes\<close> returns a list, it is the targets of exactly
  the VMs that are included and not excluded, in the order of the list. It does return a
  list when no tag has a nil value and every VM that is included and not excluded converts
  to a target; the VMs the filter drops are not converted.
\<close>

theorem tag_filtering:
  "(hasIncludeTags vm sel = Return True
      \<longleftrightarrow> (sel = None \<or> sel = Some []
           \<or> (\<exists>ts. sel = Some ts \<and> (\<forall>tag \<in> set ts. carries_tag vm tag))))
   \<and> (hasExcludeTags vm excl = Return True
      \<longleftrightarrow> (\<exists>ts. excl = Some ts \<and> ts \<noteq> [] \<and> (\<forall>tag \<in> set ts. carries_tag vm tag)))
   \<and> (\<forall>out. processVirtualMachineListIntoTargetTypes FromVMInfo vms scope = Return (Inr out)
      \<longrightarrow> map (\<lambda>info. Return (info, None)) out
            = map (getVMInfoFromVirtualMachine FromVMInfo) (filter (passes_filter scope) vms))
   \<and> ((\<forall>vm \<in> set vms. \<forall>(k, v) \<in> set (vm_Tags vm). v \<noteq> None)
       \<and> (\<forall>vm \<in> set vms. passes_filter scope vm
             \<longrightarrow> (\<exists>info. getVMInfoFromVirtualMachine FromVMInfo vm = Return (info, None)))
      \<longrightarrow> (\<exists>out. processVirtualMachineListIntoTargetTypes FromVMInfo vms scope = Return (Inr out)
             \<and> map (\<lambda>info. Return (info, None)) out
                 = map (getVMInfoFromVirtualMachine FromVMInfo) (filter (passes_filter scope) vms)))"
proof (intro conjI impI allI)
  show "hasIncludeTags vm sel = Return True
      \<longleftrightarrow> (sel = None \<or> sel = Some []
           \<or> (\<exists>ts. sel = Some ts \<and> (\<forall>tag \<in> set ts. carries_tag vm tag)))"
    by (rule hasIncludeTags_True)
  show "hasExcludeTags vm excl = Return True
      \<longleftrightarrow> (\<exists>ts. excl = Some ts \<and> ts \<noteq> [] \<and> (\<forall>tag \<in> set ts. carries_tag vm tag))"
    by (rule hasExcludeTags_True)
next
  fix out
  assume "processVirtualMachineListIntoTargetTypes FromVMInfo vms scope = Return (Inr out)"
  then have "processVirtualMachineList_loop FromVMInfo vms scope [] = Return (Inr out)"
    by (simp add: processVirtualMachineListIntoTargetTypes_def)
  from processVirtualMachineList_loop_returns [OF this]
  show "map (\<lambda>info. Return (info, None)) out
            = map (getVMInfoFromVirtualMachine FromVMInfo) (filter (passes_filter scope) vms)"
    by simp
next
  assume h: "(\<forall>vm \<in> set vms. \<forall>(k, v) \<in> set (vm_Tags vm). v \<noteq> None)
       \<and> (\<forall>vm \<in> set vms. passes_filter scope vm
             \<longrightarrow> (\<exists>info. getVMInfoFromVirtualMachine FromVMInfo vm = Return (info, None)))"
  then obtain out where
    out: "processVirtualMachineList_loop FromVMInfo vms scope [] = Return (Inr out)"
    using processVirtualMachineList_loop_total [of vms scope FromVMInfo "[]"] by blast
  from processVirtualMachineList_loop_returns [OF out] out
  show "\<exists>out. processVirtualMachineListIntoTargetTypes FromVMInfo vms scope = Return (Inr out)
             \<and> map (\<lambda>info. Return (info, None)) out
                 = map (getVMInfoFromVirtualMachine FromVMInfo) (filter (passes_filter scope) vms)"
    by (simp add: processVirtualMachineListIntoTargetTypes_def)
qed

lemma example_conversions:
  "\<exists>info. getVMInfoFromVirtualMachine (\<lambda>_. None) vm_prod = Return (info, None)"
  "getVMInfoFromVirtualMachine (\<lambda>_. None) vm_noid = Panic"
  by (simp_all add: getVMInfoFromVirtualMachine_def vm_prod_def vm_untagged_def vm_noid_def
        props0_def createImageURN_def)

lemma example_carries:
  "carries_tag vm_prod \<lparr>Key = ''env'', Value = ''prod''\<rparr>"
  "\<not> carries_tag vm_untagged \<lparr>Key = ''env'', Value = ''prod''\<rparr>"
  "\<not> carries_tag vm_noid \<lparr>Key = ''env'', Value = ''prod''\<rparr>"
  by (simp_all add: carries_tag_def vm_prod_def vm_untagged_def vm_noid_def)

lemma example_tags:
  "\<forall>vm \<in> set [vm_prod, vm_noid]. \<forall>(k, v) \<in> set (vm_Tags vm). v \<noteq> None"
  by (simp add: vm_prod_def vm_untagged_def vm_noid_def)

theorem tag_filtering_witness:
  "hasIncludeTags vm_prod env_prod = Return True
   \<and> hasExcludeTags vm_prod env_prod = Return True
   \<and> hasIncludeTags vm_untagged env_prod \<noteq> Return True
   \<and> hasExcludeTags vm_untagged env_prod \<noteq> Return True
   \<and> (\<exists>out. processVirtualMachineListIntoTargetTypes (\<lambda>_. None) [vm_prod, vm_noid]
               \<lparr>InstanceTagSelector = env_prod, InstanceTagExclusion = None\<rparr> = Return (Inr out)
            \<and> map (\<lambda>info. Return (info, None)) out
                = [getVMInfoFromVirtualMachine (\<lambda>_. None) vm_prod])"
proof -
  let ?scope = "\<lparr>InstanceTagSelector = env_prod, InstanceTagExclusion = None\<rparr>"
  note t1 = tag_filtering [where vm = vm_prod and sel = env_prod and excl = env_prod
      and vms = "[vm_prod, vm_noid]" and FromVMInfo = "\<lambda>_. None" and scope = ?scope]
  note t2 = tag_filtering [where vm = vm_untagged and sel = env_prod and excl = env_prod
      and vms = "[]" and FromVMInfo = "\<lambda>_. None" and scope = ?scope]
  note t3 = tag_filtering [where vm = vm_noid and sel = env_prod and excl = env_prod
      and vms = "[]" and FromVMInfo = "\<lambda>_. None" and scope = ?scope]
  have inc1: "hasIncludeTags vm_prod env_prod = Return True"
    using t1 example_carries(1) by (simp add: env_prod_def)
  have exc1: "hasExcludeTags vm_prod env_prod = Return True"
    using t1 example_carries(1) by (simp add: env_prod_def)
  have inc2: "hasIncludeTags vm_untagged env_prod \<noteq> Return True"
    using t2 example_carries(2) by (simp add: env_prod_def)
  have exc2: "hasExcludeTags vm_untagged env_prod \<noteq> Return True"
    using t2 example_carries(2) by (simp add: env_prod_def)
  have inc3: "hasIncludeTags vm_noid env_prod \<noteq> Return True"
    using t3 example_carries(3) by (simp add: env_prod_def)
  have p1: "passes_filter ?scope vm_prod"
    using inc1 by (simp add: passes_filter_def hasExcludeTags_def)
  have p3: "\<not> passes_filter ?scope vm_noid"
    using inc3 by (simp add: passes_filter_def)
  have "\<forall>vm \<in> set [vm_prod, vm_noid]. passes_filter ?scope vm
          \<longrightarrow> (\<exists>info. getVMInfoFromVirtualMachine (\<lambda>_. None) vm = Return (info, None))"
    using example_conversions(1) p3 by simp
  with t1 example_tags
  have "\<exists>out. processVirtualMachineListIntoTargetTypes (\<lambda>_. None) [vm_prod, vm_noid]
               ?scope = Return (Inr out)
            \<and> map (\<lambda>info. Return (info, None)) out
                = map (getVMInfoFromVirtualMachine (\<lambda>_. None))
                    (filter (passes_filter ?scope) [vm_prod, vm_noid])"
    by blast
  then have "\<exists>out. processVirtualMachineListIntoTargetTypes (\<lambda>_. None) [vm_prod, vm_noid]
               ?scope = Return (Inr out)
            \<and> map (\<lambda>info. Return (info, None)) out
                = [getVMInfoFromVirtualMachine (\<lambda>_. None) vm_prod]"
    using p1 p3 by simp
  with inc1 exc1 inc2 exc2 show ?thesis
    by blast
qed

section \<open>Instance ids and the pipelines: results\<close>

lemma strings_Split_nonempty: "strings_Split s sep \<noteq> []"
  by (induction s) (auto split: list.splits)

lemma length_strings_Split: "length (strings_Split s sep) = Suc (count_list s sep)"
  by (induction s) (auto split: list.splits simp: strings_Split_nonempty)

lemma resourceGroupAndNameFromInstanceID_ok:
  assumes "length (strings_Split instanceID CHR ''/'') = 9"
  shows "resourceGroupAndNameFromInstanceID instanceID
           = Inr (strings_Split instanceID CHR ''/'' ! 4, strings_Split instanceID CHR ''/'' ! 8)"
  using assms
  by (simp add: resourceGroupAndNameFromInstanceID_def instanceIDPartsLength_def
        resourceGroupPartIdx_def vmNamePartIdx_def Let_def)

lemma resourceGroupAndNameFromInstanceID_fatal:
  assumes "length (strings_Split instanceID CHR ''/'') \<noteq> 9"
  shows "\<exists>err. resourceGroupAndNameFromInstanceID instanceID = Inl (FatalError err)"
  using assms
  by (simp add: resourceGroupAndNameFromInstanceID_def instanceIDPartsLength_def Let_def)

lemma RunTargetScan_parse_failure:
  assumes "TargetInfo_AsVMInfo config = Inr vmInfo"
    and "resourceGroupAndNameFromInstanceID (info_InstanceID vmInfo) = Inl err"
  shows "RunTargetScan c config st = (Return (Some err), st, [])"
  using assms by (simp add: RunTargetScan_def)

text \<open>
  C7. An instance id whose split on \<open>/\<close> has exactly 9 parts (that is, 8 separators) parses
  to its parts 4 and 8; any other id is answered with a fatal error; and when the id of the
  target does not parse, \<open>RunTargetScan\<close> returns that error with no call made and the
  cloud's state untouched.
\<close>

theorem instance_id_parsing:
  "(length (strings_Split instanceID CHR ''/'') = 9
      \<longrightarrow> resourceGroupAndNameFromInstanceID instanceID
            = Inr (strings_Split instanceID CHR ''/'' ! 4, strings_Split instanceID CHR ''/'' ! 8))
   \<and> (length (strings_Split instanceID CHR ''/'') \<noteq> 9
      \<longrightarrow> (\<exists>err. resourceGroupAndNameFromInstanceID instanceID = Inl (FatalError err)))
   \<and> length (strings_Split instanceID CHR ''/'') = Suc (count_list instanceID CHR ''/'')
   \<and> (TargetInfo_AsVMInfo config = Inr vmInfo
        \<and> resourceGroupAndNameFromInstanceID (info_InstanceID vmInfo) = Inl err
      \<longrightarrow> RunTargetScan c config st = (Return (Some err), st, []))"
  using resourceGroupAndNameFromInstanceID_ok [of instanceID]
    resourceGroupAndNameFromInstanceID_fatal [of instanceID]
    length_strings_Split [of instanceID "CHR ''/''"]
    RunTargetScan_parse_failure [of config vmInfo err c st]
  by blast

lemma example_instance_id_parts:
  "strings_Split example_instance_id CHR ''/''
     = ['''', ''subscriptions'', ''ecad88af-09d5-4725-8d80-906e51fddf02'', ''resourceGroups'',
        ''vmclarity-sambetts-dev'', ''providers'', ''Microsoft.Compute'', ''virtualMachines'',
        ''vmclarity-server'']"
  by (simp add: example_instance_id_def)

theorem instance_id_parsing_witness:
  "resourceGroupAndNameFromInstanceID example_instance_id
     = Inr (''vmclarity-sambetts-dev'', ''vmclarity-server'')
   \<and> (\<exists>err. resourceGroupAndNameFromInstanceID ''not/an/instance/id'' = Inl (FatalError err)
          \<and> RunTargetScan client0 jobconfig0 [] = (Return (Some (FatalError err)), [], []))"
proof -
  let ?vmInfo = "projr (TargetInfo_AsVMInfo jobconfig0)"
  have l9: "length (strings_Split example_instance_id CHR ''/'') = 9"
    by (simp add: example_instance_id_parts)
  have "resourceGroupAndNameFromInstanceID example_instance_id
           = Inr (strings_Split example_instance_id CHR ''/'' ! 4,
                  strings_Split example_instance_id CHR ''/'' ! 8)"
    using l9 instance_id_parsing [where instanceID = example_instance_id and config = jobconfig0
        and vmInfo = ?vmInfo and err = "ErrorString []" and c = client0 and st = "[]"]
    by blast
  then have a: "resourceGroupAndNameFromInstanceID example_instance_id
     = Inr (''vmclarity-sambetts-dev'', ''vmclarity-server'')"
    by (simp add: example_instance_id_parts)
  have l4: "length (strings_Split ''not/an/instance/id'' CHR ''/'') \<noteq> 9"
    by simp
  obtain err where
    err: "resourceGroupAndNameFromInstanceID ''not/an/instance/id'' = Inl (FatalError err)"
    using l4 instance_id_parsing [where instanceID = "''not/an/instance/id''" and config = jobconfig0
        and vmInfo = ?vmInfo and err = "ErrorString []" and c = client0 and st = "[]"]
    by blast
  have v: "TargetInfo_AsVMInfo jobconfig0 = Inr ?vmInfo"
    "info_InstanceID ?vmInfo = ''not/an/instance/id''"
    by (simp_all add: jobconfig0_def)
  have "RunTargetScan client0 jobconfig0 [] = (Return (Some (FatalError err)), [], [])"
    using v err instance_id_parsing [where instanceID = "''not/an/instance/id''"
        and config = jobconfig0 and vmInfo = ?vmInfo and err = "FatalError err"
        and c = client0 and st = "[]"]
    by simp
  with a err show ?thesis
    by blast
qed

lemma RemoveTargetScan_cases:
  assumes "ensureScannerVirtualMachineDeleted c config st = (e1, s1)"
    and "ensureNetworkInterfaceDeleted c config s1 = (e2, s2)"
    and "ensureTargetDiskDeleted c config s2 = (e3, s3)"
    and "ensureBlobDeleted c config s3 = (e4, s4)"
    and "ensureSnapshotDeleted c config s4 = (e5, s5)"
  shows "RemoveTargetScan c config st =
     (case e1 of
        Some err \<Rightarrow> (Some (Wrapf ''failed to ensure scanner virtual machine deleted'' err), s1,
                      take 1 teardown_order)
      | None \<Rightarrow>
     (case e2 of
        Some err \<Rightarrow> (Some (Wrapf ''failed to ensure network interface deleted'' err), s2,
                      take 2 teardown_order)
      | None \<Rightarrow>
     (case e3 of
        Some err \<Rightarrow> (Some (Wrapf ''failed to ensure target disk deleted'' err), s3,
                      take 3 teardown_order)
      | None \<Rightarrow>
     (case e4 of
        Some err \<Rightarrow> (Some (Wrapf ''failed to ensure snapshot copy blob deleted'' err), s4,
                      take 4 teardown_order)
      | None \<Rightarrow>
     (case e5 of
        Some err \<Rightarrow> (Some (Wrapf ''failed to ensure snapshot deleted'' err), s5,
                      take 5 teardown_order)
      | None \<Rightarrow> (None, s5, teardown_order))))))"
  using assms
  by (simp add: RemoveTargetScan_def teardown_order_def split: option.splits)

text \<open>
  C8. Name the results of the five teardown steps, each run on the state the one before left.
  Then \<open>RemoveTargetScan\<close> calls them in the order of \<open>teardown_order\<close> and stops at the
  first that fails: the calls made are the first \<open>n\<close> of that order, \<open>n\<close> being the
  position of the first failing step (all five when none fails); the state is the one that
  last step left; the result is the failing step's error, wrapped with \<open>%w\<close> under the
  step's message, and nil exactly when all five steps return nil.
\<close>

theorem RemoveTargetScan_order:
  assumes "ensureScannerVirtualMachineDeleted c config st = (e1, s1)"
    and "ensureNetworkInterfaceDeleted c config s1 = (e2, s2)"
    and "ensureTargetDiskDeleted c config s2 = (e3, s3)"
    and "ensureBlobDeleted c config s3 = (e4, s4)"
    and "ensureSnapshotDeleted c config s4 = (e5, s5)"
  shows "(fst (RemoveTargetScan c config st) = None
            \<longleftrightarrow> e1 = None \<and> e2 = None \<and> e3 = None \<and> e4 = None \<and> e5 = None)
    \<and> (e1 = None \<and> e2 = None \<and> e3 = None \<and> e4 = None \<and> e5 = None
          \<longrightarrow> RemoveTargetScan c config st = (None, s5, teardown_order))
    \<and> (\<forall>err. e1 = Some err
          \<longrightarrow> RemoveTargetScan c config st
                = (Some (Wrapf ''failed to ensure scanner virtual machine deleted'' err), s1,
                   [Call_ensureScannerVirtualMachineDeleted]))
    \<and> (\<forall>err. e1 = None \<and> e2 = Some err
          \<longrightarrow> RemoveTargetScan c config st
                = (Some (Wrapf ''failed to ensure network interface deleted'' err), s2,
                   [Call_ensureScannerVirtualMachineDeleted, Call_ensureNetworkInterfaceDeleted]))
    \<and> (\<forall>err. e1 = None \<and> e2 = None \<and> e3 = Some err
          \<longrightarrow> RemoveTargetScan c config st
                = (Some (Wrapf ''failed to ensure target disk deleted'' err), s3,
                   [Call_ensureScannerVirtualMachineDeleted, Call_ensureNetworkInterfaceDeleted,
                    Call_ensureTargetDiskDeleted]))
    \<and> (\<forall>err. e1 = None \<and> e2 = None \<and> e3 = None \<and> e4 = Some err
          \<longrightarrow> RemoveTargetScan c config st
                = (Some (Wrapf ''failed to ensure snapshot copy blob deleted'' err), s4,
                   [Call_ensureScannerVirtualMachineDeleted, Call_ensureNetworkInterfaceDeleted,
                    Call_ensureTargetDiskDeleted, Call_ensureBlobDeleted]))
    \<and> (\<forall>err. e1 = None \<and> e2 = None \<and> e3 = None \<and> e4 = None \<and> e5 = Some err
          \<longrightarrow> RemoveTargetScan c config st
                = (Some (Wrapf ''failed to ensure snapshot deleted'' err), s5,
                   [Call_ensureScannerVirtualMachineDeleted, Call_ensureNetworkInterfaceDeleted,
                    Call_ensureTargetDiskDeleted, Call_ensureBlobDeleted,
                    Call_ensureSnapshotDeleted]))
    \<and> (\<exists>n. 1 \<le> n \<and> n \<le> 5
          \<and> snd (snd (RemoveTargetScan c config st)) = take n teardown_order)"
proof -
  note r = RemoveTargetScan_cases [OF assms]
  have "\<exists>n. 1 \<le> n \<and> n \<le> 5 \<and> snd (snd (RemoveTargetScan c config st)) = take n teardown_order"
  proof (cases "e1 = None \<and> e2 = None \<and> e3 = None \<and> e4 = None \<and> e5 = None")
    case True
    then have "snd (snd (RemoveTargetScan c config st)) = take 5 teardown_order"
      using r by (simp add: teardown_order_def)
    then show ?thesis by (intro exI [of _ 5]) simp
  next
    case False
    then consider "e1 \<noteq> None" | "e1 = None" "e2 \<noteq> None" | "e1 = None" "e2 = None" "e3 \<noteq> None"
      | "e1 = None" "e2 = None" "e3 = None" "e4 \<noteq> None"
      | "e1 = None" "e2 = None" "e3 = None" "e4 = None" "e5 \<noteq> None"
      by auto
    then show ?thesis
    proof cases
      case 1 then show ?thesis using r by (intro exI [of _ 1]) auto
    next
      case 2 then show ?thesis using r by (intro exI [of _ 2]) auto
    next
      case 3 then show ?thesis using r by (intro exI [of _ 3]) auto
    next
      case 4 then show ?thesis using r by (intro exI [of _ 4]) auto
    next
      case 5 then show ?thesis using r by (intro exI [of _ 5]) auto
    qed
  qed
  moreover have "fst (RemoveTargetScan c config st) = None
            \<longleftrightarrow> e1 = None \<and> e2 = None \<and> e3 = None \<and> e4 = None \<and> e5 = None"
    using r by (simp split: option.splits)
  moreover have "e1 = None \<and> e2 = None \<and> e3 = None \<and> e4 = None \<and> e5 = None
          \<longrightarrow> RemoveTargetScan c config st = (None, s5, teardown_order)"
    using r by simp
  ultimately show ?thesis
    using r by (simp add: teardown_order_def)
qed

theorem RemoveTargetScan_order_witness:
  "RemoveTargetScan client0 jobconfig0 []
     = (Some (Wrapf ''failed to ensure target disk deleted'' (ErrorString ''disk is busy'')),
        [''vm'', ''nic'', ''disk''],
        [Call_ensureScannerVirtualMachineDeleted, Call_ensureNetworkInterfaceDeleted,
         Call_ensureTargetDiskDeleted])
   \<and> RemoveTargetScan
        (client0\<lparr>ensureTargetDiskDeleted := (\<lambda>config st. (None, st @ [''disk'']))\<rparr>) jobconfig0 []
     = (None, [''vm'', ''nic'', ''disk'', ''blob'', ''snapshot''], teardown_order)"
proof -
  let ?c = "client0\<lparr>ensureTargetDiskDeleted := (\<lambda>config st. (None, st @ [''disk'']))\<rparr>"
  have a: "RemoveTargetScan client0 jobconfig0 []
     = (Some (Wrapf ''failed to ensure target disk deleted'' (ErrorString ''disk is busy'')),
        [''vm'', ''nic'', ''disk''],
        [Call_ensureScannerVirtualMachineDeleted, Call_ensureNetworkInterfaceDeleted,
         Call_ensureTargetDiskDeleted])"
    using RemoveTargetScan_order [where c = client0 and config = jobconfig0 and st = "[]"
        and ?e1.0 = None and ?s1.0 = "[''vm'']" and ?e2.0 = None and ?s2.0 = "[''vm'', ''nic'']"
        and ?e3.0 = "Some (ErrorString ''disk is busy'')" and ?s3.0 = "[''vm'', ''nic'', ''disk'']"
        and ?e4.0 = None and ?s4.0 = "[''vm'', ''nic'', ''disk'', ''blob'']"
        and ?e5.0 = None and ?s5.0 = "[''vm'', ''nic'', ''disk'', ''blob'', ''snapshot'']"]
    by (simp add: client0_def)
  have b: "RemoveTargetScan ?c jobconfig0 []
     = (None, [''vm'', ''nic'', ''disk'', ''blob'', ''snapshot''], teardown_order)"
    using RemoveTargetScan_order [where c = ?c and config = jobconfig0 and st = "[]"
        and ?e1.0 = None and ?s1.0 = "[''vm'']" and ?e2.0 = None and ?s2.0 = "[''vm'', ''nic'']"
        and ?e3.0 = None and ?s3.0 = "[''vm'', ''nic'', ''disk'']"
        and ?e4.0 = None and ?s4.0 = "[''vm'', ''nic'', ''disk'', ''blob'']"
        and ?e5.0 = None and ?s5.0 = "[''vm'', ''nic'', ''disk'', ''blob'', ''snapshot'']"]
    by (simp add: client0_def)
  from a b show ?thesis
    by blast
qed

lemma ensureScannerVirtualMachine_succeeded:
  assumes "vmClient_Get c (ScannerResourceGroup (azureConfig c)) (scannerVMNameFromJobConfig config) st
             = (Inr vm, st1)"
    and "vm_Properties vm = Some props"
    and "vmp_ProvisioningState props = Some ProvisioningStateSucceeded"
  shows "ensureScannerVirtualMachine c config networkInterface st
           = (Return (vm, None), st1,
              [Call_vmClient_Get (ScannerResourceGroup (azureConfig c))
                 (scannerVMNameFromJobConfig config)])"
  using assms by (simp add: ensureScannerVirtualMachine_def Let_def)

lemma ensureScannerVirtualMachine_provisioning:
  assumes "vmClient_Get c (ScannerResourceGroup (azureConfig c)) (scannerVMNameFromJobConfig config) st
             = (Inr vm, st1)"
    and "vm_Properties vm = Some props"
    and "vmp_ProvisioningState props = Some state"
    and "state \<noteq> ProvisioningStateSucceeded"
  shows "ensureScannerVirtualMachine c config networkInterface st
           = (Return (vm, Some (RetryableError VMCreateEstimateProvisionTime
                (ErrorString (''VM is not ready yet, provisioning state: '' @ state)))), st1,
              [Call_vmClient_Get (ScannerResourceGroup (azureConfig c))
                 (scannerVMNameFromJobConfig config)])"
  using assms by (simp add: ensureScannerVirtualMachine_def Let_def)

text \<open>
  C6. When the get call finds the scanner VM, \<open>ensureScannerVirtualMachine\<close> makes that one
  call and no create call: with provisioning state \<open>Succeeded\<close> it returns the VM and a nil
  error; with any other provisioning state it returns a retryable error carrying the
  estimated provisioning time. Called again on the state the first call left, where the VM
  is still found in state \<open>Succeeded\<close>, it succeeds again, again with the get call only.
\<close>

theorem ensureScannerVirtualMachine_idempotent:
  assumes "vmClient_Get c (ScannerResourceGroup (azureConfig c)) (scannerVMNameFromJobConfig config) st
             = (Inr vm, st1)"
    and "vm_Properties vm = Some props"
    and "vmp_ProvisioningState props = Some state"
  shows "(state = ProvisioningStateSucceeded
            \<longrightarrow> ensureScannerVirtualMachine c config networkInterface st
                  = (Return (vm, None), st1,
                     [Call_vmClient_Get (ScannerResourceGroup (azureConfig c))
                        (scannerVMNameFromJobConfig config)]))
    \<and> (state \<noteq> ProvisioningStateSucceeded
            \<longrightarrow> ensureScannerVirtualMachine c config networkInterface st
                  = (Return (vm, Some (RetryableError VMCreateEstimateProvisionTime
                       (ErrorString (''VM is not ready yet, provisioning state: '' @ state)))), st1,
                     [Call_vmClient_Get (ScannerResourceGroup (azureConfig c))
                        (scannerVMNameFromJobConfig config)]))
    \<and> (state = ProvisioningStateSucceeded
        \<and> vmClient_Get c (ScannerResourceGroup (azureConfig c)) (scannerVMNameFromJobConfig config) st1
             = (Inr vm2, st2)
        \<and> vm_Properties vm2 = Some props2
        \<and> vmp_ProvisioningState props2 = Some ProvisioningStateSucceeded
            \<longrightarrow> ensureScannerVirtualMachine c config networkInterface
                    (fst (snd (ensureScannerVirtualMachine c config networkInterface st)))
                  = (Return (vm2, None), st2,
                     [Call_vmClient_Get (ScannerResourceGroup (azureConfig c))
                        (scannerVMNameFromJobConfig config)]))"
proof (intro conjI impI)
  assume "state = ProvisioningStateSucceeded"
  with assms show "ensureScannerVirtualMachine c config networkInterface st
                  = (Return (vm, None), st1,
                     [Call_vmClient_Get (ScannerResourceGroup (azureConfig c))
                        (scannerVMNameFromJobConfig config)])"
    by (intro ensureScannerVirtualMachine_succeeded) simp_all
next
  assume "state \<noteq> ProvisioningStateSucceeded"
  with assms show "ensureScannerVirtualMachine c config networkInterface st
                  = (Return (vm, Some (RetryableError VMCreateEstimateProvisionTime
                       (ErrorString (''VM is not ready yet, provisioning state: '' @ state)))), st1,
                     [Call_vmClient_Get (ScannerResourceGroup (azureConfig c))
                        (scannerVMNameFromJobConfig config)])"
    by (intro ensureScannerVirtualMachine_provisioning) simp_all
next
  assume a: "state = ProvisioningStateSucceeded
        \<and> vmClient_Get c (ScannerResourceGroup (azureConfig c)) (scannerVMNameFromJobConfig config) st1
             = (Inr vm2, st2)
        \<and> vm_Properties vm2 = Some props2
        \<and> vmp_ProvisioningState props2 = Some ProvisioningStateSucceeded"
  with assms have "ensureScannerVirtualMachine c config networkInterface st
                  = (Return (vm, None), st1,
                     [Call_vmClient_Get (ScannerResourceGroup (azureConfig c))
                        (scannerVMNameFromJobConfig config)])"
    by (intro ensureScannerVirtualMachine_succeeded) simp_all
  then have "fst (snd (ensureScannerVirtualMachine c config networkInterface st)) = st1"
    by simp
  moreover from a have "ensureScannerVirtualMachine c config networkInterface st1
                  = (Return (vm2, None), st2,
                     [Call_vmClient_Get (ScannerResourceGroup (azureConfig c))
                        (scannerVMNameFromJobConfig config)])"
    by (intro ensureScannerVirtualMachine_succeeded [where props = props2]) blast+
  ultimately show "ensureScannerVirtualMachine c config networkInterface
                    (fst (snd (ensureScannerVirtualMachine c config networkInterface st)))
                  = (Return (vm2, None), st2,
                     [Call_vmClient_Get (ScannerResourceGroup (azureConfig c))
                        (scannerVMNameFromJobConfig config)])"
    by simp
qed

lemma client0_get:
  "vmClient_Get client0 (ScannerResourceGroup (azureConfig client0))
      (scannerVMNameFromJobConfig jobconfig0) st
     = (Inr (vm_prod\<lparr>vm_Name := Some ''vmclarity-scanner-r1''\<rparr>), st)"
  "vm_Properties (vm_prod\<lparr>vm_Name := Some ''vmclarity-scanner-r1''\<rparr>) = Some props0"
  "vmp_ProvisioningState props0 = Some ''Succeeded''"
  "ScannerResourceGroup (azureConfig client0) = ''scanners''"
  "scannerVMNameFromJobConfig jobconfig0 = ''vmclarity-scanner-r1''"
  by (simp_all add: client0_def scannerVMNameFromJobConfig_def jobconfig0_def vm_prod_def
        props0_def config0_def)

theorem ensureScannerVirtualMachine_idempotent_witness:
  "ensureScannerVirtualMachine client0 jobconfig0 \<lparr>nic_ID = None\<rparr> []
     = (Return (vm_prod\<lparr>vm_Name := Some ''vmclarity-scanner-r1''\<rparr>, None), [],
        [Call_vmClient_Get ''scanners'' ''vmclarity-scanner-r1''])
   \<and> ensureScannerVirtualMachine client0 jobconfig0 \<lparr>nic_ID = None\<rparr>
        (fst (snd (ensureScannerVirtualMachine client0 jobconfig0 \<lparr>nic_ID = None\<rparr> [])))
     = (Return (vm_prod\<lparr>vm_Name := Some ''vmclarity-scanner-r1''\<rparr>, None), [],
        [Call_vmClient_Get ''scanners'' ''vmclarity-scanner-r1''])
   \<and> ensureScannerVirtualMachine
        (client0\<lparr>vmClient_Get := (\<lambda>rg name st. (Inr vm_creating, st))\<rparr>) jobconfig0
        \<lparr>nic_ID = None\<rparr> []
     = (Return (vm_creating, Some (RetryableError 120
          (ErrorString ''VM is not ready yet, provisioning state: Creating''))), [],
        [Call_vmClient_Get ''scanners'' ''vmclarity-scanner-r1''])"
proof -
  let ?vm = "vm_prod\<lparr>vm_Name := Some ''vmclarity-scanner-r1''\<rparr>"
  let ?nic = "\<lparr>nic_ID = None\<rparr>"
  let ?c = "client0\<lparr>vmClient_Get := (\<lambda>rg name st. (Inr vm_creating, st))\<rparr>"
  have "ensureScannerVirtualMachine client0 jobconfig0 ?nic []
     = (Return (?vm, None), [], [Call_vmClient_Get ''scanners'' ''vmclarity-scanner-r1''])
   \<and> ensureScannerVirtualMachine client0 jobconfig0 ?nic
        (fst (snd (ensureScannerVirtualMachine client0 jobconfig0 ?nic [])))
     = (Return (?vm, None), [], [Call_vmClient_Get ''scanners'' ''vmclarity-scanner-r1''])"
    using ensureScannerVirtualMachine_idempotent [where c = client0 and config = jobconfig0
        and st = "[]" and ?st1.0 = "[]" and ?st2.0 = "[]" and vm = ?vm and ?vm2.0 = ?vm
        and props = props0 and ?props2.0 = props0 and state = "''Succeeded''"
        and networkInterface = ?nic, OF client0_get(1) client0_get(2) client0_get(3)]
      client0_get
    by (simp add: ProvisioningStateSucceeded_def)
  moreover have g: "vmClient_Get ?c (ScannerResourceGroup (azureConfig ?c))
      (scannerVMNameFromJobConfig jobconfig0) [] = (Inr vm_creating, [])"
    "vm_Properties vm_creating = Some (props0\<lparr>vmp_ProvisioningState := Some ''Creating''\<rparr>)"
    "vmp_ProvisioningState (props0\<lparr>vmp_ProvisioningState := Some ''Creating''\<rparr>) = Some ''Creating''"
    "ScannerResourceGroup (azureConfig ?c) = ''scanners''"
    by (simp_all add: vm_creating_def client0_def config0_def)
  have "ensureScannerVirtualMachine ?c jobconfig0 ?nic []
     = (Return (vm_creating, Some (RetryableError 120
          (ErrorString ''VM is not ready yet, provisioning state: Creating''))), [],
        [Call_vmClient_Get ''scanners'' ''vmclarity-scanner-r1''])"
    using ensureScannerVirtualMachine_idempotent [where c = ?c and config = jobconfig0
        and st = "[]" and ?st1.0 = "[]" and ?st2.0 = "[]" and vm = vm_creating
        and ?vm2.0 = vm_creating
        and props = "props0\<lparr>vmp_ProvisioningState := Some ''Creating''\<rparr>"
        and ?props2.0 = props0 and state = "''Creating''"
        and networkInterface = ?nic, OF g(1) g(2) g(3)]
      g(4) client0_get(5)
    by (simp add: ProvisioningStateSucceeded_def VMCreateEstimateProvisionTime_def)
  ultimately show ?thesis
    by blast
qed

section \<open>The manager: results\<close>

subsection \<open>The family list\<close>

lemma New_families:
  "map GetType (families (New conf)) = filter (family_enabled conf) family_order"
  by (simp add: New_def append_if_def family_New_def family_order_def Let_def)

subsection \<open>One iteration\<close>

text \<open>The three ways an iteration goes: skipped, aborted, completed.\<close>

lemma run_family_skipped:
  assumes "FamilyStarted notifier (GetType family) (notifier_state s) = (Some err, n1)"
  shows "run_family done_first late notifier fams i family s
           = s\<lparr>errors := errors s @ [Errorf_v ''family started notification failed'' err],
               notifier_state := n1,
               events := events s @ [Started i]\<rparr>"
  using assms by (simp add: run_family_def)

lemma run_family_aborted:
  assumes "FamilyStarted notifier (GetType family) (notifier_state s) = (None, n1)"
    and "done_first i"
    and "FamilyFinished notifier (aborted_result family) n1 = (ferr, n2)"
  shows "run_family done_first late notifier fams i family s
           = s\<lparr>oneOrMoreFamilyFailed := True,
               errors := errors s @ finished_errors ferr,
               notifier_state := n2,
               events := events s
                 @ [Started i, RunAbandoned i (abandoned_reads late fams i),
                    Finished i (aborted_result family)]\<rparr>"
  using assms
  by (cases ferr) (simp_all add: run_family_def aborted_result_def finished_errors_def Let_def)

lemma run_family_completed:
  assumes "FamilyStarted notifier (GetType family) (notifier_state s) = (None, n1)"
    and "\<not> done_first i"
    and "Run family (familyResults s) = (ret, err)"
    and "FamilyFinished notifier \<lparr>fr_Result = ret, fr_FamilyType = GetType family, fr_Err = err\<rparr> n1
           = (ferr, n2)"
  shows "run_family done_first late notifier fams i family s
           = s\<lparr>oneOrMoreFamilyFailed := (oneOrMoreFamilyFailed s \<or> err \<noteq> None),
               errors := errors s @ finished_errors ferr,
               familyResults := familyResults s @ (if err = None then [ret] else []),
               notifier_state := n2,
               events := events s @ [Started i, RunLaunched i]
                           @ (if err = None then [Stored i ret] else [])
                           @ [Finished i \<lparr>fr_Result = ret, fr_FamilyType = GetType family,
                                            fr_Err = err\<rparr>]\<rparr>"
  using assms
  by (cases ferr; cases err)
     (simp_all add: run_family_def finished_errors_def SetResults_def Let_def)

lemma run_family_cases [case_names skipped aborted completed]:
  obtains
    (skipped) err n1 where
      "FamilyStarted notifier (GetType family) (notifier_state s) = (Some err, n1)"
  | (aborted) n1 ferr n2 where
      "FamilyStarted notifier (GetType family) (notifier_state s) = (None, n1)"
      "done_first i"
      "FamilyFinished notifier (aborted_result family) n1 = (ferr, n2)"
  | (completed) n1 ret err ferr n2 where
      "FamilyStarted notifier (GetType family) (notifier_state s) = (None, n1)"
      "\<not> done_first i"
      "Run family (familyResults s) = (ret, err)"
      "FamilyFinished notifier \<lparr>fr_Result = ret, fr_FamilyType = GetType family, fr_Err = err\<rparr> n1
         = (ferr, n2)"
proof -
  obtain serr n1 where st: "FamilyStarted notifier (GetType family) (notifier_state s) = (serr, n1)"
    by (cases "FamilyStarted notifier (GetType family) (notifier_state s)")
  show thesis
  proof (cases serr)
    case (Some err)
    with st show thesis by (intro skipped) simp
  next
    case None
    show thesis
    proof (cases "done_first i")
      case True
      obtain ferr n2 where "FamilyFinished notifier (aborted_result family) n1 = (ferr, n2)"
        by (cases "FamilyFinished notifier (aborted_result family) n1")
      with st None True show thesis by (intro aborted) simp_all
    next
      case False
      obtain ret err where r: "Run family (familyResults s) = (ret, err)"
        by (cases "Run family (familyResults s)")
      obtain ferr n2 where
        "FamilyFinished notifier \<lparr>fr_Result = ret, fr_FamilyType = GetType family, fr_Err = err\<rparr> n1
           = (ferr, n2)"
        by (cases "FamilyFinished notifier
                     \<lparr>fr_Result = ret, fr_FamilyType = GetType family, fr_Err = err\<rparr> n1")
      with st None False r show thesis by (intro completed) simp_all
    qed
  qed
qed

subsection \<open>The loop, family by family\<close>

lemma run_loop_append:
  "run_loop done_first late notifier fams i (xs @ ys) s
     = run_loop done_first late notifier fams (i + length xs) ys (run_loop done_first late notifier fams i xs s)"
  by (induction xs arbitrary: i s) simp_all

lemma Run_upto_0: "Run_upto m done_first late notifier n0 0 = initial_state n0"
  by (simp add: Run_upto_def)

lemma Run_upto_Suc:
  assumes "k < length (families m)"
  shows "Run_upto m done_first late notifier n0 (Suc k)
           = run_family done_first late notifier (families m) k (families m ! k) (Run_upto m done_first late notifier n0 k)"
  using assms
  by (simp add: Run_upto_def take_Suc_conv_app_nth run_loop_append)

lemma Run_upto_length:
  "Run_upto m done_first late notifier n0 (length (families m))
     = run_loop done_first late notifier (families m) 0 (families m) (initial_state n0)"
  by (simp add: Run_upto_def)

lemma Manager_Run_upto:
  "Manager_Run m done_first late notifier n0
     = (let s = Run_upto m done_first late notifier n0 (length (families m)) in
        if oneOrMoreFamilyFailed s
        then s\<lparr>errors := errors s @ [at_least_one_family_failed]\<rparr>
        else s)"
  by (simp add: Manager_Run_def Run_upto_length)

text \<open>The step from \<open>k\<close> to \<open>Suc k\<close>, in the vocabulary of the run.\<close>

lemma step_skipped:
  assumes "k < length (families m)" and "\<not> started_ok m done_first late notifier n0 k"
  shows "\<exists>err n1.
           FamilyStarted notifier (GetType (families m ! k))
               (notifier_state (Run_upto m done_first late notifier n0 k)) = (Some err, n1)
         \<and> Run_upto m done_first late notifier n0 (Suc k)
             = (Run_upto m done_first late notifier n0 k)
                 \<lparr>errors := errors (Run_upto m done_first late notifier n0 k)
                              @ [Errorf_v ''family started notification failed'' err],
                  notifier_state := n1,
                  events := events (Run_upto m done_first late notifier n0 k) @ [Started k]\<rparr>"
proof -
  let ?s = "Run_upto m done_first late notifier n0 k"
  obtain serr n1 where st: "FamilyStarted notifier (GetType (families m ! k)) (notifier_state ?s) = (serr, n1)"
    by (cases "FamilyStarted notifier (GetType (families m ! k)) (notifier_state ?s)")
  with assms(2) obtain err where "serr = Some err"
    by (auto simp: started_ok_def)
  with st have st': "FamilyStarted notifier (GetType (families m ! k)) (notifier_state ?s) = (Some err, n1)"
    by simp
  from run_family_skipped [OF st', of done_first late "families m" k] Run_upto_Suc [OF assms(1), of done_first late notifier n0] st'
  show ?thesis by auto
qed

lemma step_aborted:
  assumes "k < length (families m)" and "started_ok m done_first late notifier n0 k" and "done_first k"
  shows "\<exists>ferr n2.
           Run_upto m done_first late notifier n0 (Suc k)
             = (Run_upto m done_first late notifier n0 k)
                 \<lparr>oneOrMoreFamilyFailed := True,
                  errors := errors (Run_upto m done_first late notifier n0 k) @ finished_errors ferr,
                  notifier_state := n2,
                  events := events (Run_upto m done_first late notifier n0 k)
                    @ [Started k, RunAbandoned k (abandoned_reads late (families m) k),
                       Finished k (aborted_result (families m ! k))]\<rparr>"
proof -
  let ?s = "Run_upto m done_first late notifier n0 k"
  let ?f = "families m ! k"
  obtain n1 where st: "FamilyStarted notifier (GetType ?f) (notifier_state ?s) = (None, n1)"
    using assms(2) by (cases "FamilyStarted notifier (GetType ?f) (notifier_state ?s)")
      (auto simp: started_ok_def)
  obtain ferr n2 where fin: "FamilyFinished notifier (aborted_result ?f) n1 = (ferr, n2)"
    by (cases "FamilyFinished notifier (aborted_result ?f) n1")
  from run_family_aborted [where done_first = done_first and late = late and fams = "families m" and i = k, OF st assms(3) fin] Run_upto_Suc [OF assms(1), of done_first late notifier n0]
  show ?thesis by auto
qed

lemma step_completed:
  assumes "k < length (families m)" and "started_ok m done_first late notifier n0 k"
    and "\<not> done_first k" and "run_result m done_first late notifier n0 k = (ret, err)"
  shows "\<exists>ferr n2.
           Run_upto m done_first late notifier n0 (Suc k)
             = (Run_upto m done_first late notifier n0 k)
                 \<lparr>oneOrMoreFamilyFailed :=
                    (oneOrMoreFamilyFailed (Run_upto m done_first late notifier n0 k) \<or> err \<noteq> None),
                  errors := errors (Run_upto m done_first late notifier n0 k) @ finished_errors ferr,
                  familyResults := familyResults (Run_upto m done_first late notifier n0 k)
                    @ (if err = None then [ret] else []),
                  notifier_state := n2,
                  events := events (Run_upto m done_first late notifier n0 k)
                    @ [Started k, RunLaunched k]
                    @ (if err = None then [Stored k ret] else [])
                    @ [Finished k \<lparr>fr_Result = ret, fr_FamilyType = GetType (families m ! k),
                                    fr_Err = err\<rparr>]\<rparr>"
proof -
  let ?s = "Run_upto m done_first late notifier n0 k"
  let ?f = "families m ! k"
  obtain n1 where st: "FamilyStarted notifier (GetType ?f) (notifier_state ?s) = (None, n1)"
    using assms(2) by (cases "FamilyStarted notifier (GetType ?f) (notifier_state ?s)")
      (auto simp: started_ok_def)
  have r: "Run ?f (familyResults ?s) = (ret, err)"
    using assms(4) by (simp add: run_result_def)
  obtain ferr n2 where
    fin: "FamilyFinished notifier \<lparr>fr_Result = ret, fr_FamilyType = GetType ?f, fr_Err = err\<rparr> n1
            = (ferr, n2)"
    by (cases "FamilyFinished notifier \<lparr>fr_Result = ret, fr_FamilyType = GetType ?f, fr_Err = err\<rparr> n1")
  from run_family_completed [where done_first = done_first and late = late and fams = "families m" and i = k, OF st assms(3) r fin]
    Run_upto_Suc [OF assms(1), of done_first late notifier n0]
  show ?thesis by auto
qed

lemma finished_errors_not_generic: "at_least_one_family_failed \<notin> set (finished_errors ferr)"
  by (cases ferr) (simp_all add: finished_errors_def at_least_one_family_failed_def)

text \<open>What the step from \<open>k\<close> to \<open>Suc k\<close> adds to the state.\<close>

lemma step_summary:
  assumes "k < length (families m)"
  shows "\<exists>E es.
           events (Run_upto m done_first late notifier n0 (Suc k))
             = events (Run_upto m done_first late notifier n0 k) @ E
         \<and> errors (Run_upto m done_first late notifier n0 (Suc k))
             = errors (Run_upto m done_first late notifier n0 k) @ es
         \<and> familyResults (Run_upto m done_first late notifier n0 (Suc k))
             = familyResults (Run_upto m done_first late notifier n0 k)
                 @ (if completed_ok m done_first late notifier n0 k
                    then [fst (run_result m done_first late notifier n0 k)] else [])
         \<and> (oneOrMoreFamilyFailed (Run_upto m done_first late notifier n0 (Suc k))
              \<longleftrightarrow> oneOrMoreFamilyFailed (Run_upto m done_first late notifier n0 k)
                   \<or> family_failed m done_first late notifier n0 k)
         \<and> (\<forall>e \<in> set E. event_position e = k)
         \<and> started_positions E = [k]
         \<and> at_least_one_family_failed \<notin> set es
         \<and> (family_failed m done_first late notifier n0 k \<or> \<not> started_ok m done_first late notifier n0 k
              \<longrightarrow> es \<noteq> [] \<or> oneOrMoreFamilyFailed (Run_upto m done_first late notifier n0 (Suc k)))"
proof (cases "started_ok m done_first late notifier n0 k")
  case False
  from step_skipped [OF assms False] obtain err n1 where
    "Run_upto m done_first late notifier n0 (Suc k)
             = (Run_upto m done_first late notifier n0 k)
                 \<lparr>errors := errors (Run_upto m done_first late notifier n0 k)
                              @ [Errorf_v ''family started notification failed'' err],
                  notifier_state := n1,
                  events := events (Run_upto m done_first late notifier n0 k) @ [Started k]\<rparr>"
    by blast
  then show ?thesis
    using False
    by (intro exI [of _ "[Started k]"]
              exI [of _ "[Errorf_v ''family started notification failed'' err]"])
       (simp add: completed_ok_def family_failed_def at_least_one_family_failed_def)
next
  case True
  show ?thesis
  proof (cases "done_first k")
    case d: True
    from step_aborted [OF assms True d] obtain ferr n2 where
      "Run_upto m done_first late notifier n0 (Suc k)
             = (Run_upto m done_first late notifier n0 k)
                 \<lparr>oneOrMoreFamilyFailed := True,
                  errors := errors (Run_upto m done_first late notifier n0 k) @ finished_errors ferr,
                  notifier_state := n2,
                  events := events (Run_upto m done_first late notifier n0 k)
                    @ [Started k, RunAbandoned k (abandoned_reads late (families m) k),
                       Finished k (aborted_result (families m ! k))]\<rparr>"
      by blast
    then show ?thesis
      using True d
      by (intro exI [of _ "[Started k, RunAbandoned k (abandoned_reads late (families m) k),
                       Finished k (aborted_result (families m ! k))]"]
                exI [of _ "finished_errors ferr"])
         (simp add: completed_ok_def family_failed_def finished_errors_not_generic)
  next
    case d: False
    obtain ret err where r: "run_result m done_first late notifier n0 k = (ret, err)"
      by (cases "run_result m done_first late notifier n0 k")
    from step_completed [OF assms True d r] obtain ferr n2 where
      "Run_upto m done_first late notifier n0 (Suc k)
             = (Run_upto m done_first late notifier n0 k)
                 \<lparr>oneOrMoreFamilyFailed :=
                    (oneOrMoreFamilyFailed (Run_upto m done_first late notifier n0 k) \<or> err \<noteq> None),
                  errors := errors (Run_upto m done_first late notifier n0 k) @ finished_errors ferr,
                  familyResults := familyResults (Run_upto m done_first late notifier n0 k)
                    @ (if err = None then [ret] else []),
                  notifier_state := n2,
                  events := events (Run_upto m done_first late notifier n0 k)
                    @ [Started k, RunLaunched k]
                    @ (if err = None then [Stored k ret] else [])
                    @ [Finished k \<lparr>fr_Result = ret, fr_FamilyType = GetType (families m ! k),
                                    fr_Err = err\<rparr>]\<rparr>"
      by blast
    then show ?thesis
      using True d r
      by (intro exI [of _ "[Started k, RunLaunched k]
                    @ (if err = None then [Stored k ret] else [])
                    @ [Finished k \<lparr>fr_Result = ret, fr_FamilyType = GetType (families m ! k),
                                    fr_Err = err\<rparr>]"]
                exI [of _ "finished_errors ferr"])
         (simp add: completed_ok_def family_failed_def finished_errors_not_generic)
  qed
qed

lemma started_positions_append:
  "started_positions (xs @ ys) = started_positions xs @ started_positions ys"
  by (induction xs rule: started_positions.induct) simp_all

lemma started_positions_mem:
  "i \<in> set (started_positions evs) \<Longrightarrow> Started i \<in> set evs"
  by (induction evs rule: started_positions.induct) auto

text \<open>Invariants of the loop, after \<open>k\<close> families.\<close>

lemma Run_upto_invariants:
  assumes "k \<le> length (families m)"
  shows "(\<forall>e \<in> set (events (Run_upto m done_first late notifier n0 k)). event_position e < k)
       \<and> started_positions (events (Run_upto m done_first late notifier n0 k)) = [0..<k]
       \<and> (oneOrMoreFamilyFailed (Run_upto m done_first late notifier n0 k)
            \<longleftrightarrow> (\<exists>j<k. family_failed m done_first late notifier n0 j))
       \<and> at_least_one_family_failed \<notin> set (errors (Run_upto m done_first late notifier n0 k))"
  using assms
proof (induction k)
  case 0
  show ?case by (simp add: Run_upto_0 initial_state_def)
next
  case (Suc k)
  then have k: "k < length (families m)" by simp
  from step_summary [OF k, of done_first late notifier n0] obtain E es where
    s: "events (Run_upto m done_first late notifier n0 (Suc k))
             = events (Run_upto m done_first late notifier n0 k) @ E"
      "errors (Run_upto m done_first late notifier n0 (Suc k))
             = errors (Run_upto m done_first late notifier n0 k) @ es"
      "oneOrMoreFamilyFailed (Run_upto m done_first late notifier n0 (Suc k))
              \<longleftrightarrow> oneOrMoreFamilyFailed (Run_upto m done_first late notifier n0 k)
                   \<or> family_failed m done_first late notifier n0 k"
      "\<forall>e \<in> set E. event_position e = k"
      "started_positions E = [k]"
      "at_least_one_family_failed \<notin> set es"
    by blast
  from Suc.IH k have ih:
    "\<forall>e \<in> set (events (Run_upto m done_first late notifier n0 k)). event_position e < k"
    "started_positions (events (Run_upto m done_first late notifier n0 k)) = [0..<k]"
    "oneOrMoreFamilyFailed (Run_upto m done_first late notifier n0 k)
            \<longleftrightarrow> (\<exists>j<k. family_failed m done_first late notifier n0 j)"
    "at_least_one_family_failed \<notin> set (errors (Run_upto m done_first late notifier n0 k))"
    by simp_all
  have "\<forall>e \<in> set (events (Run_upto m done_first late notifier n0 (Suc k))). event_position e < Suc k"
    using s(1,4) ih(1) by (auto simp: less_Suc_eq)
  moreover have "started_positions (events (Run_upto m done_first late notifier n0 (Suc k))) = [0..<Suc k]"
    using s(1,5) ih(2) by (simp add: started_positions_append)
  moreover have "oneOrMoreFamilyFailed (Run_upto m done_first late notifier n0 (Suc k))
            \<longleftrightarrow> (\<exists>j<Suc k. family_failed m done_first late notifier n0 j)"
    using s(3) ih(3) by (auto simp: less_Suc_eq)
  moreover have "at_least_one_family_failed \<notin> set (errors (Run_upto m done_first late notifier n0 (Suc k)))"
    using s(2,6) ih(4) by simp
  ultimately show ?case by blast
qed

text \<open>Nothing is taken back: events, errors and stored results only grow.\<close>

lemma Run_upto_mono:
  assumes "j \<le> k" and "k \<le> length (families m)"
  shows "\<exists>E es rs.
           events (Run_upto m done_first late notifier n0 k)
             = events (Run_upto m done_first late notifier n0 j) @ E
         \<and> (\<forall>e \<in> set E. j \<le> event_position e)
         \<and> errors (Run_upto m done_first late notifier n0 k)
             = errors (Run_upto m done_first late notifier n0 j) @ es
         \<and> familyResults (Run_upto m done_first late notifier n0 k)
             = familyResults (Run_upto m done_first late notifier n0 j) @ rs"
  using assms
proof (induction k rule: dec_induct)
  case base
  show ?case by simp
next
  case (step i)
  then have i: "i < length (families m)" by simp
  from step.IH i obtain E es rs where
    ih: "events (Run_upto m done_first late notifier n0 i)
             = events (Run_upto m done_first late notifier n0 j) @ E"
        "\<forall>e \<in> set E. j \<le> event_position e"
        "errors (Run_upto m done_first late notifier n0 i)
             = errors (Run_upto m done_first late notifier n0 j) @ es"
        "familyResults (Run_upto m done_first late notifier n0 i)
             = familyResults (Run_upto m done_first late notifier n0 j) @ rs"
    by auto
  from step_summary [OF i, of done_first late notifier n0] obtain E' es' where
    s: "events (Run_upto m done_first late notifier n0 (Suc i))
             = events (Run_upto m done_first late notifier n0 i) @ E'"
      "errors (Run_upto m done_first late notifier n0 (Suc i))
             = errors (Run_upto m done_first late notifier n0 i) @ es'"
      "familyResults (Run_upto m done_first late notifier n0 (Suc i))
             = familyResults (Run_upto m done_first late notifier n0 i)
                 @ (if completed_ok m done_first late notifier n0 i
                    then [fst (run_result m done_first late notifier n0 i)] else [])"
      "\<forall>e \<in> set E'. event_position e = i"
    by blast
  have "events (Run_upto m done_first late notifier n0 (Suc i))
             = events (Run_upto m done_first late notifier n0 j) @ (E @ E')"
    using s(1) ih(1) by simp
  moreover have "\<forall>e \<in> set (E @ E'). j \<le> event_position e"
    using s(4) ih(2) step.hyps(1) by auto
  moreover have "errors (Run_upto m done_first late notifier n0 (Suc i))
             = errors (Run_upto m done_first late notifier n0 j) @ (es @ es')"
    using s(2) ih(3) by simp
  moreover have "familyResults (Run_upto m done_first late notifier n0 (Suc i))
             = familyResults (Run_upto m done_first late notifier n0 j)
                 @ (rs @ (if completed_ok m done_first late notifier n0 i
                    then [fst (run_result m done_first late notifier n0 i)] else []))"
    using s(3) ih(4) by simp
  ultimately show ?case by blast
qed

text \<open>The state \<open>Manager.Run\<close> returns, against the state after the last family.\<close>

lemma Manager_Run_fields:
  "events (Manager_Run m done_first late notifier n0)
     = events (Run_upto m done_first late notifier n0 (length (families m)))"
  "familyResults (Manager_Run m done_first late notifier n0)
     = familyResults (Run_upto m done_first late notifier n0 (length (families m)))"
  "errors (Manager_Run m done_first late notifier n0)
     = errors (Run_upto m done_first late notifier n0 (length (families m)))
         @ (if oneOrMoreFamilyFailed (Run_upto m done_first late notifier n0 (length (families m)))
            then [at_least_one_family_failed] else [])"
  by (simp_all add: Manager_Run_upto Let_def)

lemma step_events_completed:
  assumes "k < length (families m)" and "completed_ok m done_first late notifier n0 k"
  shows "events (Run_upto m done_first late notifier n0 (Suc k))
           = events (Run_upto m done_first late notifier n0 k)
               @ [Started k, RunLaunched k, Stored k (fst (run_result m done_first late notifier n0 k)),
                  Finished k \<lparr>fr_Result = fst (run_result m done_first late notifier n0 k),
                               fr_FamilyType = GetType (families m ! k), fr_Err = None\<rparr>]"
proof -
  obtain ret err where r: "run_result m done_first late notifier n0 k = (ret, err)"
    by (cases "run_result m done_first late notifier n0 k")
  with assms(2) have c: "started_ok m done_first late notifier n0 k" "\<not> done_first k" "err = None"
    by (simp_all add: completed_ok_def)
  from step_completed [OF assms(1) c(1) c(2) r] c(3) r show ?thesis
    by auto
qed

lemma familyResults_upto:
  assumes "k \<le> length (families m)"
  shows "familyResults (Run_upto m done_first late notifier n0 k)
           = concat (map (contribution m done_first late notifier n0) [0..<k])"
  using assms
proof (induction k)
  case 0
  show ?case by (simp add: Run_upto_0 initial_state_def results_New_def)
next
  case (Suc k)
  then have k: "k < length (families m)" by simp
  from step_summary [OF k, of done_first late notifier n0]
  have "familyResults (Run_upto m done_first late notifier n0 (Suc k))
             = familyResults (Run_upto m done_first late notifier n0 k)
                 @ contribution m done_first late notifier n0 k"
    unfolding contribution_def by blast
  with Suc.IH k show ?case by simp
qed

subsection \<open>The calls a notifier receives\<close>

lemma recording_calls:
  "FamilyStarted (recording notifier) t (n, calls)
     = (fst (FamilyStarted notifier t n),
        (snd (FamilyStarted notifier t n), calls @ [Notified_Started t]))"
  "FamilyFinished (recording notifier) r (n, calls)
     = (fst (FamilyFinished notifier r n),
        (snd (FamilyFinished notifier r n), calls @ [Notified_Finished r]))"
  by (simp_all add: recording_def)

text \<open>Recording changes nothing else.\<close>

lemma run_family_forget:
  "forget (run_family done_first late (recording notifier) fams i family s)
     = run_family done_first late notifier fams i family (forget s)"
proof (cases "notifier_state s")
  case (Pair n calls)
  then show ?thesis
    by (auto simp: run_family_def forget_def recording_calls Let_def
             split: prod.splits option.splits)
qed

lemma run_loop_forget:
  "forget (run_loop done_first late (recording notifier) fams i fs s)
     = run_loop done_first late notifier fams i fs (forget s)"
  by (induction fs arbitrary: i s) (simp_all add: run_family_forget)

lemma forget_fields:
  "oneOrMoreFamilyFailed (forget s) = oneOrMoreFamilyFailed s"
  "errors (forget s) = errors s"
  "familyResults (forget s) = familyResults s"
  "events (forget s) = events s"
  "notifier_state (forget s) = fst (notifier_state s)"
  by (simp_all add: forget_def)

lemma forget_errors_update:
  "forget (s\<lparr>errors := es\<rparr>) = (forget s)\<lparr>errors := es\<rparr>"
  by (simp add: forget_def)

lemma Manager_Run_forget:
  "forget (Manager_Run m done_first late (recording notifier) (n0, []))
     = Manager_Run m done_first late notifier n0"
proof -
  have i: "forget (initial_state (n0, [])) = initial_state n0"
    by (simp add: forget_def initial_state_def)
  let ?X = "run_loop done_first late (recording notifier) (families m) 0 (families m)
              (initial_state (n0, []))"
  let ?Y = "run_loop done_first late notifier (families m) 0 (families m) (initial_state n0)"
  have h: "forget ?X = ?Y"
    using run_loop_forget [of done_first late notifier "families m" 0 "families m"
        "initial_state (n0, [])"]
    by (simp add: i)
  have "oneOrMoreFamilyFailed ?X = oneOrMoreFamilyFailed ?Y" "errors ?X = errors ?Y"
    using forget_fields(1) [of ?X] forget_fields(2) [of ?X] h by simp_all
  then show ?thesis
    unfolding Manager_Run_def Let_def using h by (simp add: forget_errors_update)
qed

text \<open>What one iteration adds to the calls.\<close>

lemma run_family_calls:
  assumes "notifier_state s = (n, calls)"
  shows "snd (notifier_state (run_family done_first late (recording notifier) fams i family s))
           = calls @ Notified_Started (GetType family)
               # (if fst (FamilyStarted notifier (GetType family) n) \<noteq> None then []
                  else [Notified_Finished
                          (if done_first i then aborted_result family
                           else \<lparr>fr_Result = fst (Run family (familyResults s)),
                                 fr_FamilyType = GetType family,
                                 fr_Err = snd (Run family (familyResults s))\<rparr>)])"
  using assms
  by (auto simp: run_family_def recording_calls aborted_result_def Let_def
           split: prod.splits option.splits)

lemma started_types_append:
  "started_types (xs @ ys) = started_types xs @ started_types ys"
  by (induction xs rule: started_types.induct) simp_all

lemma run_loop_started_types:
  "started_types (snd (notifier_state
       (run_loop done_first late (recording notifier) fams i fs s)))
     = started_types (snd (notifier_state s)) @ map GetType fs"
proof (induction fs arbitrary: i s)
  case Nil
  show ?case by simp
next
  case (Cons f fs)
  obtain n calls where st: "notifier_state s = (n, calls)"
    by (cases "notifier_state s")
  have "started_types (snd (notifier_state
            (run_family done_first late (recording notifier) fams i f s)))
          = started_types calls @ [GetType f]"
    unfolding run_family_calls [OF st] by (simp add: started_types_append)
  with Cons.IH [of "Suc i" "run_family done_first late (recording notifier) fams i f s"] st
  show ?case by simp
qed

text \<open>Nothing cancelled, no start notification failing: the run is the run in order.\<close>

lemma run_family_in_order:
  assumes "notifier_state s = (n, calls)"
    and "fst (FamilyStarted notifier (GetType family) n) = None" and "\<not> done_first i"
  shows "snd (notifier_state (run_family done_first late (recording notifier) fams i family s))
           = calls @ [Notified_Started (GetType family),
                      Notified_Finished \<lparr>fr_Result = fst (Run family (familyResults s)),
                                         fr_FamilyType = GetType family,
                                         fr_Err = snd (Run family (familyResults s))\<rparr>]"
    and "familyResults (run_family done_first late (recording notifier) fams i family s)
           = (if snd (Run family (familyResults s)) = None
              then familyResults s @ [fst (Run family (familyResults s))]
              else familyResults s)"
  using assms
  by (auto simp: run_family_def recording_calls SetResults_def Let_def
           split: prod.splits option.splits)

lemma run_loop_in_order:
  assumes "\<forall>t n. fst (FamilyStarted notifier t n) = None" and "\<forall>i. \<not> done_first i"
  shows "snd (notifier_state (run_loop done_first late (recording notifier) fams i fs s))
           = snd (notifier_state s) @ fst (run_in_order fs (familyResults s))
       \<and> familyResults (run_loop done_first late (recording notifier) fams i fs s)
           = snd (run_in_order fs (familyResults s))"
proof (induction fs arbitrary: i s)
  case Nil
  show ?case by simp
next
  case (Cons f fs)
  obtain n calls where st: "notifier_state s = (n, calls)"
    by (cases "notifier_state s")
  let ?s' = "run_family done_first late (recording notifier) fams i f s"
  have ok: "fst (FamilyStarted notifier (GetType f) n) = None" "\<not> done_first i"
    using assms by simp_all
  note step = run_family_in_order [where s = s and n = n and calls = calls
      and notifier = notifier and family = f and done_first = done_first and i = i
      and late = late and fams = fams, OF st ok]
  obtain ret err where r: "Run f (familyResults s) = (ret, err)"
    by (cases "Run f (familyResults s)")
  obtain cs out where io:
    "run_in_order fs (if err = None then familyResults s @ [ret] else familyResults s) = (cs, out)"
    by (cases "run_in_order fs (if err = None then familyResults s @ [ret] else familyResults s)")
  have fr: "familyResults ?s' = (if err = None then familyResults s @ [ret] else familyResults s)"
    using step(2) r by simp
  from Cons.IH [of "Suc i" ?s'] step(1) st r io fr
  show ?case by simp
qed

lemma Manager_Run_notifier_state:
  "notifier_state (Manager_Run m done_first late notifier n0)
     = notifier_state (run_loop done_first late notifier (families m) 0 (families m)
         (initial_state n0))"
  "familyResults (Manager_Run m done_first late notifier n0)
     = familyResults (run_loop done_first late notifier (families m) 0 (families m)
         (initial_state n0))"
  by (simp_all add: Manager_Run_def Let_def)

text \<open>
  C2. \<open>families.New\<close> builds the enabled subsequence of the fixed order, whatever the flags.
  \<open>Manager.Run\<close>, on any list of families, with any notifier and whatever is cancelled,
  calls \<open>FamilyStarted\<close> with the types of the families of the list, in the order of the
  list, each once: the sequence of types the notifier is given is the list's, so for the
  list \<open>New\<close> builds it is the enabled subsequence of the fixed order. Keeping the calls
  changes nothing of the run. And when nothing is cancelled and no start notification
  fails, the calls the notifier receives, with their arguments, and the Results Store at
  the end are those of running the families one after the other in the order of the list,
  each on the results stored before it.
\<close>

theorem New_and_Run_order:
  "map GetType (families (New conf)) = filter (family_enabled conf) family_order
   \<and> started_types (snd (notifier_state
         (Manager_Run m done_first late (recording notifier) (n0, []))))
       = map GetType (families m)
   \<and> started_types (snd (notifier_state
         (Manager_Run (New conf) done_first late (recording notifier) (n0, []))))
       = filter (family_enabled conf) family_order
   \<and> forget (Manager_Run m done_first late (recording notifier) (n0, []))
       = Manager_Run m done_first late notifier n0
   \<and> started_positions (events (Manager_Run m done_first late notifier n0))
       = [0..<length (families m)]
   \<and> ((\<forall>t n. fst (FamilyStarted notifier t n) = None) \<and> (\<forall>i. \<not> done_first i)
        \<longrightarrow> snd (notifier_state (Manager_Run m done_first late (recording notifier) (n0, [])))
              = fst (run_in_order (families m) [])
          \<and> familyResults (Manager_Run m done_first late notifier n0)
              = snd (run_in_order (families m) []))"
proof -
  have a: "map GetType (families (New conf)) = filter (family_enabled conf) family_order"
    by (rule New_families)
  have b: "started_types (snd (notifier_state
         (Manager_Run m' done_first late (recording notifier) (n0, []))))
       = map GetType (families m')" for m' :: "'a Manager"
    unfolding Manager_Run_notifier_state(1) run_loop_started_types
    by (simp add: initial_state_def)
  have d: "forget (Manager_Run m done_first late (recording notifier) (n0, []))
       = Manager_Run m done_first late notifier n0"
    by (rule Manager_Run_forget)
  have "started_positions (events (Run_upto m done_first late notifier n0 (length (families m))))
       = [0..<length (families m)]"
    using Run_upto_invariants [of "length (families m)" m done_first late notifier n0]
    by blast
  then have e: "started_positions (events (Manager_Run m done_first late notifier n0))
       = [0..<length (families m)]"
    by (simp only: Manager_Run_fields)
  have f: "snd (notifier_state (Manager_Run m done_first late (recording notifier) (n0, [])))
              = fst (run_in_order (families m) [])
          \<and> familyResults (Manager_Run m done_first late notifier n0)
              = snd (run_in_order (families m) [])"
    if h: "(\<forall>t n. fst (FamilyStarted notifier t n) = None) \<and> (\<forall>i. \<not> done_first i)"
  proof -
    from h have h1: "\<forall>t n. fst (FamilyStarted notifier t n) = None" and h2: "\<forall>i. \<not> done_first i"
      by blast+
    let ?s0 = "initial_state (n0, []) :: ('b \<times> 'a notification list, 'a) run_state"
    have i: "snd (notifier_state ?s0) = []" "familyResults ?s0 = []"
      by (simp_all add: initial_state_def results_New_def)
    from run_loop_in_order [OF h1 h2, of late "families m" 0 "families m" ?s0]
    have 1: "snd (notifier_state (Manager_Run m done_first late (recording notifier) (n0, [])))
              = fst (run_in_order (families m) [])"
      and 2: "familyResults (Manager_Run m done_first late (recording notifier) (n0, []))
              = snd (run_in_order (families m) [])"
      unfolding Manager_Run_notifier_state i by simp_all
    have "familyResults (forget (Manager_Run m done_first late (recording notifier) (n0, [])))
            = snd (run_in_order (families m) [])"
      using 2 by (simp only: forget_fields)
    with 1 show ?thesis
      by (simp only: d simp_thms)
  qed
  have c: "started_types (snd (notifier_state
         (Manager_Run (New conf) done_first late (recording notifier) (n0, []))))
       = filter (family_enabled conf) family_order"
    using b [of "New conf"] a by (simp only:)
  from a b [of m] c d e f show ?thesis
    by blast
qed

subsection \<open>A family whose start notification fails\<close>

text \<open>The error recorded for it is in the list when the loop is over.\<close>

lemma skipped_error_recorded:
  assumes "k < length (families m)"
    and "FamilyStarted notifier (GetType (families m ! k))
            (notifier_state (Run_upto m done_first late notifier n0 k)) = (Some err, n1)"
  shows "Errorf_v ''family started notification failed'' err
           \<in> set (errors (Run_upto m done_first late notifier n0 (length (families m))))"
    and "events (Run_upto m done_first late notifier n0 (Suc k))
           = events (Run_upto m done_first late notifier n0 k) @ [Started k]"
    and "familyResults (Run_upto m done_first late notifier n0 (Suc k))
           = familyResults (Run_upto m done_first late notifier n0 k)"
    and "\<not> started_ok m done_first late notifier n0 k"
proof -
  let ?n = "length (families m)"
  let ?s = "Run_upto m done_first late notifier n0"
  show nok: "\<not> started_ok m done_first late notifier n0 k"
    using assms(2) by (simp add: started_ok_def)
  from step_skipped [OF assms(1) nok] assms(2)
  have step: "?s (Suc k)
             = (?s k)\<lparr>errors := errors (?s k) @ [Errorf_v ''family started notification failed'' err],
                      notifier_state := n1,
                      events := events (?s k) @ [Started k]\<rparr>"
    by auto
  from Run_upto_mono [of "Suc k" ?n m done_first late notifier n0] assms(1)
  obtain es where later: "errors (?s ?n) = errors (?s (Suc k)) @ es"
    by auto
  show "Errorf_v ''family started notification failed'' err \<in> set (errors (?s ?n))"
    using later step by simp
  show "events (?s (Suc k)) = events (?s k) @ [Started k]"
    using step by simp
  show "familyResults (?s (Suc k)) = familyResults (?s k)"
    using step by simp
qed

text \<open>
  The iteration of such a family launches no goroutine, records the error, leaves the
  Results Store as it was, and the loop goes on: \<open>FamilyStarted\<close> is called for every
  position, the next one included. What this does not say is that no goroutine calls that
  family's \<open>Run\<close>: the goroutine of an earlier, aborted iteration may, see below.
\<close>

lemma FamilyStarted_failure_iteration:
  assumes "k < length (families m)"
    and "FamilyStarted notifier (GetType (families m ! k))
            (notifier_state (Run_upto m done_first late notifier n0 k)) = (Some err, n1)"
  shows "events (Run_upto m done_first late notifier n0 (Suc k))
           = events (Run_upto m done_first late notifier n0 k) @ [Started k]
       \<and> Errorf_v ''family started notification failed'' err
           \<in> set (errors (Manager_Run m done_first late notifier n0))
       \<and> familyResults (Run_upto m done_first late notifier n0 (Suc k))
           = familyResults (Run_upto m done_first late notifier n0 k)
       \<and> started_positions (events (Manager_Run m done_first late notifier n0))
           = [0..<length (families m)]
       \<and> (Suc k < length (families m)
            \<longrightarrow> Started (Suc k) \<in> set (events (Manager_Run m done_first late notifier n0)))"
proof -
  let ?n = "length (families m)"
  let ?s = "Run_upto m done_first late notifier n0"
  note sk = skipped_error_recorded [OF assms]
  have b: "Errorf_v ''family started notification failed'' err
           \<in> set (errors (Manager_Run m done_first late notifier n0))"
    using sk(1) by (simp add: Manager_Run_fields(3))
  have "started_positions (events (?s ?n)) = [0..<?n]"
    using Run_upto_invariants [of ?n m done_first late notifier n0] by blast
  then have d: "started_positions (events (Manager_Run m done_first late notifier n0)) = [0..<?n]"
    by (simp only: Manager_Run_fields)
  have e: "Suc k < ?n \<longrightarrow> Started (Suc k) \<in> set (events (Manager_Run m done_first late notifier n0))"
  proof
    assume "Suc k < ?n"
    then have "Suc k \<in> set (started_positions (events (Manager_Run m done_first late notifier n0)))"
      using d by simp
    then show "Started (Suc k) \<in> set (events (Manager_Run m done_first late notifier n0))"
      by (rule started_positions_mem)
  qed
  from sk(2) b sk(3) d e show ?thesis by blast
qed

text \<open>
  C1, as the code has it. The returned list is the errors of the loop followed by the
  generic error exactly when some family failed in the sense that its \<open>Run\<close> returned an
  error or it was aborted by the cancellation of the context: the generic error is then the
  last element and occurs once, and otherwise it does not occur. A family skipped because
  \<open>FamilyStarted\<close> failed does not count as failed; its own "family started notification
  failed" error is among the errors of the loop, so in the returned list.
\<close>

theorem generic_error_iff_family_failed:
  "(at_least_one_family_failed \<in> set (errors (Manager_Run m done_first late notifier n0))
      \<longleftrightarrow> (\<exists>k < length (families m). family_failed m done_first late notifier n0 k))
   \<and> errors (Manager_Run m done_first late notifier n0)
       = errors (Run_upto m done_first late notifier n0 (length (families m)))
           @ (if (\<exists>k < length (families m). family_failed m done_first late notifier n0 k)
              then [at_least_one_family_failed] else [])
   \<and> at_least_one_family_failed
       \<notin> set (errors (Run_upto m done_first late notifier n0 (length (families m))))
   \<and> count_list (errors (Manager_Run m done_first late notifier n0)) at_least_one_family_failed
       = (if (\<exists>k < length (families m). family_failed m done_first late notifier n0 k)
          then 1 else 0)
   \<and> (\<forall>k < length (families m). \<forall>err n1.
         FamilyStarted notifier (GetType (families m ! k))
             (notifier_state (Run_upto m done_first late notifier n0 k)) = (Some err, n1)
         \<longrightarrow> \<not> family_failed m done_first late notifier n0 k
             \<and> Errorf_v ''family started notification failed'' err
                 \<in> set (errors (Run_upto m done_first late notifier n0 (length (families m))))
             \<and> Errorf_v ''family started notification failed'' err
                 \<in> set (errors (Manager_Run m done_first late notifier n0)))"
proof -
  let ?s = "Run_upto m done_first late notifier n0 (length (families m))"
  let ?failed = "\<exists>k < length (families m). family_failed m done_first late notifier n0 k"
  from Run_upto_invariants [of "length (families m)" m done_first late notifier n0]
  have flag: "oneOrMoreFamilyFailed ?s \<longleftrightarrow> ?failed"
    and clean: "at_least_one_family_failed \<notin> set (errors ?s)"
    by blast+
  have shape: "errors (Manager_Run m done_first late notifier n0)
       = errors ?s @ (if ?failed then [at_least_one_family_failed] else [])"
    unfolding Manager_Run_fields(3) flag ..
  have mem: "at_least_one_family_failed \<in> set (errors (Manager_Run m done_first late notifier n0))
          \<longleftrightarrow> ?failed"
    unfolding shape using clean by simp
  have "count_list (errors ?s) at_least_one_family_failed = 0"
    using clean by (simp add: count_list_0_iff)
  then have cnt: "count_list (errors (Manager_Run m done_first late notifier n0))
        at_least_one_family_failed = (if ?failed then 1 else 0)"
    unfolding shape by simp
  have sk: "\<forall>k < length (families m). \<forall>err n1.
         FamilyStarted notifier (GetType (families m ! k))
             (notifier_state (Run_upto m done_first late notifier n0 k)) = (Some err, n1)
         \<longrightarrow> \<not> family_failed m done_first late notifier n0 k
             \<and> Errorf_v ''family started notification failed'' err \<in> set (errors ?s)
             \<and> Errorf_v ''family started notification failed'' err
                 \<in> set (errors (Manager_Run m done_first late notifier n0))"
  proof (intro allI impI)
    fix k err n1
    assume k: "k < length (families m)"
      and st: "FamilyStarted notifier (GetType (families m ! k))
             (notifier_state (Run_upto m done_first late notifier n0 k)) = (Some err, n1)"
    note r = skipped_error_recorded [OF k st]
    have 1: "\<not> family_failed m done_first late notifier n0 k"
      using r(4) by (simp add: family_failed_def)
    have 2: "Errorf_v ''family started notification failed'' err
                 \<in> set (errors (Manager_Run m done_first late notifier n0))"
      unfolding shape using r(1) by simp
    from 1 r(1) 2
    show "\<not> family_failed m done_first late notifier n0 k
             \<and> Errorf_v ''family started notification failed'' err \<in> set (errors ?s)
             \<and> Errorf_v ''family started notification failed'' err
                 \<in> set (errors (Manager_Run m done_first late notifier n0))"
      by (simp only: simp_thms)
  qed
  from mem shape clean cnt sk show ?thesis
    by (intro conjI)
qed

text \<open>
  C3. After any number \<open>k\<close> of families, the Results Store holds exactly the results of the
  families before \<open>k\<close> whose \<open>Run\<close> completed with a nil error, in order, and what it holds
  is still there, unchanged, when \<open>Run\<close> returns. A family that completes with a nil error
  has its result stored right before its \<open>FamilyFinished\<close> call; any other family (skipped,
  aborted, or returning an error) leaves the store as it was; and when the family at
  position \<open>k\<close> is aborted by the cancellation of the context, the returned error list is
  not empty.
\<close>

theorem results_store_invariant:
  assumes "k \<le> length (families m)"
  shows "familyResults (Run_upto m done_first late notifier n0 k)
           = concat (map (contribution m done_first late notifier n0) [0..<k])
       \<and> (\<exists>rs. familyResults (Manager_Run m done_first late notifier n0)
                  = familyResults (Run_upto m done_first late notifier n0 k) @ rs)
       \<and> (k < length (families m) \<and> completed_ok m done_first late notifier n0 k
            \<longrightarrow> familyResults (Run_upto m done_first late notifier n0 (Suc k))
                  = familyResults (Run_upto m done_first late notifier n0 k)
                      @ [fst (run_result m done_first late notifier n0 k)]
              \<and> events (Run_upto m done_first late notifier n0 (Suc k))
                  = events (Run_upto m done_first late notifier n0 k)
                      @ [Started k, RunLaunched k,
                         Stored k (fst (run_result m done_first late notifier n0 k)),
                         Finished k \<lparr>fr_Result = fst (run_result m done_first late notifier n0 k),
                                      fr_FamilyType = GetType (families m ! k), fr_Err = None\<rparr>])
       \<and> (k < length (families m) \<and> \<not> completed_ok m done_first late notifier n0 k
            \<longrightarrow> familyResults (Run_upto m done_first late notifier n0 (Suc k))
                  = familyResults (Run_upto m done_first late notifier n0 k))
       \<and> (k < length (families m) \<and> started_ok m done_first late notifier n0 k \<and> done_first k
            \<longrightarrow> familyResults (Run_upto m done_first late notifier n0 (Suc k))
                  = familyResults (Run_upto m done_first late notifier n0 k)
              \<and> errors (Manager_Run m done_first late notifier n0) \<noteq> [])"
proof -
  let ?n = "length (families m)"
  let ?s = "Run_upto m done_first late notifier n0"
  have a: "familyResults (?s k) = concat (map (contribution m done_first late notifier n0) [0..<k])"
    using assms by (rule familyResults_upto)
  have b: "\<exists>rs. familyResults (Manager_Run m done_first late notifier n0) = familyResults (?s k) @ rs"
    using Run_upto_mono [of k ?n m done_first late notifier n0] assms
    unfolding Manager_Run_fields(2) by blast
  have step: "familyResults (?s (Suc k)) = familyResults (?s k) @ contribution m done_first late notifier n0 k"
    if "k < ?n"
    using step_summary [OF that, of done_first late notifier n0] unfolding contribution_def by blast
  have c: "k < ?n \<and> completed_ok m done_first late notifier n0 k
            \<longrightarrow> familyResults (?s (Suc k))
                  = familyResults (?s k) @ [fst (run_result m done_first late notifier n0 k)]
              \<and> events (?s (Suc k))
                  = events (?s k)
                      @ [Started k, RunLaunched k,
                         Stored k (fst (run_result m done_first late notifier n0 k)),
                         Finished k \<lparr>fr_Result = fst (run_result m done_first late notifier n0 k),
                                      fr_FamilyType = GetType (families m ! k), fr_Err = None\<rparr>]"
    using step step_events_completed [of k m done_first late notifier n0]
    by (simp add: contribution_def)
  have d: "k < ?n \<and> \<not> completed_ok m done_first late notifier n0 k
            \<longrightarrow> familyResults (?s (Suc k)) = familyResults (?s k)"
    using step by (simp add: contribution_def)
  have e: "k < ?n \<and> started_ok m done_first late notifier n0 k \<and> done_first k
            \<longrightarrow> familyResults (?s (Suc k)) = familyResults (?s k)
              \<and> errors (Manager_Run m done_first late notifier n0) \<noteq> []"
  proof
    assume h: "k < ?n \<and> started_ok m done_first late notifier n0 k \<and> done_first k"
    then have "\<not> completed_ok m done_first late notifier n0 k"
      by (simp add: completed_ok_def)
    with h d have 1: "familyResults (?s (Suc k)) = familyResults (?s k)"
      by simp
    from h have "family_failed m done_first late notifier n0 k"
      by (simp add: family_failed_def)
    with h have "\<exists>j < ?n. family_failed m done_first late notifier n0 j"
      by blast
    then have "oneOrMoreFamilyFailed (?s ?n)"
      using Run_upto_invariants [of ?n m done_first late notifier n0] by blast
    then have "errors (Manager_Run m done_first late notifier n0) \<noteq> []"
      by (simp add: Manager_Run_fields(3))
    with 1 show "familyResults (?s (Suc k)) = familyResults (?s k)
              \<and> errors (Manager_Run m done_first late notifier n0) \<noteq> []"
      by simp
  qed
  from a b c d e show ?thesis by blast
qed

subsection \<open>The run on concrete families\<close>

lemma conf_ex_families:
  "families (New conf_ex)
     = [family_New SBOM (cfg_SBOM conf_ex), family_New Vulnerabilities (cfg_Vulnerabilities conf_ex),
        family_New Exploits (cfg_Exploits conf_ex)]"
  by (simp add: New_def append_if_def conf_ex_def Let_def)

lemma conf_sbom_families:
  "families (New conf_sbom) = [family_New SBOM (cfg_SBOM conf_sbom)]"
  by (simp add: New_def append_if_def conf_sbom_def conf_ex_def Let_def)

lemma skipped_run:
  "Manager_Run (New conf_sbom) never_done no_delay notifier_down ()
     = \<lparr>oneOrMoreFamilyFailed = False,
        errors = [Errorf_v ''family started notification failed'' (ErrorString ''down'')],
        familyResults = [], notifier_state = (), events = [Started 0]\<rparr>"
  by (simp add: Manager_Run_def conf_sbom_families run_family_def family_New_def notifier_down_def
        initial_state_def results_New_def)

lemma conf_ex_length: "length (families (New conf_ex)) = 3"
  by (simp add: conf_ex_families)

lemma conf_ex_types:
  "GetType (families (New conf_ex) ! 0) = SBOM"
  "GetType (families (New conf_ex) ! Suc 0) = Vulnerabilities"
  "GetType (families (New conf_ex) ! 2) = Exploits"
  by (simp_all add: conf_ex_families family_New_def)

lemma conf_ex_runs:
  "Run (families (New conf_ex) ! 0) rs = (Some (), None)"
  "Run (families (New conf_ex) ! Suc 0) rs = (None, Some (ErrorString ''scan failed''))"
  "Run (families (New conf_ex) ! 2) rs = (Some (), None)"
  unfolding conf_ex_families by (simp_all add: family_New_def conf_ex_def)

lemma conf_ex_run_in_order:
  "run_in_order (families (New conf_ex)) []
     = ([Notified_Started SBOM,
         Notified_Finished \<lparr>fr_Result = Some (), fr_FamilyType = SBOM, fr_Err = None\<rparr>,
         Notified_Started Vulnerabilities,
         Notified_Finished \<lparr>fr_Result = None, fr_FamilyType = Vulnerabilities,
                            fr_Err = Some (ErrorString ''scan failed'')\<rparr>,
         Notified_Started Exploits,
         Notified_Finished \<lparr>fr_Result = Some (), fr_FamilyType = Exploits, fr_Err = None\<rparr>],
        [Some (), Some ()])"
  unfolding conf_ex_families by (simp add: family_New_def conf_ex_def)

theorem New_and_Run_order_witness:
  "map GetType (families (New conf_ex)) = [SBOM, Vulnerabilities, Exploits]
   \<and> started_types (snd (notifier_state
         (Manager_Run (New conf_ex) done_at_1 no_delay (recording notifier_picky) ((), []))))
       = [SBOM, Vulnerabilities, Exploits]
   \<and> snd (notifier_state
         (Manager_Run (New conf_ex) never_done no_delay (recording notifier_ok) ((), [])))
       = [Notified_Started SBOM,
          Notified_Finished \<lparr>fr_Result = Some (), fr_FamilyType = SBOM, fr_Err = None\<rparr>,
          Notified_Started Vulnerabilities,
          Notified_Finished \<lparr>fr_Result = None, fr_FamilyType = Vulnerabilities,
                             fr_Err = Some (ErrorString ''scan failed'')\<rparr>,
          Notified_Started Exploits,
          Notified_Finished \<lparr>fr_Result = Some (), fr_FamilyType = Exploits, fr_Err = None\<rparr>]
   \<and> familyResults (Manager_Run (New conf_ex) never_done no_delay notifier_ok ())
       = [Some (), Some ()]"
proof -
  have f: "filter (family_enabled conf_ex) family_order = [SBOM, Vulnerabilities, Exploits]"
    by (simp add: family_order_def conf_ex_def)
  have h: "(\<forall>t n. fst (FamilyStarted notifier_ok t n) = None) \<and> (\<forall>i. \<not> never_done i)"
    by (simp add: notifier_ok_def never_done_def)
  from New_and_Run_order [where conf = conf_ex and m = "New conf_ex" and done_first = done_at_1
      and late = no_delay and notifier = notifier_picky and ?n0.0 = "()"] f
  have a: "map GetType (families (New conf_ex)) = [SBOM, Vulnerabilities, Exploits]"
    "started_types (snd (notifier_state
         (Manager_Run (New conf_ex) done_at_1 no_delay (recording notifier_picky) ((), []))))
       = [SBOM, Vulnerabilities, Exploits]"
    by (simp_all only:)
  from New_and_Run_order [where conf = conf_ex and m = "New conf_ex" and done_first = never_done
      and late = no_delay and notifier = notifier_ok and ?n0.0 = "()"] h
  have b: "snd (notifier_state
         (Manager_Run (New conf_ex) never_done no_delay (recording notifier_ok) ((), [])))
       = fst (run_in_order (families (New conf_ex)) [])"
    "familyResults (Manager_Run (New conf_ex) never_done no_delay notifier_ok ())
       = snd (run_in_order (families (New conf_ex)) [])"
    by blast+
  from a b show ?thesis
    unfolding conf_ex_run_in_order by simp
qed

text \<open>
  C4. With Go 1.20, which the repository builds with, the loop variable \<open>family\<close> is one
  variable for all iterations and the goroutine's closure reads it when it runs. The run
  evaluated here: SBOM, Vulnerabilities and Exploits are enabled; the context is cancelled
  while SBOM executes and stays cancelled, so the loop goes on without waiting for SBOM's
  goroutine; \<open>FamilyStarted\<close> returns an error for Vulnerabilities, so its iteration
  launches nothing and records the error; SBOM's goroutine comes to its call of
  \<open>family.Run\<close> when the loop has advanced by one family. That goroutine calls \<open>Run\<close> of
  the family at position 1, Vulnerabilities: \<open>Run\<close> of a family whose \<open>FamilyStarted\<close>
  returned an error is invoked.
\<close>

theorem FamilyStarted_failure_Run_invoked:
  "FamilyStarted notifier_picky (GetType (families (New conf_ex) ! 1))
       (notifier_state (Run_upto (New conf_ex) always_done one_late notifier_picky () 1))
     = (Some (ErrorString ''down''), ())
   \<and> GetType (families (New conf_ex) ! 1) = Vulnerabilities
   \<and> events (Manager_Run (New conf_ex) always_done one_late notifier_picky ())
       = [Started 0, RunAbandoned 0 1, Finished 0 (aborted_result (families (New conf_ex) ! 0)),
          Started 1,
          Started 2, RunAbandoned 2 2, Finished 2 (aborted_result (families (New conf_ex) ! 2))]
   \<and> run_invoked_positions
         (events (Manager_Run (New conf_ex) always_done one_late notifier_picky ()))
       = [1, 2]
   \<and> errors (Manager_Run (New conf_ex) always_done one_late notifier_picky ())
       = [Errorf_v ''family started notification failed'' (ErrorString ''down''),
          at_least_one_family_failed]"
proof -
  have st: "FamilyStarted notifier_picky (GetType (families (New conf_ex) ! 1))
       (notifier_state (Run_upto (New conf_ex) always_done one_late notifier_picky () 1))
     = (Some (ErrorString ''down''), ())"
    by (simp add: conf_ex_types notifier_picky_def)
  have ty: "GetType (families (New conf_ex) ! 1) = Vulnerabilities"
    by (simp add: conf_ex_types)
  have run: "Manager_Run (New conf_ex) always_done one_late notifier_picky ()
     = \<lparr>oneOrMoreFamilyFailed = True,
        errors = [Errorf_v ''family started notification failed'' (ErrorString ''down''),
                  at_least_one_family_failed],
        familyResults = [], notifier_state = (),
        events = [Started 0, RunAbandoned 0 1,
                  Finished 0 (aborted_result (family_New SBOM (cfg_SBOM conf_ex))),
                  Started 1,
                  Started 2, RunAbandoned 2 2,
                  Finished 2 (aborted_result (family_New Exploits (cfg_Exploits conf_ex)))]\<rparr>"
    unfolding Manager_Run_def conf_ex_families
    by (simp add: run_family_def family_New_def notifier_picky_def always_done_def one_late_def
          abandoned_reads_def initial_state_def results_New_def aborted_result_def
          numeral_2_eq_2)
  have f: "families (New conf_ex) ! 0 = family_New SBOM (cfg_SBOM conf_ex)"
    "families (New conf_ex) ! 2 = family_New Exploits (cfg_Exploits conf_ex)"
    by (simp_all add: conf_ex_families)
  from st ty show ?thesis
    unfolding run f by (simp add: numeral_2_eq_2)
qed

theorem generic_error_iff_family_failed_witness:
  "at_least_one_family_failed
     \<in> set (errors (Manager_Run (New conf_ex) never_done no_delay notifier_ok ()))
   \<and> count_list (errors (Manager_Run (New conf_ex) never_done no_delay notifier_ok ()))
       at_least_one_family_failed = 1
   \<and> at_least_one_family_failed
     \<in> set (errors (Manager_Run (New conf_ex) done_at_1 no_delay notifier_ok ()))
   \<and> at_least_one_family_failed
     \<notin> set (errors (Manager_Run (New conf_ex) never_done no_delay notifier_picky ()))
   \<and> Errorf_v ''family started notification failed'' (ErrorString ''down'')
     \<in> set (errors (Manager_Run (New conf_ex) never_done no_delay notifier_picky ()))"
proof -
  let ?m = "New conf_ex"
  have k: "1 < length (families ?m)"
    by (simp add: conf_ex_length)
  have "started_ok ?m never_done no_delay notifier_ok () 1"
    by (simp add: started_ok_def notifier_ok_def)
  moreover have "snd (run_result ?m never_done no_delay notifier_ok () 1) \<noteq> None"
    by (simp add: run_result_def conf_ex_runs)
  ultimately have "family_failed ?m never_done no_delay notifier_ok () 1"
    by (simp only: family_failed_def simp_thms)
  with k have a: "\<exists>k < length (families ?m). family_failed ?m never_done no_delay notifier_ok () k"
    by blast
  have "family_failed ?m done_at_1 no_delay notifier_ok () 1"
    by (simp add: family_failed_def started_ok_def notifier_ok_def done_at_1_def)
  with k have b: "\<exists>k < length (families ?m). family_failed ?m done_at_1 no_delay notifier_ok () k"
    by blast
  have n0: "\<not> family_failed ?m never_done no_delay notifier_picky () 0"
    by (simp add: family_failed_def run_result_def conf_ex_runs never_done_def)
  have n1: "\<not> family_failed ?m never_done no_delay notifier_picky () (Suc 0)"
    by (simp add: family_failed_def started_ok_def conf_ex_types notifier_picky_def)
  have n2: "\<not> family_failed ?m never_done no_delay notifier_picky () 2"
    by (simp add: family_failed_def run_result_def conf_ex_runs never_done_def)
  have three: "k < 3 \<Longrightarrow> k = 0 \<or> k = Suc 0 \<or> k = 2" for k :: nat
    by arith
  have c: "\<not> (\<exists>k < length (families ?m). family_failed ?m never_done no_delay notifier_picky () k)"
    unfolding conf_ex_length using n0 n1 n2 three by blast
  have st: "FamilyStarted notifier_picky (GetType (families ?m ! 1))
              (notifier_state (Run_upto ?m never_done no_delay notifier_picky () 1))
              = (Some (ErrorString ''down''), ())"
    by (simp add: conf_ex_types notifier_picky_def)
  note ok = generic_error_iff_family_failed [of ?m never_done no_delay notifier_ok "()"]
  note cancelled = generic_error_iff_family_failed [of ?m done_at_1 no_delay notifier_ok "()"]
  note picky = generic_error_iff_family_failed [of ?m never_done no_delay notifier_picky "()"]
  have 1: "at_least_one_family_failed
     \<in> set (errors (Manager_Run ?m never_done no_delay notifier_ok ()))"
    using ok a by blast
  from ok have "count_list (errors (Manager_Run ?m never_done no_delay notifier_ok ()))
       at_least_one_family_failed
       = (if (\<exists>k < length (families ?m). family_failed ?m never_done no_delay notifier_ok () k)
          then 1 else 0)"
    by blast
  then have 2: "count_list (errors (Manager_Run ?m never_done no_delay notifier_ok ()))
       at_least_one_family_failed = 1"
    by (simp only: a if_True)
  have 3: "at_least_one_family_failed
     \<in> set (errors (Manager_Run ?m done_at_1 no_delay notifier_ok ()))"
    using cancelled b by blast
  have 4: "at_least_one_family_failed
     \<notin> set (errors (Manager_Run ?m never_done no_delay notifier_picky ()))"
    using picky c by blast
  have 5: "Errorf_v ''family started notification failed'' (ErrorString ''down'')
     \<in> set (errors (Manager_Run ?m never_done no_delay notifier_picky ()))"
    using picky k st by blast
  from 1 2 3 4 5 show ?thesis
    by (simp only: simp_thms)
qed

text \<open>
  C1 with skipped families counted as failed does not hold: with SBOM alone enabled and a
  notifier whose \<open>FamilyStarted\<close> fails, the family is skipped, no goroutine is launched,
  and the returned list holds the notification error only.
\<close>

theorem skipped_family_no_generic_error:
  "\<not> started_ok (New conf_sbom) never_done no_delay notifier_down () 0
   \<and> events (Manager_Run (New conf_sbom) never_done no_delay notifier_down ()) = [Started 0]
   \<and> errors (Manager_Run (New conf_sbom) never_done no_delay notifier_down ())
       = [Errorf_v ''family started notification failed'' (ErrorString ''down'')]
   \<and> at_least_one_family_failed
       \<notin> set (errors (Manager_Run (New conf_sbom) never_done no_delay notifier_down ()))"
proof -
  have "\<not> started_ok (New conf_sbom) never_done no_delay notifier_down () 0"
    by (simp add: started_ok_def notifier_down_def)
  then show ?thesis
    unfolding skipped_run by (simp add: at_least_one_family_failed_def)
qed

theorem results_store_invariant_witness:
  "familyResults (Run_upto (New conf_ex) done_at_1 no_delay notifier_ok () 1) = [Some ()]
   \<and> events (Run_upto (New conf_ex) done_at_1 no_delay notifier_ok () 1)
       = [Started 0, RunLaunched 0, Stored 0 (Some ()),
          Finished 0 \<lparr>fr_Result = Some (), fr_FamilyType = SBOM, fr_Err = None\<rparr>]
   \<and> familyResults (Run_upto (New conf_ex) done_at_1 no_delay notifier_ok () 2) = [Some ()]
   \<and> (\<exists>rs. familyResults (Manager_Run (New conf_ex) done_at_1 no_delay notifier_ok ()) = [Some ()] @ rs)
   \<and> errors (Manager_Run (New conf_ex) done_at_1 no_delay notifier_ok ()) \<noteq> []"
proof -
  let ?m = "New conf_ex"
  have len: "0 \<le> length (families ?m)" "1 \<le> length (families ?m)"
    "0 < length (families ?m)" "1 < length (families ?m)"
    by (simp_all add: conf_ex_length)
  have c0: "completed_ok ?m done_at_1 no_delay notifier_ok () 0"
    by (simp add: completed_ok_def started_ok_def run_result_def conf_ex_runs notifier_ok_def
          done_at_1_def)
  have r0: "run_result ?m done_at_1 no_delay notifier_ok () 0 = (Some (), None)"
    by (simp add: run_result_def conf_ex_runs)
  have a1: "started_ok ?m done_at_1 no_delay notifier_ok () 1" "done_at_1 1"
    by (simp_all add: started_ok_def notifier_ok_def done_at_1_def)
  have s0: "familyResults (Run_upto ?m done_at_1 no_delay notifier_ok () 0) = []"
    "events (Run_upto ?m done_at_1 no_delay notifier_ok () 0) = []"
    by (simp_all add: Run_upto_def initial_state_def results_New_def)
  from results_store_invariant [OF len(1), of done_at_1 no_delay notifier_ok "()"] len(3) c0
  have k0: "familyResults (Run_upto ?m done_at_1 no_delay notifier_ok () (Suc 0))
                  = familyResults (Run_upto ?m done_at_1 no_delay notifier_ok () 0)
                      @ [fst (run_result ?m done_at_1 no_delay notifier_ok () 0)]"
    "events (Run_upto ?m done_at_1 no_delay notifier_ok () (Suc 0))
                  = events (Run_upto ?m done_at_1 no_delay notifier_ok () 0)
                      @ [Started 0, RunLaunched 0,
                         Stored 0 (fst (run_result ?m done_at_1 no_delay notifier_ok () 0)),
                         Finished 0 \<lparr>fr_Result = fst (run_result ?m done_at_1 no_delay notifier_ok () 0),
                                      fr_FamilyType = GetType (families ?m ! 0), fr_Err = None\<rparr>]"
    by blast+
  from results_store_invariant [OF len(2), of done_at_1 no_delay notifier_ok "()"] len(4) a1
  have k1: "familyResults (Run_upto ?m done_at_1 no_delay notifier_ok () (Suc 1))
              = familyResults (Run_upto ?m done_at_1 no_delay notifier_ok () 1)"
    "errors (Manager_Run ?m done_at_1 no_delay notifier_ok ()) \<noteq> []"
    "\<exists>rs. familyResults (Manager_Run ?m done_at_1 no_delay notifier_ok ())
                  = familyResults (Run_upto ?m done_at_1 no_delay notifier_ok () 1) @ rs"
    by blast+
  have f1: "familyResults (Run_upto ?m done_at_1 no_delay notifier_ok () 1) = [Some ()]"
    using k0(1) s0(1) r0 by simp
  have e1: "events (Run_upto ?m done_at_1 no_delay notifier_ok () 1)
       = [Started 0, RunLaunched 0, Stored 0 (Some ()),
          Finished 0 \<lparr>fr_Result = Some (), fr_FamilyType = SBOM, fr_Err = None\<rparr>]"
    using k0(2) s0(2) r0 conf_ex_types(1) by simp
  have f2: "familyResults (Run_upto ?m done_at_1 no_delay notifier_ok () 2) = [Some ()]"
    using k1(1) f1 by (simp add: numeral_2_eq_2)
  from f1 e1 f2 k1(2) k1(3) show ?thesis
    by simp
qed

end
